theory Spec2Isabelle
  imports Main "HOL-Library.Word" "HOL-Library.Signed_Division"
begin

unbundle bit_operations_syntax

section \<open>Common types\<close>

text \<open>
  The kernel runs on a 32-bit machine: user addresses and sector numbers are 32-bit
  words, \<open>off_t\<close> and \<open>int\<close> are signed 32-bit integers.  Addresses are modelled as
  \<open>32 word\<close> (pointer arithmetic wraps); \<open>off_t\<close>/\<open>int\<close> values are modelled as
  \<open>int\<close>, with C's truncating \<open>/\<close> and \<open>%\<close> written \<open>sdiv\<close> and \<open>smod\<close>.

  A system call or kernel routine either returns (\<open>Ok\<close>), terminates the calling
  process through \<open>thread_exit\<close> after storing an exit status (\<open>Exit\<close>), stops
  the kernel with \<open>PANIC\<close> or a failed \<open>ASSERT\<close> (\<open>Panic\<close>), or runs into
  behaviour the C code leaves undefined, such as dereferencing \<open>NULL\<close> or indexing
  past an array (\<open>Fault\<close>).
\<close>

type_synonym addr = "32 word"
type_synonym byte = "8 word"

datatype 'a result = Ok 'a | Exit int | Panic | Fault

text \<open>The value and state with which a routine returned, if it returned.\<close>

definition returned :: "'a result \<Rightarrow> 'a option" where
  "returned r = (case r of Ok x \<Rightarrow> Some x | Exit s \<Rightarrow> None | Panic \<Rightarrow> None | Fault \<Rightarrow> None)"

section \<open>System-call surface (userprog/syscall.c)\<close>

abbreviation PHYS_BASE :: addr where "PHYS_BASE \<equiv> 0xC0000000"
abbreviation BUFFER_LIMIT :: int where "BUFFER_LIMIT \<equiv> 256"
abbreviation STDIN_FILENO :: int where "STDIN_FILENO \<equiv> 0"
abbreviation STDOUT_FILENO :: int where "STDOUT_FILENO \<equiv> 1"

text \<open>
  What the system calls see of user memory: whether an address is mapped in the
  process's page directory (\<open>pagedir_get_page\<close>), the 32-bit word stored at an
  address and the byte stored at an address.
\<close>

record umem =
  mapped :: "addr \<Rightarrow> bool"
  word_at :: "addr \<Rightarrow> 32 word"
  byte_at :: "addr \<Rightarrow> byte"

text \<open>
  The per-process state the calls touch: the descriptor table \<open>files[MAX_FILES]\<close>
  (\<open>NULL\<close> is \<open>None\<close>), the hint \<open>next_fd\<close>, the chunks handed to \<open>putbuf\<close>
  so far, the number of keys taken with \<open>input_getc\<close>, and the rest of the kernel
  (\<open>kern\<close>: the file system behind the file handles).
\<close>

record ('f, 'k) proc =
  files :: "'f option list"
  next_fd :: int
  console :: "byte list list"
  keys_read :: nat
  kern :: 'k

text \<open>
  \<open>MAX_FILES\<close> is declared in threads/thread.h; it is the size of the array
  \<open>files\<close>.
\<close>

definition MAX_FILES :: "('f, 'k) proc \<Rightarrow> int" where
  "MAX_FILES t = int (length (files t))"

text \<open>
  The operations of filesys/file.c and filesys/inode.c that the calls use on a file
  handle.  They are parameters of the model.
\<close>

record ('f, 'k) fileops =
  file_is_dir :: "'f \<Rightarrow> 'k \<Rightarrow> bool"
  file_length :: "'f \<Rightarrow> 'k \<Rightarrow> int"
  file_read :: "'f \<Rightarrow> addr \<Rightarrow> int \<Rightarrow> 'k \<Rightarrow> int \<times> 'k"
  file_write :: "'f \<Rightarrow> addr \<Rightarrow> int \<Rightarrow> 'k \<Rightarrow> int \<times> 'k"
  file_seek :: "'f \<Rightarrow> int \<Rightarrow> 'k \<Rightarrow> 'k"
  file_tell :: "'f \<Rightarrow> 'k \<Rightarrow> int"
  file_close :: "'f \<Rightarrow> 'k \<Rightarrow> 'k"

subsection \<open>Pointer validation and argument fetch\<close>

definition is_user_vaddr :: "addr \<Rightarrow> bool" where
  "is_user_vaddr a = (a < PHYS_BASE)"

text \<open>\<open>check_pointer\<close>: true when the call goes on, false when it exits with -1.\<close>

definition check_pointer :: "umem \<Rightarrow> addr \<Rightarrow> bool" where
  "check_pointer m argument =
     (\<not> (argument = 0 \<or> \<not> is_user_vaddr argument \<or> \<not> mapped m argument))"

text \<open>
  \<open>get_argument\<close> returns the current stack slot and advances \<open>esp\<close> by four
  bytes; the caller dereferences the slot.
\<close>

definition get_argument :: "umem \<Rightarrow> addr \<Rightarrow> (addr \<times> addr) result" where
  "get_argument m esp =
     (if check_pointer m esp then Ok (esp, esp + 4) else Exit (- 1))"

subsection \<open>Descriptor allocation\<close>

text \<open>The search loop of \<open>init_file\<close> for the next open index.\<close>

function next_open :: "'f option list \<Rightarrow> int \<Rightarrow> int" where
  "next_open fs new_fd =
     (if fs ! nat new_fd \<noteq> None \<and> new_fd < int (length fs) - 1
      then next_open fs (new_fd + 1) else new_fd)"
  by pat_completeness auto
termination
  by (relation "measure (\<lambda>(fs, new_fd). nat (int (length fs) - new_fd))") auto

declare next_open.simps [simp del]

definition init_file :: "'f \<Rightarrow> ('f, 'k) proc \<Rightarrow> (int \<times> ('f, 'k) proc) result" where
  "init_file file t =
     (let fd = next_fd t in
      if fd > 1 then
        (if fd \<ge> MAX_FILES t then Fault
         else
           let t1 = t\<lparr>files := (files t)[nat fd := Some file]\<rparr>;
               new_fd = next_open (files t1) fd
           in if fd = MAX_FILES t then Ok (- 1, t1\<lparr>next_fd := - 1\<rparr>)
              else Ok (fd, t1\<lparr>next_fd := new_fd\<rparr>))
      else Ok (- 1, t))"

text \<open>\<open>is_directory\<close> dereferences \<open>files[fd]\<close> without a \<open>NULL\<close> check.\<close>

definition is_directory :: "('f, 'k) fileops \<Rightarrow> ('f, 'k) proc \<Rightarrow> int \<Rightarrow> bool result" where
  "is_directory ops t fd =
     (case files t ! nat fd of
        None \<Rightarrow> Fault
      | Some file \<Rightarrow> Ok (file_is_dir ops file (kern t)))"

subsection \<open>The calls on descriptors\<close>

text \<open>
  Each call takes the user memory, the stack pointer after the call number and the
  process state, and yields the value stored in \<open>eax\<close> (read as a signed integer;
  \<open>None\<close> when the call stores none) with the new state.
\<close>

definition filesize_call ::
  "('f, 'k) fileops \<Rightarrow> umem \<Rightarrow> addr \<Rightarrow> ('f, 'k) proc \<Rightarrow> (int option \<times> ('f, 'k) proc) result" where
  "filesize_call ops m esp t =
     (case get_argument m esp of
        Exit s \<Rightarrow> Exit s | Panic \<Rightarrow> Panic | Fault \<Rightarrow> Fault
      | Ok (a, esp1) \<Rightarrow>
          let fd = sint (word_at m a) in
          if fd < 2 \<or> fd \<ge> MAX_FILES t then Exit (- 1)
          else
            (case is_directory ops t fd of
               Exit s \<Rightarrow> Exit s | Panic \<Rightarrow> Panic | Fault \<Rightarrow> Fault
             | Ok True \<Rightarrow> Exit (- 1)
             | Ok False \<Rightarrow>
                 (case files t ! nat fd of
                    Some file \<Rightarrow> Ok (Some (file_length ops file (kern t)), t)
                  | None \<Rightarrow> Exit (- 1))))"

definition read_from_stdin :: "int \<Rightarrow> ('f, 'k) proc \<Rightarrow> int \<times> ('f, 'k) proc" where
  "read_from_stdin sz t =
     (let counter = (if 0 < sz then sz else 0)
      in (counter, t\<lparr>keys_read := keys_read t + nat counter\<rparr>))"

definition read_call ::
  "('f, 'k) fileops \<Rightarrow> umem \<Rightarrow> addr \<Rightarrow> ('f, 'k) proc \<Rightarrow> (int option \<times> ('f, 'k) proc) result" where
  "read_call ops m esp t =
     (case get_argument m esp of
        Exit s \<Rightarrow> Exit s | Panic \<Rightarrow> Panic | Fault \<Rightarrow> Fault
      | Ok (a, esp1) \<Rightarrow>
          let fd = sint (word_at m a) in
          if fd = STDOUT_FILENO \<or> fd < 0 \<or> fd \<ge> MAX_FILES t then Ok (Some (- 1), t)
          else
            (case get_argument m esp1 of
               Exit s \<Rightarrow> Exit s | Panic \<Rightarrow> Panic | Fault \<Rightarrow> Fault
             | Ok (b, esp2) \<Rightarrow>
                 let buffer = word_at m b in
                 if \<not> check_pointer m buffer then Exit (- 1)
                 else
                   (case get_argument m esp2 of
                      Exit s \<Rightarrow> Exit s | Panic \<Rightarrow> Panic | Fault \<Rightarrow> Fault
                    | Ok (c, esp3) \<Rightarrow>
                        let sz = sint (word_at m c) in
                        if \<not> check_pointer m (buffer + word_of_int sz) then Exit (- 1)
                        else if fd = STDIN_FILENO then
                          (let (n, t') = read_from_stdin sz t in Ok (Some n, t'))
                        else
                          (case files t ! nat fd of
                             None \<Rightarrow> Ok (Some (- 1), t)
                           | Some file \<Rightarrow>
                               if \<not> file_is_dir ops file (kern t) then
                                 (let (n, k') = file_read ops file buffer sz (kern t)
                                  in Ok (Some n, t\<lparr>kern := k'\<rparr>))
                               else Ok (Some (- 1), t)))))"

text \<open>\<open>putbuf (buffer, n)\<close> hands the \<open>n\<close> bytes starting at \<open>buffer\<close> to the console.\<close>

definition putbuf :: "umem \<Rightarrow> addr \<Rightarrow> int \<Rightarrow> byte list" where
  "putbuf m buffer n = map (\<lambda>i. byte_at m (buffer + of_nat i)) [0..<nat n]"

function write_to_stdout_loop ::
  "umem \<Rightarrow> int \<Rightarrow> addr \<Rightarrow> byte list list \<Rightarrow> int \<times> addr \<times> byte list list" where
  "write_to_stdout_loop m sz buffer out =
     (if sz sdiv BUFFER_LIMIT \<ge> 1
      then write_to_stdout_loop m (sz - BUFFER_LIMIT) (buffer + 256)
             (out @ [putbuf m buffer sz])
      else (sz, buffer, out))"
  by pat_completeness auto
termination
proof (relation "measure (\<lambda>(m, sz, buffer, out). nat sz)")
  show "wf (measure (\<lambda>(m, sz, buffer, out). nat sz))" by simp
next
  fix m :: umem and sz :: int and buffer :: addr and out :: "byte list list"
  assume a: "1 \<le> sz sdiv BUFFER_LIMIT"
  have "0 < sz"
  proof (rule ccontr)
    assume "\<not> 0 < sz"
    then have "sz sdiv 256 \<le> 0"
      by (simp add: signed_divide_int_def sgn_if zero_le_mult_iff pos_imp_zdiv_nonneg_iff)
    with a show False by simp
  qed
  then show "((m, sz - BUFFER_LIMIT, buffer + 256, out @ [putbuf m buffer sz]),
              (m, sz, buffer, out)) \<in> measure (\<lambda>(m, sz, buffer, out). nat sz)"
    by simp
qed

declare write_to_stdout_loop.simps [simp del]

definition write_to_stdout :: "umem \<Rightarrow> int \<Rightarrow> addr \<Rightarrow> ('f, 'k) proc \<Rightarrow> int \<times> ('f, 'k) proc" where
  "write_to_stdout m old_size buffer t =
     (let (sz, buffer1, out) = write_to_stdout_loop m old_size buffer (console t);
          out1 = (if sz smod BUFFER_LIMIT > 0 then out @ [putbuf m buffer1 sz] else out)
      in (old_size, t\<lparr>console := out1\<rparr>))"

definition write_call ::
  "('f, 'k) fileops \<Rightarrow> umem \<Rightarrow> addr \<Rightarrow> ('f, 'k) proc \<Rightarrow> (int option \<times> ('f, 'k) proc) result" where
  "write_call ops m esp t =
     (case get_argument m esp of
        Exit s \<Rightarrow> Exit s | Panic \<Rightarrow> Panic | Fault \<Rightarrow> Fault
      | Ok (a, esp1) \<Rightarrow>
          let fd = sint (word_at m a) in
          if fd \<le> STDIN_FILENO \<or> fd \<ge> MAX_FILES t then Ok (Some (- 1), t)
          else
            (case get_argument m esp1 of
               Exit s \<Rightarrow> Exit s | Panic \<Rightarrow> Panic | Fault \<Rightarrow> Fault
             | Ok (b, esp2) \<Rightarrow>
                 let buffer = word_at m b in
                 if \<not> check_pointer m buffer then Exit (- 1)
                 else
                   (case get_argument m esp2 of
                      Exit s \<Rightarrow> Exit s | Panic \<Rightarrow> Panic | Fault \<Rightarrow> Fault
                    | Ok (c, esp3) \<Rightarrow>
                        let sz = sint (word_at m c) in
                        if \<not> check_pointer m (buffer + word_of_int sz) then Exit (- 1)
                        else if fd = STDOUT_FILENO then
                          (let (n, t') = write_to_stdout m sz buffer t in Ok (Some n, t'))
                        else
                          (case files t ! nat fd of
                             Some file \<Rightarrow>
                               (let (n, k') = file_write ops file buffer sz (kern t)
                                in Ok (Some n, t\<lparr>kern := k'\<rparr>))
                           | None \<Rightarrow> Ok (Some (- 1), t)))))"

definition seek_call ::
  "('f, 'k) fileops \<Rightarrow> umem \<Rightarrow> addr \<Rightarrow> ('f, 'k) proc \<Rightarrow> (int option \<times> ('f, 'k) proc) result" where
  "seek_call ops m esp t =
     (case get_argument m esp of
        Exit s \<Rightarrow> Exit s | Panic \<Rightarrow> Panic | Fault \<Rightarrow> Fault
      | Ok (a, esp1) \<Rightarrow>
          let fd = sint (word_at m a) in
          if fd < 2 \<or> fd \<ge> MAX_FILES t then Exit (- 1)
          else
            (case is_directory ops t fd of
               Exit s \<Rightarrow> Exit s | Panic \<Rightarrow> Panic | Fault \<Rightarrow> Fault
             | Ok True \<Rightarrow> Exit (- 1)
             | Ok False \<Rightarrow>
                 (case get_argument m esp1 of
                    Exit s \<Rightarrow> Exit s | Panic \<Rightarrow> Panic | Fault \<Rightarrow> Fault
                  | Ok (b, esp2) \<Rightarrow>
                      let position = sint (word_at m b) in
                      (case files t ! nat fd of
                         None \<Rightarrow> Exit (- 1)
                       | Some file \<Rightarrow>
                           Ok (None, t\<lparr>kern := file_seek ops file position (kern t)\<rparr>)))))"

definition tell_call ::
  "('f, 'k) fileops \<Rightarrow> umem \<Rightarrow> addr \<Rightarrow> ('f, 'k) proc \<Rightarrow> (int option \<times> ('f, 'k) proc) result" where
  "tell_call ops m esp t =
     (case get_argument m esp of
        Exit s \<Rightarrow> Exit s | Panic \<Rightarrow> Panic | Fault \<Rightarrow> Fault
      | Ok (a, esp1) \<Rightarrow>
          let fd = sint (word_at m a) in
          if fd < 2 \<or> fd \<ge> MAX_FILES t then Exit (- 1)
          else
            (case is_directory ops t fd of
               Exit s \<Rightarrow> Exit s | Panic \<Rightarrow> Panic | Fault \<Rightarrow> Fault
             | Ok True \<Rightarrow> Exit (- 1)
             | Ok False \<Rightarrow>
                 (case files t ! nat fd of
                    Some file \<Rightarrow> Ok (Some (file_tell ops file (kern t)), t)
                  | None \<Rightarrow> Ok (Some (- 1), t))))"

definition close_call ::
  "('f, 'k) fileops \<Rightarrow> umem \<Rightarrow> addr \<Rightarrow> ('f, 'k) proc \<Rightarrow> (int option \<times> ('f, 'k) proc) result" where
  "close_call ops m esp t =
     (case get_argument m esp of
        Exit s \<Rightarrow> Exit s | Panic \<Rightarrow> Panic | Fault \<Rightarrow> Fault
      | Ok (a, esp1) \<Rightarrow>
          let fd = sint (word_at m a) in
          if fd < 2 \<or> fd \<ge> MAX_FILES t then Exit (- 1)
          else
            (case files t ! nat fd of
               None \<Rightarrow> Exit (- 1)
             | Some file \<Rightarrow>
                 let t1 = t\<lparr>kern := file_close ops file (kern t),
                            files := (files t)[nat fd := None]\<rparr>
                 in Ok (None, if fd < next_fd t1 then t1\<lparr>next_fd := fd\<rparr> else t1)))"

section \<open>Virtual memory (vm/page.c, vm/frame.c, vm/swap.c, userprog/exception.c)\<close>

abbreviation PGSIZE :: nat where "PGSIZE \<equiv> 4096"
abbreviation BLOCK_SECTOR_SIZE :: nat where "BLOCK_SECTOR_SIZE \<equiv> 512"
abbreviation SECTORS_IN_PAGE :: nat where "SECTORS_IN_PAGE \<equiv> 8"
abbreviation STACK_LIMIT :: addr where "STACK_LIMIT \<equiv> 0x800000"

text \<open>
  \<open>PUSH_BYTES\<close> is declared in a header that is not part of the sources at hand;
  the specification gives its value, 32.
\<close>

abbreviation PUSH_BYTES :: addr where "PUSH_BYTES \<equiv> 32"

text \<open>
  The kernel allocator (\<open>malloc\<close>, \<open>calloc\<close>) is seen through the outcomes of
  its future requests: request number \<open>n\<close> from now succeeds iff the oracle holds
  at \<open>n\<close>.
\<close>

type_synonym heap = "nat \<Rightarrow> bool"

definition malloc :: "heap \<Rightarrow> bool \<times> heap" where
  "malloc h = (h 0, (\<lambda>n. h (Suc n)))"

subsection \<open>Data\<close>

type_synonym tid = nat

datatype block_type = BLOCK_KERNEL | BLOCK_FILESYS | BLOCK_SWAP

record sp_entry =
  upage :: addr
  block :: block_type
  mem_addr :: addr
  file_addr :: addr
  read_bytes :: int
  swap_index :: int
  writable :: bool

record frame_entry =
  fe_upage :: addr
  frame_owner :: "tid option"
  used :: bool

text \<open>
  A page directory (userprog/pagedir.c) maps a present user page to its frame and its
  writable, accessed and dirty bits.
\<close>

record pte =
  pte_kpage :: addr
  pte_writable :: bool
  pte_accessed :: bool
  pte_dirty :: bool

type_synonym pagedir = "addr \<Rightarrow> pte option"

text \<open>
  The state of the virtual-memory layer: the frame table with its clock hand and base
  address, every thread's page directory and supplemental page table (the entries of
  the hash table \<open>sup_table\<close>, found by their \<open>upage\<close>), the swap bitmap, the
  sectors of the swap partition, physical memory by kernel address, and the allocator.
\<close>

record vm_state =
  frame_table :: "frame_entry list"
  clock_hand :: nat
  base_address :: addr
  pagedirs :: "tid \<Rightarrow> pagedir"
  sup_tables :: "tid \<Rightarrow> sp_entry list"
  swap_map :: "bool list"
  swap_disk :: "nat \<Rightarrow> byte list"
  phys_mem :: "addr \<Rightarrow> byte"
  vm_heap :: heap

subsection \<open>Page directory and bitmap primitives\<close>

definition pagedir_is_accessed :: "pagedir \<Rightarrow> addr \<Rightarrow> bool" where
  "pagedir_is_accessed pd u = (case pd u of None \<Rightarrow> False | Some e \<Rightarrow> pte_accessed e)"

definition pagedir_set_accessed :: "pagedir \<Rightarrow> addr \<Rightarrow> bool \<Rightarrow> pagedir" where
  "pagedir_set_accessed pd u b =
     (case pd u of None \<Rightarrow> pd | Some e \<Rightarrow> pd(u := Some (e\<lparr>pte_accessed := b\<rparr>)))"

definition pagedir_is_dirty :: "pagedir \<Rightarrow> addr \<Rightarrow> bool" where
  "pagedir_is_dirty pd u = (case pd u of None \<Rightarrow> False | Some e \<Rightarrow> pte_dirty e)"

definition pagedir_set_dirty :: "pagedir \<Rightarrow> addr \<Rightarrow> bool \<Rightarrow> pagedir" where
  "pagedir_set_dirty pd u b =
     (case pd u of None \<Rightarrow> pd | Some e \<Rightarrow> pd(u := Some (e\<lparr>pte_dirty := b\<rparr>)))"

definition pagedir_clear_page :: "pagedir \<Rightarrow> addr \<Rightarrow> pagedir" where
  "pagedir_clear_page pd u = pd(u := None)"

text \<open>\<open>bitmap_scan\<close>: the lowest index whose bit is false, if any.\<close>

fun bitmap_scan :: "bool list \<Rightarrow> nat option" where
  "bitmap_scan [] = None"
| "bitmap_scan (b # bs) = (if \<not> b then Some 0 else map_option Suc (bitmap_scan bs))"

text \<open>\<open>bitmap_flip\<close> asserts that the index lies inside the bitmap.\<close>

definition bitmap_flip :: "bool list \<Rightarrow> nat \<Rightarrow> bool list result" where
  "bitmap_flip b i = (if i < length b then Ok (b[i := \<not> b ! i]) else Panic)"

subsection \<open>Supplemental page table (vm/page.c)\<close>

definition page_find :: "vm_state \<Rightarrow> tid \<Rightarrow> addr \<Rightarrow> sp_entry option" where
  "page_find s thread u = find (\<lambda>e. upage e = u) (sup_tables s thread)"

text \<open>
  An update through the pointer that \<open>page_find\<close> returned changes that entry of
  the table in place.
\<close>

fun entry_update :: "(sp_entry \<Rightarrow> sp_entry) \<Rightarrow> addr \<Rightarrow> sp_entry list \<Rightarrow> sp_entry list" where
  "entry_update f u [] = []"
| "entry_update f u (e # es) = (if upage e = u then f e # es else e # entry_update f u es)"

definition page_update :: "vm_state \<Rightarrow> tid \<Rightarrow> addr \<Rightarrow> (sp_entry \<Rightarrow> sp_entry) \<Rightarrow> vm_state" where
  "page_update s thread u f =
     s\<lparr>sup_tables := (sup_tables s)(thread := entry_update f u (sup_tables s thread))\<rparr>"

text \<open>The assignments of \<open>page_replace\<close> and \<open>page_set_sector\<close> on the entry.\<close>

definition page_replace :: "addr \<Rightarrow> block_type \<Rightarrow> sp_entry \<Rightarrow> sp_entry" where
  "page_replace new_address blk page =
     page\<lparr>mem_addr := new_address, swap_index := - 1, block := blk\<rparr>"

definition page_set_sector :: "int \<Rightarrow> sp_entry \<Rightarrow> sp_entry" where
  "page_set_sector index page =
     page\<lparr>swap_index := index, block := BLOCK_SWAP, mem_addr := 0\<rparr>"

definition page_set_writable :: "bool \<Rightarrow> sp_entry \<Rightarrow> sp_entry" where
  "page_set_writable w page = page\<lparr>writable := w\<rparr>"

text \<open>
  \<open>page_insert\<close> for a block other than \<open>BLOCK_FILESYS\<close> stores the address in
  \<open>mem_addr\<close>; the fields that the C code leaves uninitialised are given as zero.
  \<open>hash_insert\<close> keeps an existing entry with the same key, in which case the
  pointer returned is to an entry outside the table.  The result tells whether the
  allocation succeeded and whether the entry is in the table.
\<close>

definition page_insert ::
  "vm_state \<Rightarrow> tid \<Rightarrow> addr \<Rightarrow> addr \<Rightarrow> block_type \<Rightarrow> bool \<times> bool \<times> vm_state" where
  "page_insert s cur u address blk =
     (let (ok, h) = malloc (vm_heap s); s1 = s\<lparr>vm_heap := h\<rparr> in
      if \<not> ok then (False, False, s1)
      else
        let entry = \<lparr>upage = u, block = blk,
                     mem_addr = (if blk = BLOCK_FILESYS then 0 else address),
                     file_addr = (if blk = BLOCK_FILESYS then address else 0),
                     read_bytes = 0, swap_index = - 1, writable = False\<rparr>
        in if page_find s1 cur u = None
           then (True, True,
                 s1\<lparr>sup_tables := (sup_tables s1)(cur := sup_tables s1 cur @ [entry])\<rparr>)
           else (True, False, s1))"

subsection \<open>Frame table (vm/frame.c)\<close>

definition get_frame :: "vm_state \<Rightarrow> addr \<Rightarrow> nat option result" where
  "get_frame s kpage =
     (let address = unat (kpage - base_address s) div PGSIZE in
      if address > length (frame_table s) then Ok None
      else if address = length (frame_table s) then Fault
      else Ok (Some address))"

definition frame_deallocate :: "vm_state \<Rightarrow> addr \<Rightarrow> (bool \<times> vm_state) result" where
  "frame_deallocate s kpage =
     (case get_frame s kpage of
        Exit st \<Rightarrow> Exit st | Panic \<Rightarrow> Panic | Fault \<Rightarrow> Fault
      | Ok None \<Rightarrow> Ok (False, s)
      | Ok (Some i) \<Rightarrow>
          Ok (True, s\<lparr>frame_table :=
                (frame_table s)[i := (frame_table s ! i)\<lparr>fe_upage := 0, frame_owner := None\<rparr>]\<rparr>))"

subsection \<open>Swap (vm/swap.c)\<close>

definition mem_bytes :: "(addr \<Rightarrow> byte) \<Rightarrow> addr \<Rightarrow> nat \<Rightarrow> byte list" where
  "mem_bytes mem a n = map (\<lambda>j. mem (a + of_nat j)) [0..<n]"

definition mem_store :: "(addr \<Rightarrow> byte) \<Rightarrow> addr \<Rightarrow> byte list \<Rightarrow> (addr \<Rightarrow> byte)" where
  "mem_store mem a bs = (\<lambda>x. if unat (x - a) < length bs then bs ! unat (x - a) else mem x)"

text \<open>The loop of \<open>swap_write\<close> over the sectors \<open>i, ..., 7\<close> of slot \<open>index\<close>.\<close>

fun swap_write_sectors :: "(addr \<Rightarrow> byte) \<Rightarrow> addr \<Rightarrow> nat \<Rightarrow> nat list \<Rightarrow> (nat \<Rightarrow> byte list) \<Rightarrow> (nat \<Rightarrow> byte list)" where
  "swap_write_sectors mem a index [] d = d"
| "swap_write_sectors mem a index (i # is) d =
     swap_write_sectors mem a index is
       (d(index * SECTORS_IN_PAGE + i :=
            mem_bytes mem (a + of_nat (BLOCK_SECTOR_SIZE * i)) BLOCK_SECTOR_SIZE))"

definition swap_write :: "vm_state \<Rightarrow> tid \<Rightarrow> sp_entry \<Rightarrow> vm_state result" where
  "swap_write s thread page =
     (case bitmap_scan (swap_map s) of
        None \<Rightarrow> Panic
      | Some index \<Rightarrow>
          let s1 = s\<lparr>swap_map := (swap_map s)[index := True],
                     swap_disk := swap_write_sectors (phys_mem s) (mem_addr page) index
                                    [0..<SECTORS_IN_PAGE] (swap_disk s)\<rparr>
          in Ok (page_update s1 thread (upage page) (page_set_sector (int index))))"

fun swap_read_sectors :: "(nat \<Rightarrow> byte list) \<Rightarrow> nat \<Rightarrow> addr \<Rightarrow> nat list \<Rightarrow> (addr \<Rightarrow> byte) \<Rightarrow> (addr \<Rightarrow> byte)" where
  "swap_read_sectors d index kpage [] mem = mem"
| "swap_read_sectors d index kpage (i # is) mem =
     swap_read_sectors d index kpage is
       (mem_store mem (kpage + of_nat (BLOCK_SECTOR_SIZE * i))
          (take BLOCK_SECTOR_SIZE (d (index * SECTORS_IN_PAGE + i))))"

text \<open>
  \<open>swap_read\<close> reads \<open>swap_index\<close> as an unsigned number, so that -1 becomes
  \<open>2^32 - 1\<close>.
\<close>

definition swap_read :: "vm_state \<Rightarrow> sp_entry \<Rightarrow> addr \<Rightarrow> vm_state result" where
  "swap_read s page kpage =
     (let index = nat (swap_index page mod 2 ^ 32);
          mem = swap_read_sectors (swap_disk s) index kpage [0..<SECTORS_IN_PAGE] (phys_mem s)
      in case bitmap_flip (swap_map s) index of
           Exit st \<Rightarrow> Exit st | Panic \<Rightarrow> Panic | Fault \<Rightarrow> Fault
         | Ok b \<Rightarrow> Ok (s\<lparr>phys_mem := mem, swap_map := b\<rparr>))"

subsection \<open>Clock eviction (userprog/exception.c)\<close>

text \<open>
  The frame under the hand with its owner; the code dereferences both without a
  check.
\<close>

definition frame_at_hand :: "vm_state \<Rightarrow> (frame_entry \<times> tid) result" where
  "frame_at_hand s =
     (if clock_hand s < length (frame_table s) then
        (case frame_owner (frame_table s ! clock_hand s) of
           None \<Rightarrow> Fault
         | Some owner \<Rightarrow> Ok (frame_table s ! clock_hand s, owner))
      else Fault)"

definition frame_accessed :: "(tid \<Rightarrow> pagedir) \<Rightarrow> frame_entry \<Rightarrow> bool" where
  "frame_accessed pds fr =
     (case frame_owner fr of
        None \<Rightarrow> False
      | Some owner \<Rightarrow> pagedir_is_accessed (pds owner) (fe_upage fr))"

definition clock_advance :: "vm_state \<Rightarrow> tid \<Rightarrow> frame_entry \<Rightarrow> vm_state" where
  "clock_advance s owner fr =
     s\<lparr>pagedirs := (pagedirs s)(owner := pagedir_set_accessed (pagedirs s owner) (fe_upage fr) False),
       clock_hand := (if clock_hand s < length (frame_table s) - 1 then clock_hand s + 1 else 0)\<rparr>"

lemma clock_advance_measure:
  assumes "frame_at_hand s = Ok (fr, owner)"
    and "pagedir_is_accessed (pagedirs s owner) (fe_upage fr)"
  shows "length (filter (frame_accessed (pagedirs (clock_advance s owner fr)))
                   (frame_table (clock_advance s owner fr)))
         < length (filter (frame_accessed (pagedirs s)) (frame_table s))"
proof -
  let ?P = "frame_accessed (pagedirs s)"
  let ?Q = "frame_accessed (pagedirs (clock_advance s owner fr))"
  have mem: "fr \<in> set (frame_table s)" and own: "frame_owner fr = Some owner"
    using assms(1) by (auto simp: frame_at_hand_def split: if_splits option.splits)
  have imp: "?Q f \<Longrightarrow> ?P f" for f
    by (auto simp: frame_accessed_def clock_advance_def pagedir_is_accessed_def
          pagedir_set_accessed_def split: option.splits if_splits)
  have P: "?P fr"
    using assms(2) own by (simp add: frame_accessed_def)
  have nQ: "\<not> ?Q fr"
    using own
    by (auto simp: frame_accessed_def clock_advance_def pagedir_is_accessed_def
          pagedir_set_accessed_def split: option.splits)
  have "filter ?Q (frame_table s) = filter ?Q (filter ?P (frame_table s))"
    using imp by (auto simp: filter_filter intro: filter_cong)
  moreover have "fr \<in> set (filter ?P (frame_table s))"
    using mem P by simp
  ultimately have "length (filter ?Q (frame_table s)) < length (filter ?P (frame_table s))"
    using nQ by (metis length_filter_less)
  then show ?thesis by (simp add: clock_advance_def)
qed

text \<open>
  The loop of \<open>evict\<close>: while the frame under the hand has its accessed bit set,
  clear the bit and advance the hand.
\<close>

function clock_sweep :: "vm_state \<Rightarrow> vm_state result" where
  "clock_sweep s =
     (case frame_at_hand s of
        Exit st \<Rightarrow> Exit st | Panic \<Rightarrow> Panic | Fault \<Rightarrow> Fault
      | Ok (fr, owner) \<Rightarrow>
          if pagedir_is_accessed (pagedirs s owner) (fe_upage fr)
          then clock_sweep (clock_advance s owner fr)
          else Ok s)"
  by pat_completeness auto
termination
  by (relation "measure (\<lambda>s. length (filter (frame_accessed (pagedirs s)) (frame_table s)))")
     (auto intro: clock_advance_measure)

declare clock_sweep.simps [simp del]

definition evict :: "vm_state \<Rightarrow> (addr \<times> vm_state) result" where
  "evict s =
     (case clock_sweep s of
        Exit st \<Rightarrow> Exit st | Panic \<Rightarrow> Panic | Fault \<Rightarrow> Fault
      | Ok s1 \<Rightarrow>
          (case frame_at_hand s1 of
             Exit st \<Rightarrow> Exit st | Panic \<Rightarrow> Panic | Fault \<Rightarrow> Fault
           | Ok (frame, owner) \<Rightarrow>
               let pd = pagedirs s1 owner;
                   kpage = of_nat (clock_hand s1 * PGSIZE) + base_address s1
               in case page_find s1 owner (fe_upage frame) of
                    None \<Rightarrow> Fault
                  | Some page \<Rightarrow>
                      (case (if pagedir_is_dirty pd (fe_upage frame)
                             then swap_write s1 owner page
                             else Ok (page_update s1 owner (upage page)
                                        (page_replace 0 BLOCK_FILESYS))) of
                         Exit st \<Rightarrow> Exit st | Panic \<Rightarrow> Panic | Fault \<Rightarrow> Fault
                       | Ok s2 \<Rightarrow>
                           let s3 = s2\<lparr>pagedirs := (pagedirs s2)
                                      (owner := pagedir_clear_page (pagedirs s2 owner) (upage page))\<rparr>
                           in case frame_deallocate s3 kpage of
                                Exit st \<Rightarrow> Exit st | Panic \<Rightarrow> Panic | Fault \<Rightarrow> Fault
                              | Ok (freed, s4) \<Rightarrow>
                                  Ok (kpage,
                                      s4\<lparr>phys_mem := mem_store (phys_mem s4) kpage
                                                        (replicate PGSIZE 0)\<rparr>))))"

subsection \<open>Page fault resolution (userprog/exception.c)\<close>

abbreviation PF_P :: "32 word" where "PF_P \<equiv> 1"
abbreviation PF_W :: "32 word" where "PF_W \<equiv> 2"
abbreviation PF_U :: "32 word" where "PF_U \<equiv> 4"

text \<open>
  The routines that \<open>page_fault\<close> calls outside the sources at hand are parameters:
  the user page allocator (threads/palloc.c), \<open>install_page\<close> (userprog/process.c)
  and \<open>file_read_at\<close> at the file's current position (filesys/file.c).  A process
  that exits leaves no state behind in this model, so the clean-up before
  \<open>thread_exit\<close> on the failure path is not shown.
\<close>

record vm_ext =
  palloc_get_page :: "vm_state \<Rightarrow> addr option \<times> vm_state"
  install_page :: "tid \<Rightarrow> addr \<Rightarrow> addr \<Rightarrow> bool \<Rightarrow> vm_state \<Rightarrow> bool \<times> vm_state"
  file_read_at :: "addr \<Rightarrow> addr \<Rightarrow> int \<Rightarrow> vm_state \<Rightarrow> vm_state"

definition set_dirty :: "tid \<Rightarrow> addr \<Rightarrow> vm_state \<Rightarrow> vm_state" where
  "set_dirty cur u s =
     s\<lparr>pagedirs := (pagedirs s)(cur := pagedir_set_dirty (pagedirs s cur) u True)\<rparr>"

definition grow_stack ::
  "vm_ext \<Rightarrow> tid \<Rightarrow> addr \<Rightarrow> addr \<Rightarrow> addr \<Rightarrow> vm_state \<Rightarrow> (bool \<times> vm_state) result" where
  "grow_stack ext cur fault_addr u kpage s =
     (if fault_addr < PHYS_BASE - STACK_LIMIT then Exit (- 1)
      else
        let (success, s1) = install_page ext cur u kpage True s;
            s2 = set_dirty cur u s1
        in if success then
             (let (ok, inserted, s3) = page_insert s2 cur u kpage BLOCK_KERNEL
              in Ok (ok, if inserted then page_update s3 cur u (page_set_writable True) else s3))
           else Ok (False, s2))"

definition read_filesys :: "vm_ext \<Rightarrow> sp_entry \<Rightarrow> addr \<Rightarrow> vm_state \<Rightarrow> vm_state" where
  "read_filesys ext page kpage s = file_read_at ext (file_addr page) kpage (read_bytes page) s"

text \<open>
  \<open>page\<close> is a pointer into the table, so the reads of \<open>page->block\<close> and
  \<open>page->writable\<close> after the eviction see the entry as it is then.
\<close>

definition page_fault ::
  "vm_ext \<Rightarrow> tid \<Rightarrow> addr \<Rightarrow> 32 word \<Rightarrow> addr \<Rightarrow> vm_state \<Rightarrow> vm_state result" where
  "page_fault ext cur fault_addr error_code esp s =
     (let not_present = (error_code AND PF_P = 0);
          u = fault_addr - (fault_addr mod 4096);
          page = page_find s cur u;
          stack_growth = (fault_addr \<ge> esp - PUSH_BYTES \<and> page = None)
      in
      if \<not> not_present \<or> \<not> is_user_vaddr u \<or> (page = None \<and> \<not> stack_growth) then Exit (- 1)
      else
        (case (case palloc_get_page ext s of
                 (Some k, s1) \<Rightarrow> Ok (k, s1)
               | (None, s1) \<Rightarrow> evict s1) of
           Exit st \<Rightarrow> Exit st | Panic \<Rightarrow> Panic | Fault \<Rightarrow> Fault
         | Ok (kpage, s1) \<Rightarrow>
             (case (if stack_growth then grow_stack ext cur fault_addr u kpage s1
                    else
                      (case page_find s1 cur u of
                         None \<Rightarrow> Fault
                       | Some pg \<Rightarrow>
                           (case (if block pg = BLOCK_FILESYS
                                  then Ok (False, read_filesys ext pg kpage s1)
                                  else if block pg = BLOCK_SWAP
                                  then (case swap_read s1 pg kpage of
                                          Exit st \<Rightarrow> Exit st | Panic \<Rightarrow> Panic | Fault \<Rightarrow> Fault
                                        | Ok s2 \<Rightarrow> Ok (True, s2))
                                  else Ok (False, s1)) of
                              Exit st \<Rightarrow> Exit st | Panic \<Rightarrow> Panic | Fault \<Rightarrow> Fault
                            | Ok (swapped, s2) \<Rightarrow>
                                let (installed, s3) = install_page ext cur u kpage (writable pg) s2;
                                    s4 = (if installed
                                          then page_update s3 cur u (page_replace kpage BLOCK_KERNEL)
                                          else s3);
                                    s5 = (if swapped then set_dirty cur u s4 else s4)
                                in Ok (installed, s5)))) of
                Exit st \<Rightarrow> Exit st | Panic \<Rightarrow> Panic | Fault \<Rightarrow> Fault
              | Ok (success, s6) \<Rightarrow>
                  if \<not> success then Exit (- 1) else Ok s6)))"

section \<open>Inodes (filesys/inode.c)\<close>

abbreviation DIRECT_SECTORS :: nat where "DIRECT_SECTORS \<equiv> 10"
abbreviation POINTERS_IN_SECTOR :: nat where "POINTERS_IN_SECTOR \<equiv> 128"
abbreviation SECTORS_BEFORE_SL :: nat where "SECTORS_BEFORE_SL \<equiv> 138"
abbreviation INDEX_OF_FL :: nat where "INDEX_OF_FL \<equiv> 10"
abbreviation INDEX_OF_SL :: nat where "INDEX_OF_SL \<equiv> 11"
abbreviation INODE_MAGIC :: nat where "INODE_MAGIC \<equiv> 0x494e4f44"

subsection \<open>Memory, sectors and the device\<close>

text \<open>
  A region of memory is the function from the offset in it to the byte there.  A
  sector of the file-system device holds 512 bytes; the device is the function from the
  sector number to the sector.  The range check of the block driver (devices/block.c),
  which panics on a sector number past the end of the device, is not part of this
  model: every sector number names a sector.  Locks are not modelled; one call runs
  at a time.
\<close>

type_synonym bytes = "nat \<Rightarrow> byte"

definition zeros :: bytes where
  "zeros = (\<lambda>i. 0)"

definition sector_of :: "bytes \<Rightarrow> bytes" where
  "sector_of b = (\<lambda>i. if i < BLOCK_SECTOR_SIZE then b i else 0)"

definition block_read :: "(nat \<Rightarrow> bytes) \<Rightarrow> nat \<Rightarrow> bytes" where
  "block_read d sec = d sec"

definition block_write :: "(nat \<Rightarrow> bytes) \<Rightarrow> nat \<Rightarrow> bytes \<Rightarrow> (nat \<Rightarrow> bytes)" where
  "block_write d sec b = d(sec := sector_of b)"

text \<open>\<open>memcpy (dst + doff, src + soff, n)\<close>.\<close>

definition memcpy :: "bytes \<Rightarrow> nat \<Rightarrow> bytes \<Rightarrow> nat \<Rightarrow> nat \<Rightarrow> bytes" where
  "memcpy dst doff src soff n =
     (\<lambda>i. if doff \<le> i \<and> i < doff + n then src (soff + (i - doff)) else dst i)"

text \<open>
  Conversion of a signed value to \<open>size_t\<close> or \<open>block_sector_t\<close>, and the value
  \<open>(block_sector_t) -1\<close>.
\<close>

definition u32 :: "int \<Rightarrow> nat" where
  "u32 x = nat (x mod 2 ^ 32)"

abbreviation NO_SECTOR :: nat where "NO_SECTOR \<equiv> 4294967295"

text \<open>
  A sector that holds 128 sector numbers is read as little-endian 32-bit words; in
  memory such a block is the function from the index to the number.
\<close>

type_synonym index_block = "nat \<Rightarrow> nat"

definition rd32 :: "bytes \<Rightarrow> nat \<Rightarrow> nat" where
  "rd32 b k = unat (b (4 * k)) + 256 * unat (b (4 * k + 1)) + 65536 * unat (b (4 * k + 2))
              + 16777216 * unat (b (4 * k + 3))"

definition wr32 :: "index_block \<Rightarrow> bytes" where
  "wr32 es = (\<lambda>i. if i < BLOCK_SECTOR_SIZE
                   then of_nat (es (i div 4) div 256 ^ (i mod 4) mod 256) else 0)"

record inode_disk =
  data_blocks :: "nat list"
  ilength :: int
  magic :: nat
  parent_directory :: nat
  inode_is_directory :: nat

text \<open>
  The on-disk image of an inode: twelve sector numbers, \<open>length\<close>, \<open>magic\<close>,
  \<open>parent_directory\<close>, \<open>is_directory\<close>, and 112 unused words, which are zero.
\<close>

definition inode_words :: "inode_disk \<Rightarrow> index_block" where
  "inode_words di =
     (\<lambda>k. if k < 12 then data_blocks di ! k
          else if k = 12 then u32 (ilength di)
          else if k = 13 then magic di
          else if k = 14 then parent_directory di
          else if k = 15 then inode_is_directory di
          else 0)"

definition s32 :: "nat \<Rightarrow> int" where
  "s32 n = (if n < 2 ^ 31 then int n else int n - 2 ^ 32)"

definition read_inode_disk :: "bytes \<Rightarrow> inode_disk" where
  "read_inode_disk b =
     \<lparr>data_blocks = map (rd32 b) [0..<12],
      ilength = s32 (rd32 b 12),
      magic = rd32 b 13,
      parent_directory = rd32 b 14,
      inode_is_directory = rd32 b 15\<rparr>"

record inode =
  sector :: nat
  open_cnt :: int
  removed :: bool
  deny_write_cnt :: int
  data :: inode_disk

text \<open>
  The device side of the file system: the sectors, the free-sector bitmap and the
  kernel allocator.
\<close>

record fs_dev =
  disk :: "nat \<Rightarrow> bytes"
  free_map :: "bool list"
  fs_heap :: heap

text \<open>
  The file system: the device and the list \<open>open_inodes\<close>.  The list holds at most
  one inode for a sector, so a pointer to an open inode is modelled by the sector
  number; \<open>NULL\<close> is \<open>None\<close>.  A pointer to an inode that has been freed names no
  inode; its use is undefined.
\<close>

record fsys =
  device :: fs_dev
  open_inodes :: "inode list"

text \<open>A directory handle: the inode, by its pointer, and the position.\<close>

record dir =
  dir_inode :: nat
  dir_pos :: int

definition fs_malloc :: "fs_dev \<Rightarrow> bool \<times> fs_dev" where
  "fs_malloc dev = (let (ok, h) = malloc (fs_heap dev) in (ok, dev\<lparr>fs_heap := h\<rparr>))"

text \<open>An allocator none of whose future requests fails.\<close>

definition heap_ok :: "heap \<Rightarrow> bool" where
  "heap_ok h = (\<forall>n. h n)"

subsection \<open>Free-sector map\<close>

text \<open>
  Modelled from the spec: \<open>free_map_allocate\<close>, \<open>free_map_release\<close> and
  \<open>free_map_count\<close> of filesys/free-map.c, which is not among the sources at
  hand.  The map is a bitmap over the sectors of the device, a set bit meaning a sector
  in use.  \<open>free_map_allocate (1, &sector)\<close> reserves a free sector, stores its
  number through the pointer and returns true; with no free sector it returns false
  and stores nothing.  The result is the flag, the value now behind the pointer and
  the new state.  Writing the bitmap back to its file is left out.
\<close>

definition free_map_allocate :: "fs_dev \<Rightarrow> nat \<Rightarrow> bool \<times> nat \<times> fs_dev" where
  "free_map_allocate dev old =
     (case bitmap_scan (free_map dev) of
        None \<Rightarrow> (False, old, dev)
      | Some s \<Rightarrow> (True, s, dev\<lparr>free_map := (free_map dev)[s := True]\<rparr>))"

definition free_map_release :: "fs_dev \<Rightarrow> nat \<Rightarrow> fs_dev" where
  "free_map_release dev s = dev\<lparr>free_map := (free_map dev)[s := False]\<rparr>"

definition free_map_count :: "fs_dev \<Rightarrow> nat" where
  "free_map_count dev = length (filter (\<lambda>b. \<not> b) (free_map dev))"

subsection \<open>Sector lookup\<close>

definition bytes_to_sectors :: "int \<Rightarrow> nat" where
  "bytes_to_sectors sz = u32 ((sz + 512 - 1) sdiv 512)"

definition byte_to_sector :: "inode \<Rightarrow> int \<Rightarrow> int \<Rightarrow> fs_dev \<Rightarrow> (nat \<times> fs_dev) result" where
  "byte_to_sector ino pos len dev =
     (if pos \<le> len then
        (let sector_index = u32 (pos sdiv 512) in
         if sector_index < DIRECT_SECTORS then Ok (data_blocks (data ino) ! sector_index, dev)
         else if sector_index < SECTORS_BEFORE_SL then
           (let fl_index = data_blocks (data ino) ! INDEX_OF_FL;
                (ok, dev1) = fs_malloc dev
            in if \<not> ok then Ok (NO_SECTOR, dev1)
               else
                 let fl_block = rd32 (block_read (disk dev1) fl_index)
                 in Ok (fl_block (sector_index - DIRECT_SECTORS), dev1))
         else
           (let sector_index1 = sector_index - SECTORS_BEFORE_SL;
                (ok_sl, dev1) = fs_malloc dev;
                (ok_fl, dev2) = fs_malloc dev1
            in if \<not> ok_sl \<or> \<not> ok_fl then Ok (NO_SECTOR, dev2)
               else
                 let inode_index = data_blocks (data ino) ! INDEX_OF_SL;
                     sl_block = rd32 (block_read (disk dev2) inode_index);
                     fl_index = sector_index1 div POINTERS_IN_SECTOR
                 in if fl_index \<ge> POINTERS_IN_SECTOR then Fault
                    else
                      let sl_index = sl_block fl_index;
                          fl_block = rd32 (block_read (disk dev2) sl_index)
                      in Ok (fl_block (sector_index1 mod POINTERS_IN_SECTOR), dev2)))
      else Ok (NO_SECTOR, dev))"

subsection \<open>Allocation of index blocks and data sectors\<close>

text \<open>
  One round of the allocation loops: \<open>free_map_allocate (1, &block[index])\<close>, whose
  result the code ignores, then a write of zeros to the sector now named there.
\<close>

definition allocate_entry :: "nat \<Rightarrow> index_block \<times> fs_dev \<Rightarrow> index_block \<times> fs_dev" where
  "allocate_entry index = (\<lambda>(blk, dev).
     let (ok, s, dev1) = free_map_allocate dev (blk index);
         blk1 = blk(index := s)
     in (blk1, dev1\<lparr>disk := block_write (disk dev1) (blk1 index) zeros\<rparr>))"

text \<open>
  \<open>allocate_first_level (&sector, &num_sectors, &starting_sector)\<close>: the result is
  the flag returned and the values behind the three pointers.
\<close>

definition allocate_first_level ::
  "nat \<Rightarrow> nat \<Rightarrow> nat \<Rightarrow> fs_dev \<Rightarrow> bool \<times> nat \<times> nat \<times> nat \<times> fs_dev" where
  "allocate_first_level sec num_sectors starting_sector dev =
     (let len = num_sectors;
          start = starting_sector;
          num_fl = (if len \<ge> POINTERS_IN_SECTOR then POINTERS_IN_SECTOR else len);
          num_sectors1 = num_sectors - num_fl;
          starting_sector1 = (if start < POINTERS_IN_SECTOR then 0 else start - POINTERS_IN_SECTOR)
      in
      if start < POINTERS_IN_SECTOR then
        (let (ok, dev1) = fs_malloc dev in
         if \<not> ok then (False, sec, num_sectors, starting_sector, dev1)
         else
           let (sec1, fl_block, dev2) =
                 (if start = 0
                  then (let (got, s, d) = free_map_allocate dev1 sec in (s, (\<lambda>k. 0), d))
                  else (sec, rd32 (block_read (disk dev1) sec), dev1));
               (fl_block1, dev3) = fold allocate_entry [start..<num_fl] (fl_block, dev2);
               dev4 = dev3\<lparr>disk := block_write (disk dev3) sec1 (wr32 fl_block1)\<rparr>
           in (True, sec1, num_sectors1, starting_sector1, dev4))
      else (True, sec, num_sectors1, starting_sector1, dev))"

definition DIV_ROUND_UP :: "nat \<Rightarrow> nat \<Rightarrow> nat" where
  "DIV_ROUND_UP x step = ((x + step - 1) mod 2 ^ 32) div step"

definition check_length :: "fs_dev \<Rightarrow> nat \<Rightarrow> bool" where
  "check_length dev num_sectors =
     (let num_free = free_map_count dev;
          total_sectors = num_sectors;
          total_sectors1 = (if num_sectors > DIRECT_SECTORS
                            then (total_sectors + 1) mod 2 ^ 32 else total_sectors);
          total_sectors2 = (if num_sectors > SECTORS_BEFORE_SL
                            then (total_sectors1 + 1
                                  + DIV_ROUND_UP (num_sectors - SECTORS_BEFORE_SL)
                                      POINTERS_IN_SECTOR) mod 2 ^ 32
                            else total_sectors1)
      in total_sectors2 \<le> num_free)"

text \<open>
  The loop of \<open>extend\<close> over the entries of the second-level block.  The block has
  128 entries; the code does not check the index.
\<close>

fun extend_second_level ::
  "nat list \<Rightarrow> index_block \<Rightarrow> nat \<Rightarrow> nat \<Rightarrow> fs_dev \<Rightarrow> (bool \<times> index_block \<times> fs_dev) result" where
  "extend_second_level [] sl_block total_sectors starting_sector dev = Ok (True, sl_block, dev)"
| "extend_second_level (sl_index # rest) sl_block total_sectors starting_sector dev =
     (if sl_index \<ge> POINTERS_IN_SECTOR then Fault
      else
        let (ok, s, total1, starting1, dev1) =
              allocate_first_level (sl_block sl_index) total_sectors starting_sector dev
        in if \<not> ok then Ok (False, sl_block(sl_index := s), dev1)
           else extend_second_level rest (sl_block(sl_index := s)) total1 starting1 dev1)"

text \<open>One round of the loop of \<open>extend\<close> over the direct entries.\<close>

definition allocate_direct :: "nat \<Rightarrow> nat list \<times> fs_dev \<Rightarrow> nat list \<times> fs_dev" where
  "allocate_direct index = (\<lambda>(blocks, dev).
     let (ok, s, dev1) = free_map_allocate dev (blocks ! index);
         blocks1 = blocks[index := s]
     in (blocks1, dev1\<lparr>disk := block_write (disk dev1) (blocks1 ! index) zeros\<rparr>))"

definition extend ::
  "inode_disk \<Rightarrow> nat \<Rightarrow> nat \<Rightarrow> fs_dev \<Rightarrow> (bool \<times> inode_disk \<times> fs_dev) result" where
  "extend disk_inode total_sectors starting_sector dev =
     (let num_direct = (if total_sectors \<ge> DIRECT_SECTORS then DIRECT_SECTORS else total_sectors);
          (blocks1, dev1) = fold allocate_direct [starting_sector..<num_direct]
                              (data_blocks disk_inode, dev);
          starting1 = (if starting_sector < DIRECT_SECTORS then 0
                       else starting_sector - DIRECT_SECTORS);
          total1 = total_sectors - num_direct
      in
      if total1 > 0 then
        (let (ok, fl, total2, starting2, dev2) =
               allocate_first_level (blocks1 ! INDEX_OF_FL) total1 starting1 dev1;
             blocks2 = blocks1[INDEX_OF_FL := fl]
         in if \<not> ok then Ok (False, disk_inode\<lparr>data_blocks := blocks2\<rparr>, dev2)
            else if total2 > 0 then
              (let (ok_sl, dev3) = fs_malloc dev2 in
               if \<not> ok_sl then Ok (False, disk_inode\<lparr>data_blocks := blocks2\<rparr>, dev3)
               else
                 let (sl, sl_block, dev4) =
                       (if starting2 = 0
                        then (let (got, s, d) = free_map_allocate dev3 (blocks2 ! INDEX_OF_SL)
                              in (s, (\<lambda>k. 0), d))
                        else (blocks2 ! INDEX_OF_SL,
                              rd32 (block_read (disk dev3) (blocks2 ! INDEX_OF_SL)), dev3));
                     blocks3 = blocks2[INDEX_OF_SL := sl];
                     num_sl = DIV_ROUND_UP total2 POINTERS_IN_SECTOR
                 in case extend_second_level [0..<num_sl] sl_block total2 starting2 dev4 of
                      Exit st \<Rightarrow> Exit st | Panic \<Rightarrow> Panic | Fault \<Rightarrow> Fault
                    | Ok (ok2, sl_block1, dev5) \<Rightarrow>
                        if \<not> ok2 then Ok (False, disk_inode\<lparr>data_blocks := blocks3\<rparr>, dev5)
                        else Ok (True, disk_inode\<lparr>data_blocks := blocks3\<rparr>,
                                 dev5\<lparr>disk := block_write (disk dev5) sl (wr32 sl_block1)\<rparr>))
            else Ok (True, disk_inode\<lparr>data_blocks := blocks2\<rparr>, dev2))
      else Ok (True, disk_inode\<lparr>data_blocks := blocks1\<rparr>, dev1))"

subsection \<open>Creation\<close>

definition inode_create :: "nat \<Rightarrow> int \<Rightarrow> nat \<Rightarrow> nat \<Rightarrow> fs_dev \<Rightarrow> (bool \<times> fs_dev) result" where
  "inode_create sec len parent is_dir dev =
     (if \<not> len \<ge> 0 then Panic
      else
        let (ok, dev1) = fs_malloc dev in
        if \<not> ok then Ok (False, dev1)
        else
          let sectors = bytes_to_sectors len in
          if \<not> check_length dev1 sectors then Ok (False, dev1)
          else
            let disk_inode = \<lparr>data_blocks = replicate 12 0, ilength = len, magic = INODE_MAGIC,
                               parent_directory = parent, inode_is_directory = is_dir\<rparr>
            in case extend disk_inode sectors 0 dev1 of
                 Exit st \<Rightarrow> Exit st | Panic \<Rightarrow> Panic | Fault \<Rightarrow> Fault
               | Ok (ok1, disk_inode1, dev2) \<Rightarrow>
                   if \<not> ok1 then Ok (False, dev2)
                   else Ok (True, dev2\<lparr>disk := block_write (disk dev2) sec
                                                  (wr32 (inode_words disk_inode1))\<rparr>))"

definition inode_length :: "inode \<Rightarrow> int" where
  "inode_length ino = ilength (data ino)"

subsection \<open>Reading and writing\<close>

text \<open>The number of bytes handled in one round of the read and write loops.\<close>

definition chunk_size_at :: "int \<Rightarrow> int \<Rightarrow> int \<Rightarrow> int" where
  "chunk_size_at sz offset len =
     (let sector_ofs = offset smod 512;
          inode_left = len - offset;
          sector_left = 512 - sector_ofs;
          min_left = (if inode_left < sector_left then inode_left else sector_left)
      in if sz < min_left then sz else min_left)"

lemma chunk_size_at_le: "chunk_size_at sz offset len \<le> sz"
  by (simp add: chunk_size_at_def Let_def)

text \<open>
  The loop of \<open>inode_read_at\<close>.  The state is the remaining size, the offset, the
  count of bytes read, whether the bounce buffer has been allocated and the caller's
  buffer.  A negative offset within the sector would make \<open>memcpy\<close> read before the
  bounce buffer.
\<close>

function read_loop ::
  "inode \<Rightarrow> int \<Rightarrow> int \<Rightarrow> int \<Rightarrow> bool \<Rightarrow> bytes \<Rightarrow> fs_dev \<Rightarrow> (int \<times> bytes \<times> fs_dev) result" where
  "read_loop ino sz offset bytes_read bounce buffer dev =
     (if sz > 0 then
        (case byte_to_sector ino offset (inode_length ino) dev of
           Exit st \<Rightarrow> Exit st | Panic \<Rightarrow> Panic | Fault \<Rightarrow> Fault
         | Ok (sector_idx, dev1) \<Rightarrow>
             let sector_ofs = offset smod 512;
                 chunk_size = chunk_size_at sz offset (inode_length ino)
             in
             if chunk_size \<le> 0 then Ok (bytes_read, buffer, dev1)
             else if sector_ofs = 0 \<and> chunk_size = 512 then
               read_loop ino (sz - chunk_size) (offset + chunk_size) (bytes_read + chunk_size)
                 bounce
                 (memcpy buffer (nat bytes_read) (block_read (disk dev1) sector_idx) 0 512)
                 dev1
             else
               (let (ok, dev2) = (if bounce then (True, dev1) else fs_malloc dev1) in
                if \<not> ok then Ok (bytes_read, buffer, dev2)
                else if sector_ofs < 0 then Fault
                else
                  read_loop ino (sz - chunk_size) (offset + chunk_size) (bytes_read + chunk_size)
                    True
                    (memcpy buffer (nat bytes_read) (block_read (disk dev2) sector_idx)
                       (nat sector_ofs) (nat chunk_size))
                    dev2))
      else Ok (bytes_read, buffer, dev))"
  by pat_completeness auto
termination
  by (relation "measure (\<lambda>(ino, sz, offset, bytes_read, bounce, buffer, dev). nat sz)") auto

declare read_loop.simps [simp del]

definition inode_read_at ::
  "inode \<Rightarrow> bytes \<Rightarrow> int \<Rightarrow> int \<Rightarrow> fs_dev \<Rightarrow> (int \<times> bytes \<times> fs_dev) result" where
  "inode_read_at ino buffer sz offset dev = read_loop ino sz offset 0 False buffer dev"

text \<open>The loop of \<open>inode_write_at\<close>, with the file size the write will leave.\<close>

function write_loop ::
  "inode \<Rightarrow> bytes \<Rightarrow> int \<Rightarrow> int \<Rightarrow> int \<Rightarrow> int \<Rightarrow> bool \<Rightarrow> fs_dev \<Rightarrow> (int \<times> fs_dev) result" where
  "write_loop ino buffer file_size sz offset bytes_written bounce dev =
     (if sz > 0 then
        (case byte_to_sector ino offset file_size dev of
           Exit st \<Rightarrow> Exit st | Panic \<Rightarrow> Panic | Fault \<Rightarrow> Fault
         | Ok (sector_idx, dev1) \<Rightarrow>
             let sector_ofs = offset smod 512;
                 sector_left = 512 - sector_ofs;
                 chunk_size = chunk_size_at sz offset file_size
             in
             if chunk_size \<le> 0 then Ok (bytes_written, dev1)
             else if sector_ofs = 0 \<and> chunk_size = 512 then
               write_loop ino buffer file_size (sz - chunk_size) (offset + chunk_size)
                 (bytes_written + chunk_size) bounce
                 (dev1\<lparr>disk := block_write (disk dev1) sector_idx
                                  (\<lambda>i. buffer (nat bytes_written + i))\<rparr>)
             else
               (let (ok, dev2) = (if bounce then (True, dev1) else fs_malloc dev1) in
                if \<not> ok then Ok (bytes_written, dev2)
                else if sector_ofs < 0 then Fault
                else
                  let bounce0 = (if sector_ofs > 0 \<or> chunk_size < sector_left
                                 then block_read (disk dev2) sector_idx else zeros);
                      bounce1 = memcpy bounce0 (nat sector_ofs) buffer (nat bytes_written)
                                  (nat chunk_size)
                  in write_loop ino buffer file_size (sz - chunk_size) (offset + chunk_size)
                       (bytes_written + chunk_size) True
                       (dev2\<lparr>disk := block_write (disk dev2) sector_idx bounce1\<rparr>)))
      else Ok (bytes_written, dev))"
  by pat_completeness auto
termination
  by (relation "measure (\<lambda>(ino, buffer, file_size, sz, offset, bytes_written, bounce, dev). nat sz)")
     auto

declare write_loop.simps [simp del]

definition inode_write_at ::
  "inode \<Rightarrow> bytes \<Rightarrow> int \<Rightarrow> int \<Rightarrow> fs_dev \<Rightarrow> (int \<times> inode \<times> fs_dev) result" where
  "inode_write_at ino buffer sz offset dev =
     (if deny_write_cnt ino \<noteq> 0 then Ok (0, ino, dev)
      else
        let current_length = ilength (data ino);
            new_size = offset + sz;
            file_size = (if current_length < new_size then new_size else current_length);
            final_sectors = bytes_to_sectors new_size;
            current_sectors = bytes_to_sectors current_length
        in
        case (if final_sectors > current_sectors then
                (if \<not> check_length dev (final_sectors - current_sectors)
                 then Ok (False, data ino, dev)
                 else extend (data ino) final_sectors current_sectors dev)
              else Ok (True, data ino, dev)) of
          Exit st \<Rightarrow> Exit st | Panic \<Rightarrow> Panic | Fault \<Rightarrow> Fault
        | Ok (ok, data1, dev1) \<Rightarrow>
            let ino1 = ino\<lparr>data := data1\<rparr> in
            if \<not> ok then Ok (0, ino1, dev1)
            else
              (case write_loop ino1 buffer file_size sz offset 0 False dev1 of
                 Exit st \<Rightarrow> Exit st | Panic \<Rightarrow> Panic | Fault \<Rightarrow> Fault
               | Ok (bytes_written, dev2) \<Rightarrow>
                   if current_length < new_size then
                     (let ino2 = ino1\<lparr>data := (data ino1)\<lparr>ilength := new_size\<rparr>\<rparr>
                      in Ok (bytes_written, ino2,
                             dev2\<lparr>disk := block_write (disk dev2) (sector ino2)
                                             (wr32 (inode_words (data ino2)))\<rparr>))
                   else Ok (bytes_written, ino1, dev2)))"

subsection \<open>Sequences of operations on one inode\<close>

text \<open>
  The three operations of the inode layer that a holder of an open inode can apply, and
  their effect on the in-memory inode and the device.  \<open>Create sec len parent dir\<close>
  is \<open>inode_create\<close> of another inode; \<open>Read buffer sz offset\<close> and
  \<open>Write buffer sz offset\<close> are \<open>inode_read_at\<close> and \<open>inode_write_at\<close> on the
  inode held.
\<close>

datatype inode_op = Create nat int nat nat | Read bytes int int | Write bytes int int

fun inode_step :: "inode_op \<Rightarrow> inode \<times> fs_dev \<Rightarrow> (inode \<times> fs_dev) result" where
  "inode_step (Create sec len parent is_dir) (ino, dev) =
     (case inode_create sec len parent is_dir dev of
        Exit st \<Rightarrow> Exit st | Panic \<Rightarrow> Panic | Fault \<Rightarrow> Fault
      | Ok (ok, dev') \<Rightarrow> Ok (ino, dev'))"
| "inode_step (Read buffer sz offset) (ino, dev) =
     (case inode_read_at ino buffer sz offset dev of
        Exit st \<Rightarrow> Exit st | Panic \<Rightarrow> Panic | Fault \<Rightarrow> Fault
      | Ok (n, buffer', dev') \<Rightarrow> Ok (ino, dev'))"
| "inode_step (Write buffer sz offset) (ino, dev) =
     (case inode_write_at ino buffer sz offset dev of
        Exit st \<Rightarrow> Exit st | Panic \<Rightarrow> Panic | Fault \<Rightarrow> Fault
      | Ok (n, ino', dev') \<Rightarrow> Ok (ino', dev'))"

fun inode_steps :: "inode_op list \<Rightarrow> inode \<times> fs_dev \<Rightarrow> (inode \<times> fs_dev) result" where
  "inode_steps [] st = Ok st"
| "inode_steps (op # ops) st =
     (case inode_step op st of
        Exit s \<Rightarrow> Exit s | Panic \<Rightarrow> Panic | Fault \<Rightarrow> Fault
      | Ok st' \<Rightarrow> inode_steps ops st')"

subsection \<open>A write followed by a read of the same range\<close>

text \<open>
  \<open>inode_write_at\<close> followed, on the inode and device it leaves, by
  \<open>inode_read_at\<close> of the same size at the same offset into a zeroed buffer: the
  count written, the count read and the buffer read, when both calls return.
\<close>

definition write_then_read ::
  "inode \<Rightarrow> bytes \<Rightarrow> int \<Rightarrow> int \<Rightarrow> fs_dev \<Rightarrow> (int \<times> int \<times> bytes) option" where
  "write_then_read ino buffer sz offset dev =
     (case inode_write_at ino buffer sz offset dev of
        Ok (written, ino', dev') \<Rightarrow>
          (case inode_read_at ino' zeros sz offset dev' of
             Ok (n, buffer', dev'') \<Rightarrow> Some (written, n, buffer')
           | Exit s \<Rightarrow> None | Panic \<Rightarrow> None | Fault \<Rightarrow> None)
      | Exit s \<Rightarrow> None | Panic \<Rightarrow> None | Fault \<Rightarrow> None)"

section \<open>Open inodes and directories (filesys/inode.c, filesys/directory.c)\<close>

text \<open>
  A read never goes past the length of the inode: if the loop has read anything, the
  bytes read end at or before the length.
\<close>

lemma read_loop_bound:
  "read_loop ino sz offset bytes_read bounce buffer dev = Ok (n, buffer', dev') \<Longrightarrow>
   n = bytes_read \<or> (bytes_read < n \<and> offset + (n - bytes_read) \<le> inode_length ino)"
proof (induction "nat sz" arbitrary: sz offset bytes_read bounce buffer dev rule: less_induct)
  case less
  show ?case
  proof (cases "sz > 0")
    case False
    with less.prems show ?thesis by (subst (asm) read_loop.simps) simp
  next
    case True
    from less.prems True obtain s dev1 where
      b: "byte_to_sector ino offset (inode_length ino) dev = Ok (s, dev1)"
      by (subst (asm) read_loop.simps) (auto split: result.splits)
    define chunk where "chunk = chunk_size_at sz offset (inode_length ino)"
    have cle: "chunk \<le> sz" unfolding chunk_def by (rule chunk_size_at_le)
    have cl: "chunk \<le> inode_length ino - offset"
      by (simp add: chunk_def chunk_size_at_def Let_def)
    show ?thesis
    proof (cases "chunk \<le> 0")
      case True
      with less.prems \<open>sz > 0\<close> b show ?thesis
        by (subst (asm) read_loop.simps) (simp add: Let_def chunk_def [symmetric])
    next
      case pos: False
      then have lt: "nat (sz - chunk) < nat sz" using True by simp
      have step: "n = bytes_read + chunk \<or>
          (bytes_read + chunk < n \<and> offset + chunk + (n - (bytes_read + chunk)) \<le> inode_length ino)"
        if "read_loop ino (sz - chunk) (offset + chunk) (bytes_read + chunk) bn bf dv
              = Ok (n, buffer', dev')" for bn bf dv
        using less.hyps [OF lt that] .
      have fin: ?thesis
        if "read_loop ino (sz - chunk) (offset + chunk) (bytes_read + chunk) bn bf dv
              = Ok (n, buffer', dev')" for bn bf dv
        using step [OF that] cl pos by auto
      from less.prems True b pos
      have "n = bytes_read \<or>
            (\<exists>bn bf dv. read_loop ino (sz - chunk) (offset + chunk) (bytes_read + chunk) bn bf dv
               = Ok (n, buffer', dev'))"
        by (subst (asm) read_loop.simps)
           (auto simp add: Let_def chunk_def [symmetric] split: if_splits prod.splits)
      with fin show ?thesis by blast
    qed
  qed
qed

lemma inode_read_at_bound:
  "inode_read_at ino buffer sz offset dev = Ok (n, buffer', dev') \<Longrightarrow> 0 < n \<Longrightarrow>
   offset + n \<le> ilength (data ino)"
  using read_loop_bound [of ino sz offset 0 False buffer dev n buffer' dev']
  by (auto simp: inode_read_at_def inode_length_def)

subsection \<open>The list of open inodes\<close>

text \<open>
  \<open>ROOT_DIR_SECTOR\<close> and \<open>NAME_MAX\<close> are declared in headers that are not among the
  sources at hand; they have the values of the stock headers, 1 and 14.  The name
  \<open>CURRENT_DIRECTORY\<close> is the string of one dot.
\<close>

definition ROOT_DIR_SECTOR :: nat where
  "ROOT_DIR_SECTOR = 1"

definition CURRENT_DIRECTORY :: "byte list" where
  "CURRENT_DIRECTORY = [46]"

definition inode_ptr :: "fsys \<Rightarrow> nat \<Rightarrow> inode option" where
  "inode_ptr fs p = find (\<lambda>i. sector i = p) (open_inodes fs)"

text \<open>A store through the pointer to an open inode, and \<open>list_remove\<close>.\<close>

fun inode_store :: "inode \<Rightarrow> inode list \<Rightarrow> inode list" where
  "inode_store i [] = []"
| "inode_store i (j # js) = (if sector j = sector i then i # js else j # inode_store i js)"

fun inode_unlink :: "nat \<Rightarrow> inode list \<Rightarrow> inode list" where
  "inode_unlink p [] = []"
| "inode_unlink p (j # js) = (if sector j = p then js else j # inode_unlink p js)"

definition inode_open :: "nat \<Rightarrow> fsys \<Rightarrow> nat option \<times> fsys" where
  "inode_open sec fs =
     (case inode_ptr fs sec of
        Some ino \<Rightarrow>
          (Some sec,
           fs\<lparr>open_inodes := inode_store (ino\<lparr>open_cnt := open_cnt ino + 1\<rparr>) (open_inodes fs)\<rparr>)
      | None \<Rightarrow>
          let (ok, dev1) = fs_malloc (device fs) in
          if \<not> ok then (None, fs\<lparr>device := dev1\<rparr>)
          else (Some sec,
                fs\<lparr>device := dev1,
                   open_inodes :=
                     \<lparr>sector = sec, open_cnt = 1, removed = False, deny_write_cnt = 0,
                      data = read_inode_disk (block_read (disk dev1) sec)\<rparr> # open_inodes fs\<rparr>))"

definition inode_is_dir :: "inode \<Rightarrow> bool" where
  "inode_is_dir ino = (inode_is_directory (data ino) \<noteq> 0)"

subsection \<open>Releasing the sectors of a removed inode\<close>

definition release_entries :: "index_block \<Rightarrow> int \<Rightarrow> fs_dev \<Rightarrow> fs_dev" where
  "release_entries blk n d = fold (\<lambda>index d'. free_map_release d' (blk index)) [0..<nat n] d"

text \<open>
  The loop of \<open>release_data\<close> over the entries of the second-level block, which the
  code indexes without a check.
\<close>

fun release_second_level :: "nat list \<Rightarrow> index_block \<Rightarrow> int \<Rightarrow> fs_dev \<Rightarrow> fs_dev result" where
  "release_second_level [] sl_block sectors d = Ok d"
| "release_second_level (sl_index # rest) sl_block sectors d =
     (if sl_index \<ge> POINTERS_IN_SECTOR then Fault
      else
        let fl_block = rd32 (block_read (disk d) (sl_block sl_index));
            num_fl = (if sectors \<le> 128 then sectors else 128);
            d1 = release_entries fl_block num_fl d;
            d2 = free_map_release d1 (sl_block sl_index)
        in release_second_level rest sl_block (sectors - num_fl) d2)"

definition release_data :: "inode \<Rightarrow> fs_dev \<Rightarrow> (bool \<times> fs_dev) result" where
  "release_data ino d =
     (let blocks = data_blocks (data ino);
          sectors = s32 (bytes_to_sectors (ilength (data ino)));
          num_direct = (if sectors \<le> 10 then sectors else 10);
          d1 = release_entries (\<lambda>index. blocks ! index) num_direct d;
          sectors1 = sectors - num_direct
      in
      case (if sectors1 > 0 then
              (let (ok, d2) = fs_malloc d1 in
               if \<not> ok then Ok (False, sectors1, d2)
               else
                 let fl_block = rd32 (block_read (disk d2) (blocks ! INDEX_OF_FL));
                     num_blocks = (if sectors1 \<le> 128 then sectors1 else 128);
                     d3 = release_entries fl_block num_blocks d2;
                     d4 = free_map_release d3 (blocks ! INDEX_OF_FL)
                 in Ok (True, sectors1 - 128, d4))
            else Ok (True, sectors1, d1)) of
        Exit st \<Rightarrow> Exit st | Panic \<Rightarrow> Panic | Fault \<Rightarrow> Fault
      | Ok (ok1, sectors2, d5) \<Rightarrow>
          if \<not> ok1 then Ok (False, d5)
          else if sectors2 > 0 then
            (let (ok_sl, d6) = fs_malloc d5;
                 (ok_fl, d7) = fs_malloc d6
             in if \<not> ok_fl \<or> \<not> ok_sl then Ok (False, d7)
                else
                  let sl_block = rd32 (block_read (disk d7) (blocks ! INDEX_OF_SL));
                      num_sl = (sectors2 + 128 - 1) sdiv 128
                  in case release_second_level [0..<nat num_sl] sl_block sectors2 d7 of
                       Exit st \<Rightarrow> Exit st | Panic \<Rightarrow> Panic | Fault \<Rightarrow> Fault
                     | Ok d8 \<Rightarrow> Ok (True, free_map_release d8 (blocks ! INDEX_OF_SL)))
          else Ok (True, d5))"

definition inode_close :: "nat option \<Rightarrow> fsys \<Rightarrow> fsys result" where
  "inode_close p fs =
     (case p of
        None \<Rightarrow> Ok fs
      | Some sec \<Rightarrow>
          (case inode_ptr fs sec of
             None \<Rightarrow> Fault
           | Some ino \<Rightarrow>
               let ino1 = ino\<lparr>open_cnt := open_cnt ino - 1\<rparr> in
               if open_cnt ino1 = 0 then
                 (let fs1 = fs\<lparr>open_inodes := inode_unlink sec (open_inodes fs)\<rparr> in
                  if removed ino1 then
                    (case release_data ino1 (device fs1) of
                       Exit st \<Rightarrow> Exit st | Panic \<Rightarrow> Panic | Fault \<Rightarrow> Fault
                     | Ok (ok, d1) \<Rightarrow>
                         if \<not> ok then Ok (fs1\<lparr>device := d1\<rparr>)
                         else Ok (fs1\<lparr>device := free_map_release d1 (sector ino1)\<rparr>))
                  else Ok fs1)
               else Ok (fs\<lparr>open_inodes := inode_store ino1 (open_inodes fs)\<rparr>)))"

text \<open>\<open>inode_remove\<close> on an open inode.\<close>

definition inode_remove :: "nat \<Rightarrow> fsys \<Rightarrow> fsys result" where
  "inode_remove p fs =
     (case inode_ptr fs p of
        None \<Rightarrow> Fault
      | Some ino \<Rightarrow> Ok (fs\<lparr>open_inodes := inode_store (ino\<lparr>removed := True\<rparr>) (open_inodes fs)\<rparr>))"

subsection \<open>Directory entries and handles\<close>

text \<open>
  A \<open>struct dir_entry\<close> is held as its image of 20 bytes: the sector number in bytes
  0 to 3, the name in bytes 4 to 18 and \<open>in_use\<close> in byte 19.  The name is read up
  to its first zero byte.
\<close>

abbreviation ENTRY_SIZE :: int where "ENTRY_SIZE \<equiv> 20"

definition entry_inode_sector :: "bytes \<Rightarrow> nat" where
  "entry_inode_sector e = rd32 e 0"

definition entry_name :: "bytes \<Rightarrow> byte list" where
  "entry_name e = takeWhile (\<lambda>c. c \<noteq> 0) (map e [4..<19])"

definition entry_in_use :: "bytes \<Rightarrow> bool" where
  "entry_in_use e = (e 19 \<noteq> 0)"

text \<open>\<open>dir_open\<close> allocates the handle first and closes the inode if either is missing.\<close>

definition dir_open :: "nat option \<Rightarrow> fsys \<Rightarrow> (dir option \<times> fsys) result" where
  "dir_open inode fs =
     (let (ok, dev1) = fs_malloc (device fs); fs1 = fs\<lparr>device := dev1\<rparr> in
      case inode of
        Some p \<Rightarrow>
          if ok then Ok (Some \<lparr>dir_inode = p, dir_pos = 0\<rparr>, fs1)
          else (case inode_close inode fs1 of
                  Exit st \<Rightarrow> Exit st | Panic \<Rightarrow> Panic | Fault \<Rightarrow> Fault
                | Ok fs2 \<Rightarrow> Ok (None, fs2))
      | None \<Rightarrow> Ok (None, fs1))"

definition dir_open_root :: "fsys \<Rightarrow> (dir option \<times> fsys) result" where
  "dir_open_root fs = (let (p, fs1) = inode_open ROOT_DIR_SECTOR fs in dir_open p fs1)"

definition dir_open_parent :: "dir \<Rightarrow> fsys \<Rightarrow> (dir option \<times> fsys) result" where
  "dir_open_parent d fs =
     (case inode_ptr fs (dir_inode d) of
        None \<Rightarrow> Fault
      | Some ino \<Rightarrow>
          let parent_sector = parent_directory (data ino) in
          if parent_sector = 0 then Ok (None, fs)
          else (let (p, fs1) = inode_open parent_sector fs in dir_open p fs1))"

definition dir_close :: "dir option \<Rightarrow> fsys \<Rightarrow> fsys result" where
  "dir_close d fs =
     (case d of None \<Rightarrow> Ok fs | Some h \<Rightarrow> inode_close (Some (dir_inode h)) fs)"

subsection \<open>Searching a directory\<close>

text \<open>
  The loop of \<open>lookup\<close> on the inode of the directory, from the offset \<open>ofs\<close>: the
  entry found and its offset, if any.
\<close>

function lookup_loop ::
  "inode \<Rightarrow> byte list \<Rightarrow> nat \<Rightarrow> fs_dev \<Rightarrow> ((bytes \<times> nat) option \<times> fs_dev) result" where
  "lookup_loop ino name ofs d =
     (case inode_read_at ino zeros ENTRY_SIZE (int ofs) d of
        Exit st \<Rightarrow> Exit st | Panic \<Rightarrow> Panic | Fault \<Rightarrow> Fault
      | Ok (n, e, d1) \<Rightarrow>
          if n = ENTRY_SIZE then
            (if entry_in_use e \<and> name = entry_name e then Ok (Some (e, ofs), d1)
             else lookup_loop ino name (ofs + 20) d1)
          else Ok (None, d1))"
  by pat_completeness auto
termination
proof (relation "measure (\<lambda>(ino, name, ofs, d). nat (ilength (data ino) + 1 - int ofs))")
  show "wf (measure (\<lambda>(ino, name, ofs, d). nat (ilength (data ino) + 1 - int ofs)))"
    by simp
next
  fix ino :: inode and name :: "byte list" and ofs :: nat and d d1 :: fs_dev
    and x :: "int \<times> bytes \<times> fs_dev" and n :: int and y :: "bytes \<times> fs_dev" and e :: bytes
  assume "inode_read_at ino zeros ENTRY_SIZE (int ofs) d = Ok x" "(n, y) = x" "(e, d1) = y"
    "n = ENTRY_SIZE"
  then have "inode_read_at ino zeros ENTRY_SIZE (int ofs) d = Ok (20, e, d1)" by auto
  from inode_read_at_bound [OF this] have "int ofs + 20 \<le> ilength (data ino)" by simp
  then show "((ino, name, ofs + 20, d1), (ino, name, ofs, d))
               \<in> measure (\<lambda>(ino, name, ofs, d). nat (ilength (data ino) + 1 - int ofs))"
    by simp
qed

declare lookup_loop.simps [simp del]

definition lookup :: "inode \<Rightarrow> byte list \<Rightarrow> fs_dev \<Rightarrow> ((bytes \<times> nat) option \<times> fs_dev) result" where
  "lookup ino name d = lookup_loop ino name 0 d"

text \<open>The loop of \<open>lookup_sector\<close>.\<close>

function lookup_sector_loop ::
  "inode \<Rightarrow> nat \<Rightarrow> nat \<Rightarrow> fs_dev \<Rightarrow> ((bytes \<times> nat) option \<times> fs_dev) result" where
  "lookup_sector_loop ino sec ofs d =
     (case inode_read_at ino zeros ENTRY_SIZE (int ofs) d of
        Exit st \<Rightarrow> Exit st | Panic \<Rightarrow> Panic | Fault \<Rightarrow> Fault
      | Ok (n, e, d1) \<Rightarrow>
          if n = ENTRY_SIZE then
            (if entry_in_use e \<and> entry_inode_sector e = sec then Ok (Some (e, ofs), d1)
             else lookup_sector_loop ino sec (ofs + 20) d1)
          else Ok (None, d1))"
  by pat_completeness auto
termination
proof (relation "measure (\<lambda>(ino, sec, ofs, d). nat (ilength (data ino) + 1 - int ofs))")
  show "wf (measure (\<lambda>(ino, sec, ofs, d). nat (ilength (data ino) + 1 - int ofs)))"
    by simp
next
  fix ino :: inode and sec :: nat and ofs :: nat and d d1 :: fs_dev
    and x :: "int \<times> bytes \<times> fs_dev" and n :: int and y :: "bytes \<times> fs_dev" and e :: bytes
  assume "inode_read_at ino zeros ENTRY_SIZE (int ofs) d = Ok x" "(n, y) = x" "(e, d1) = y"
    "n = ENTRY_SIZE"
  then have "inode_read_at ino zeros ENTRY_SIZE (int ofs) d = Ok (20, e, d1)" by auto
  from inode_read_at_bound [OF this] have "int ofs + 20 \<le> ilength (data ino)" by simp
  then show "((ino, sec, ofs + 20, d1), (ino, sec, ofs, d))
               \<in> measure (\<lambda>(ino, sec, ofs, d). nat (ilength (data ino) + 1 - int ofs))"
    by simp
qed

declare lookup_sector_loop.simps [simp del]

definition lookup_sector ::
  "inode \<Rightarrow> nat \<Rightarrow> fs_dev \<Rightarrow> ((bytes \<times> nat) option \<times> fs_dev) result" where
  "lookup_sector ino sec d = lookup_sector_loop ino sec 0 d"

text \<open>
  The loop of \<open>dir_readdir\<close> from the position \<open>pos\<close>: whether an entry in use was
  found, the entry read last and the new position.  \<open>dir_readdir\<close> copies the name
  out when an entry is found.
\<close>

function readdir_loop :: "inode \<Rightarrow> int \<Rightarrow> fs_dev \<Rightarrow> (bool \<times> bytes \<times> int \<times> fs_dev) result" where
  "readdir_loop ino pos d =
     (case inode_read_at ino zeros ENTRY_SIZE pos d of
        Exit st \<Rightarrow> Exit st | Panic \<Rightarrow> Panic | Fault \<Rightarrow> Fault
      | Ok (n, e, d1) \<Rightarrow>
          if n = ENTRY_SIZE then
            (if entry_in_use e then Ok (True, e, pos + ENTRY_SIZE, d1)
             else readdir_loop ino (pos + ENTRY_SIZE) d1)
          else Ok (False, e, pos, d1))"
  by pat_completeness auto
termination
proof (relation "measure (\<lambda>(ino, pos, d). nat (ilength (data ino) + 1 - pos))")
  show "wf (measure (\<lambda>(ino, pos, d). nat (ilength (data ino) + 1 - pos)))"
    by simp
next
  fix ino :: inode and pos :: int and d d1 :: fs_dev
    and x :: "int \<times> bytes \<times> fs_dev" and n :: int and y :: "bytes \<times> fs_dev" and e :: bytes
  assume "inode_read_at ino zeros ENTRY_SIZE pos d = Ok x" "(n, y) = x" "(e, d1) = y"
    "n = ENTRY_SIZE"
  then have "inode_read_at ino zeros ENTRY_SIZE pos d = Ok (20, e, d1)" by auto
  from inode_read_at_bound [OF this] have "pos + 20 \<le> ilength (data ino)" by simp
  then show "((ino, pos + ENTRY_SIZE, d1), (ino, pos, d))
               \<in> measure (\<lambda>(ino, pos, d). nat (ilength (data ino) + 1 - pos))"
    by simp
qed

declare readdir_loop.simps [simp del]

definition dir_readdir :: "dir \<Rightarrow> fsys \<Rightarrow> (bool \<times> byte list option \<times> dir \<times> fsys) result" where
  "dir_readdir d fs =
     (case inode_ptr fs (dir_inode d) of
        None \<Rightarrow> Fault
      | Some ino \<Rightarrow>
          (case readdir_loop ino (dir_pos d) (device fs) of
             Exit st \<Rightarrow> Exit st | Panic \<Rightarrow> Panic | Fault \<Rightarrow> Fault
           | Ok (found, e, pos, d1) \<Rightarrow>
               Ok (found, if found then Some (entry_name e) else None,
                   d\<lparr>dir_pos := pos\<rparr>, fs\<lparr>device := d1\<rparr>)))"

subsection \<open>Removal\<close>

text \<open>
  \<open>dir_can_remove\<close>.  The handle \<open>dir\<close> is released with \<open>free\<close>, not closed.
  A handle that could not be allocated is dereferenced all the same.
\<close>

definition dir_can_remove :: "nat \<Rightarrow> fsys \<Rightarrow> (bool \<times> fsys) result" where
  "dir_can_remove inode fs =
     (case dir_open (Some inode) fs of
        Exit st \<Rightarrow> Exit st | Panic \<Rightarrow> Panic | Fault \<Rightarrow> Fault
      | Ok (d, fs1) \<Rightarrow>
     (case dir_open_root fs1 of
        Exit st \<Rightarrow> Exit st | Panic \<Rightarrow> Panic | Fault \<Rightarrow> Fault
      | Ok (root, fs2) \<Rightarrow>
     (case root of
        None \<Rightarrow> Fault
      | Some r \<Rightarrow>
     (case inode_ptr fs2 (dir_inode r) of
        None \<Rightarrow> Fault
      | Some root_inode \<Rightarrow>
     (case inode_ptr fs2 inode of
        None \<Rightarrow> Fault
      | Some target \<Rightarrow>
          let root_inumber = sector root_inode;
              inumber = sector target
          in
     (case dir_close root fs2 of
        Exit st \<Rightarrow> Exit st | Panic \<Rightarrow> Panic | Fault \<Rightarrow> Fault
      | Ok fs3 \<Rightarrow>
     (case d of
        None \<Rightarrow> Fault
      | Some h \<Rightarrow>
     (case dir_readdir h fs3 of
        Exit st \<Rightarrow> Exit st | Panic \<Rightarrow> Panic | Fault \<Rightarrow> Fault
      | Ok (found, name, h', fs4) \<Rightarrow>
          if found \<or> inumber = root_inumber then Ok (False, fs4)
          else
            (case inode_ptr fs4 inode of
               None \<Rightarrow> Fault
             | Some target' \<Rightarrow> Ok (\<not> open_cnt target' > 1, fs4))))))))))"

text \<open>
  The first part of \<open>dir_remove\<close>, which finds the directory entry: the directory
  searched (the handle given, or its parent when the name is the dot), and the entry
  with its offset if one is found.
\<close>

definition dir_remove_find ::
  "dir \<Rightarrow> byte list \<Rightarrow> fsys \<Rightarrow> (dir option \<times> (bytes \<times> nat) option \<times> fsys) result" where
  "dir_remove_find d name fs =
     (if name = CURRENT_DIRECTORY then
        (case inode_ptr fs (dir_inode d) of
           None \<Rightarrow> Fault
         | Some di \<Rightarrow>
        (case dir_open_parent d fs of
           Exit st \<Rightarrow> Exit st | Panic \<Rightarrow> Panic | Fault \<Rightarrow> Fault
         | Ok (current_dir, fs1) \<Rightarrow>
        (case current_dir of
           None \<Rightarrow> Panic
         | Some c \<Rightarrow>
        (case inode_ptr fs1 (dir_inode c) of
           None \<Rightarrow> Fault
         | Some ci \<Rightarrow>
        (case lookup_sector ci (sector di) (device fs1) of
           Exit st \<Rightarrow> Exit st | Panic \<Rightarrow> Panic | Fault \<Rightarrow> Fault
         | Ok (found, d1) \<Rightarrow> Ok (current_dir, found, fs1\<lparr>device := d1\<rparr>))))))
      else
        (case inode_ptr fs (dir_inode d) of
           None \<Rightarrow> Fault
         | Some ci \<Rightarrow>
        (case lookup ci name (device fs) of
           Exit st \<Rightarrow> Exit st | Panic \<Rightarrow> Panic | Fault \<Rightarrow> Fault
         | Ok (found, d1) \<Rightarrow> Ok (Some d, found, fs\<lparr>device := d1\<rparr>))))"

text \<open>
  The second part, from \<open>inode_open\<close> of the entry's inode to \<open>inode_remove\<close>: the
  flag \<open>success\<close> and the inode opened.
\<close>

definition dir_remove_entry ::
  "dir option \<Rightarrow> bytes \<Rightarrow> nat \<Rightarrow> fsys \<Rightarrow> (bool \<times> nat option \<times> fsys) result" where
  "dir_remove_entry current_dir e ofs fs1 =
     (let (inode, fs2) = inode_open (entry_inode_sector e) fs1 in
      case inode of
        None \<Rightarrow> Ok (False, None, fs2)
      | Some t \<Rightarrow>
     (case inode_ptr fs2 t of
        None \<Rightarrow> Fault
      | Some target \<Rightarrow>
     (case (if inode_is_dir target then dir_can_remove t fs2 else Ok (True, fs2)) of
        Exit st \<Rightarrow> Exit st | Panic \<Rightarrow> Panic | Fault \<Rightarrow> Fault
      | Ok (can, fs3) \<Rightarrow>
          if \<not> can then Ok (False, inode, fs3)
          else
     (case current_dir of
        None \<Rightarrow> Fault
      | Some c \<Rightarrow>
     (case inode_ptr fs3 (dir_inode c) of
        None \<Rightarrow> Fault
      | Some ci \<Rightarrow>
     (case inode_write_at ci (e(19 := 0)) ENTRY_SIZE (int ofs) (device fs3) of
        Exit st \<Rightarrow> Exit st | Panic \<Rightarrow> Panic | Fault \<Rightarrow> Fault
      | Ok (n, ci', d4) \<Rightarrow>
          let fs4 = fs3\<lparr>device := d4, open_inodes := inode_store ci' (open_inodes fs3)\<rparr> in
          if n \<noteq> ENTRY_SIZE then Ok (False, inode, fs4)
          else
            (case inode_remove t fs4 of
               Exit st \<Rightarrow> Exit st | Panic \<Rightarrow> Panic | Fault \<Rightarrow> Fault
             | Ok fs5 \<Rightarrow> Ok (True, inode, fs5))))))))"

text \<open>
  \<open>dir_remove\<close>.  When no entry is found the code jumps to \<open>done\<close> over the
  initialisation of \<open>dir_lock\<close> and then passes that pointer to
  \<open>lock_held_by_current_thread\<close>: the use of an uninitialised pointer, which is
  undefined.  On the other paths to \<open>done\<close> the lock is held and is released.
\<close>

definition dir_remove :: "dir \<Rightarrow> byte list \<Rightarrow> fsys \<Rightarrow> (bool \<times> fsys) result" where
  "dir_remove d name fs =
     (case dir_remove_find d name fs of
        Exit st \<Rightarrow> Exit st | Panic \<Rightarrow> Panic | Fault \<Rightarrow> Fault
      | Ok (current_dir, found, fs1) \<Rightarrow>
     (case (case found of
              None \<Rightarrow> Fault
            | Some (e, ofs) \<Rightarrow> dir_remove_entry current_dir e ofs fs1) of
        Exit st \<Rightarrow> Exit st | Panic \<Rightarrow> Panic | Fault \<Rightarrow> Fault
      | Ok (success, inode, fs6) \<Rightarrow>
     (case (if name = CURRENT_DIRECTORY then dir_close current_dir fs6 else Ok fs6) of
        Exit st \<Rightarrow> Exit st | Panic \<Rightarrow> Panic | Fault \<Rightarrow> Fault
      | Ok fs7 \<Rightarrow>
     (case inode_close inode fs7 of
        Exit st \<Rightarrow> Exit st | Panic \<Rightarrow> Panic | Fault \<Rightarrow> Fault
      | Ok fs8 \<Rightarrow> Ok (success, fs8)))))"

section \<open>Fixtures for concrete runs of the system calls\<close>

text \<open>
  A small process for running the calls on concrete inputs: file handles are numbers,
  handle 1 is a directory, the kernel state is the log of \<open>file_write\<close> requests.
  The user stack at 0x1000 holds the descriptor, the buffer address 0x2000 and the
  size 1; every address is mapped.
\<close>

definition demo_ops :: "(nat, (addr \<times> int) list) fileops" where
  "demo_ops =
     \<lparr>file_is_dir = (\<lambda>f k. f = 1),
      file_length = (\<lambda>f k. 0),
      file_read = (\<lambda>f b n k. (0, k)),
      file_write = (\<lambda>f b n k. (n, k @ [(b, n)])),
      file_seek = (\<lambda>f p k. k),
      file_tell = (\<lambda>f k. 0),
      file_close = (\<lambda>f k. k)\<rparr>"

definition demo_mem :: "int \<Rightarrow> umem" where
  "demo_mem fd =
     \<lparr>mapped = (\<lambda>a. True),
      word_at = (\<lambda>a. if a = 0x1000 then word_of_int fd else if a = 0x1004 then 0x2000
                      else if a = 0x1008 then 1 else 0),
      byte_at = (\<lambda>a. 0)\<rparr>"

definition demo_proc :: "(nat, (addr \<times> int) list) proc" where
  "demo_proc = \<lparr>files = [None, None, Some 1, None], next_fd = 3, console = [], keys_read = 0,
                 kern = []\<rparr>"

section \<open>Fixtures for concrete runs of the virtual-memory layer\<close>

text \<open>
  Two frames owned by thread 1.  The page in frame 0 has been accessed and is clean,
  the page in frame 1 has not been accessed and is dirty.  Swap slot 0 is in use, slot
  1 is free.
\<close>

definition demo_vm :: vm_state where
  "demo_vm =
     \<lparr>frame_table = [\<lparr>fe_upage = 0x8048000, frame_owner = Some 1, used = True\<rparr>,
                      \<lparr>fe_upage = 0x8049000, frame_owner = Some 1, used = True\<rparr>],
      clock_hand = 0,
      base_address = 0xC0280000,
      pagedirs = (\<lambda>t. if t = 1 then
                   [0x8048000 \<mapsto> \<lparr>pte_kpage = 0xC0280000, pte_writable = False,
                                   pte_accessed = True, pte_dirty = False\<rparr>,
                    0x8049000 \<mapsto> \<lparr>pte_kpage = 0xC0281000, pte_writable = True,
                                   pte_accessed = False, pte_dirty = True\<rparr>]
                 else Map.empty),
      sup_tables = (\<lambda>t. if t = 1 then
                   [\<lparr>upage = 0x8048000, block = BLOCK_KERNEL, mem_addr = 0xC0280000,
                     file_addr = 0xC0109000, read_bytes = 4096, swap_index = - 1,
                     writable = False\<rparr>,
                    \<lparr>upage = 0x8049000, block = BLOCK_KERNEL, mem_addr = 0xC0281000,
                     file_addr = 0xC0109000, read_bytes = 100, swap_index = - 1,
                     writable = True\<rparr>]
                 else []),
      swap_map = [True, False],
      swap_disk = (\<lambda>n. []),
      phys_mem = (\<lambda>a. 7),
      vm_heap = (\<lambda>n. True)\<rparr>"

text \<open>
  The same with no free swap slot and with the page in frame 0, under the hand, neither
  accessed nor dirty.
\<close>

definition clean_vm :: vm_state where
  "clean_vm =
     demo_vm\<lparr>swap_map := [True, True],
             pagedirs := (\<lambda>t. if t = 1 then
                   [0x8048000 \<mapsto> \<lparr>pte_kpage = 0xC0280000, pte_writable = False,
                                   pte_accessed = False, pte_dirty = False\<rparr>,
                    0x8049000 \<mapsto> \<lparr>pte_kpage = 0xC0281000, pte_writable = True,
                                   pte_accessed = False, pte_dirty = True\<rparr>]
                 else Map.empty)\<rparr>"

definition demo_ext :: vm_ext where
  "demo_ext =
     \<lparr>palloc_get_page = (\<lambda>s. (None, s)),
      install_page = (\<lambda>t u k w s. (True, s)),
      file_read_at = (\<lambda>f k n s. s)\<rparr>"

section \<open>Fixtures for concrete runs of the inode layer\<close>

text \<open>
  A device whose sectors are all zero, with sectors 0 and 1 in use and two free sectors,
  an allocator that never fails, an empty file whose inode is in sector 1, and a buffer
  holding the bytes 65, 66, 67, ...
\<close>

definition demo_dev :: fs_dev where
  "demo_dev = \<lparr>disk = (\<lambda>s. zeros), free_map = [True, True, False, False], fs_heap = (\<lambda>n. True)\<rparr>"

definition demo_inode :: inode where
  "demo_inode =
     \<lparr>sector = 1, open_cnt = 1, removed = False, deny_write_cnt = 0,
      data = \<lparr>data_blocks = replicate 12 0, ilength = 0, magic = INODE_MAGIC,
              parent_directory = 0, inode_is_directory = 0\<rparr>\<rparr>"

definition demo_buf :: bytes where
  "demo_buf = (\<lambda>i. of_nat (i + 65))"

text \<open>
  A device of 144 sectors that is nearly full.  Sector 2 holds the inode of a file of
  138 sectors (70656 bytes): its data are in sectors 3 to 12 and, through the indirect
  block in sector 13, in sectors 14 to 141.  Sectors 142 and 143 are free.  The buffer
  holds 1 in its first 512 bytes and 2 after them.
\<close>

definition full_dev :: fs_dev where
  "full_dev =
     \<lparr>disk = (\<lambda>s. if s = 13 then wr32 (\<lambda>k. if k < 128 then 14 + k else 0) else zeros),
      free_map = replicate 142 True @ [False, False],
      fs_heap = (\<lambda>n. True)\<rparr>"

definition big_inode :: inode where
  "big_inode =
     \<lparr>sector = 2, open_cnt = 1, removed = False, deny_write_cnt = 0,
      data = \<lparr>data_blocks = [3, 4, 5, 6, 7, 8, 9, 10, 11, 12, 13, 0], ilength = 70656,
              magic = INODE_MAGIC, parent_directory = 1, inode_is_directory = 0\<rparr>\<rparr>"

definition two_buf :: bytes where
  "two_buf = (\<lambda>i. if i < 512 then 1 else 2)"

section \<open>Fixtures for concrete runs of directory removal\<close>

text \<open>
  A device of six sectors.  Sector 1 holds the inode of the root directory and sector 2
  its one entry, \<open>e\<close>, whose inode is in sector 3.  The inode in sector 3 is a
  directory of one entry slot, held in sector 4.  The root directory is open once, and
  \<open>root_handle\<close> is a handle on it.  The contents of sector 4 are the parameter: all
  zero for an empty directory \<open>e\<close>, or the entry \<open>f\<close>, in use, with its inode in
  sector 5.
\<close>

definition entry_image :: "byte \<Rightarrow> byte \<Rightarrow> bytes" where
  "entry_image sec c = (\<lambda>i. if i = 0 then sec else if i = 4 then c else if i = 19 then 1 else 0)"

definition root_open :: inode where
  "root_open =
     \<lparr>sector = 1, open_cnt = 1, removed = False, deny_write_cnt = 0,
      data = \<lparr>data_blocks = [2, 0, 0, 0, 0, 0, 0, 0, 0, 0, 0, 0], ilength = 20,
              magic = INODE_MAGIC, parent_directory = 0, inode_is_directory = 1\<rparr>\<rparr>"

definition subdir_data :: inode_disk where
  "subdir_data =
     \<lparr>data_blocks = [4, 0, 0, 0, 0, 0, 0, 0, 0, 0, 0, 0], ilength = 20,
      magic = INODE_MAGIC, parent_directory = 1, inode_is_directory = 1\<rparr>"

definition dir_fs :: "bytes \<Rightarrow> heap \<Rightarrow> fsys" where
  "dir_fs sector4 h =
     \<lparr>device =
        \<lparr>disk = (\<lambda>s. if s = 1 then wr32 (inode_words (data root_open))
                     else if s = 2 then entry_image 3 101
                     else if s = 3 then wr32 (inode_words subdir_data)
                     else if s = 4 then sector4
                     else zeros),
         free_map = replicate 6 True,
         fs_heap = h\<rparr>,
      open_inodes = [root_open]\<rparr>"

definition root_handle :: dir where
  "root_handle = \<lparr>dir_inode = 1, dir_pos = 0\<rparr>"

definition empty_dir_fs :: fsys where
  "empty_dir_fs = dir_fs zeros (\<lambda>n. True)"

definition nonempty_dir_fs :: fsys where
  "nonempty_dir_fs = dir_fs (entry_image 5 102) (\<lambda>n. True)"

text \<open>The same, with an allocator that fails the fifth request made of it.\<close>

definition failing_dir_fs :: fsys where
  "failing_dir_fs = dir_fs (entry_image 5 102) (\<lambda>n. n \<noteq> 4)"

section \<open>Properties of the system-call surface\<close>

subsection \<open>Descriptor allocation\<close>

lemma next_open_ge: "new_fd \<le> next_open fs new_fd"
proof (induction fs new_fd rule: next_open.induct)
  case (1 fs new_fd)
  show ?case
    by (subst next_open.simps) (use 1 in \<open>auto split: if_splits\<close>)
qed

text \<open>
  Whenever \<open>next_fd\<close> is a legal index above 1, \<open>init_file\<close> stores the new file
  there and returns that index, whatever the slot held: the test \<open>fd == MAX_FILES\<close>
  that should report a full table is never true for an index inside the table.
\<close>

lemma init_file_never_full:
  assumes "1 < next_fd t" "next_fd t < MAX_FILES t"
  shows "\<exists>t'. init_file file t = Ok (next_fd t, t') \<and> files t' ! nat (next_fd t) = Some file"
  using assms by (simp add: init_file_def Let_def MAX_FILES_def)

text \<open>
  Claim C7: when the descriptor table has no free slot at an index \<open>\<ge> next_fd\<close>,
  \<open>init_file\<close> returns -1 and overwrites no occupied slot.

  The code does not do so.  In a table of four slots whose descriptors 2 and 3 are both
  taken (files 10 and 11) and whose hint is 3, as two successful opens leave it,
  \<open>init_file\<close> stores the new file 12 over file 11 and returns 3.
\<close>

theorem init_file_full_table_overwrites:
  "init_file (12::nat)
     \<lparr>files = [None, None, Some 10, Some 11], next_fd = 3, console = [], keys_read = 0,
        kern = ()\<rparr>
   = Ok (3, \<lparr>files = [None, None, Some 10, Some 12], next_fd = 3, console = [],
             keys_read = 0, kern = ()\<rparr>)"
  by (simp add: init_file_def MAX_FILES_def Let_def next_open.simps)

subsection \<open>Writing to the terminal\<close>

text \<open>
  Claim C8: the write call on descriptor 1 outputs exactly \<open>size\<close> bytes of the
  buffer, in consecutive chunks of at most 256 bytes, no byte twice, and returns
  \<open>size\<close>.

  The code does not do so for sizes above 256, because each round of the loop passes
  the whole remaining size to \<open>putbuf\<close> instead of \<open>BUFFER_LIMIT\<close>.  For 257 bytes
  it emits a first chunk of 257 bytes and then the byte at offset 256 again: 258
  bytes in all.
\<close>

theorem write_to_stdout_257:
  "write_to_stdout m 257 buffer t
     = (257, t\<lparr>console := console t @ [putbuf m buffer 257, putbuf m (buffer + 256) 1]\<rparr>)
   \<and> length (putbuf m buffer 257) = 257
   \<and> length (concat [putbuf m buffer 257, putbuf m (buffer + 256) 1]) = 258"
  by (simp add: write_to_stdout_def putbuf_def write_to_stdout_loop.simps
        signed_divide_int_def signed_modulo_int_def)

subsection \<open>Writing through a directory descriptor\<close>

text \<open>
  Claim C9: for a descriptor that refers to a directory the write call is an error, as
  read, filesize, seek and tell are: nothing is written and the call returns -1 or
  terminates the process.

  The code does not do so: \<open>write_call\<close> has no \<open>is_directory\<close> test.  With
  valid arguments and a descriptor open on a directory it hands the buffer to
  \<open>file_write\<close> and returns what \<open>file_write\<close> returns, while \<open>read_call\<close> on
  the same arguments returns -1.
\<close>

theorem write_call_on_directory:
  assumes "check_pointer m esp" "check_pointer m (esp + 4)" "check_pointer m (esp + 8)"
    and "fd = sint (word_at m esp)" "2 \<le> fd" "fd < MAX_FILES t"
    and "buffer = word_at m (esp + 4)" "sz = sint (word_at m (esp + 8))"
    and "check_pointer m buffer" "check_pointer m (buffer + word_of_int sz)"
    and "files t ! nat fd = Some file" "file_is_dir ops file (kern t)"
  shows "write_call ops m esp t =
           Ok (Some (fst (file_write ops file buffer sz (kern t))),
               t\<lparr>kern := snd (file_write ops file buffer sz (kern t))\<rparr>)
         \<and> read_call ops m esp t = Ok (Some (- 1), t)"
  using assms
  by (simp add: write_call_def read_call_def get_argument_def Let_def split_beta add.commute)

theorem write_call_on_directory_witness:
  "write_call demo_ops (demo_mem 2) 0x1000 demo_proc =
     Ok (Some 1, demo_proc\<lparr>kern := [(0x2000, 1)]\<rparr>)
   \<and> read_call demo_ops (demo_mem 2) 0x1000 demo_proc = Ok (Some (- 1), demo_proc)"
proof -
  have "write_call demo_ops (demo_mem 2) 0x1000 demo_proc =
           Ok (Some (fst (file_write demo_ops 1 0x2000 1 (kern demo_proc))),
               demo_proc\<lparr>kern := snd (file_write demo_ops 1 0x2000 1 (kern demo_proc))\<rparr>)
         \<and> read_call demo_ops (demo_mem 2) 0x1000 demo_proc = Ok (Some (- 1), demo_proc)"
    by (rule write_call_on_directory [where fd = 2])
       (simp_all add: check_pointer_def is_user_vaddr_def demo_mem_def demo_proc_def
          demo_ops_def MAX_FILES_def)
  then show ?thesis by (simp add: demo_ops_def demo_proc_def)
qed

subsection \<open>Descriptors outside the table\<close>

text \<open>
  Claim C10, as stated: for every descriptor outside \<open>[2, MAX_FILES)\<close> the calls
  filesize, seek, tell and close terminate the process with status -1, whereas read and
  write return -1.

  The second half fails for the two console descriptors: write on descriptor 1 writes
  to the terminal and returns the size.
\<close>

theorem stdio_fd_counterexample:
  "sint (word_at (demo_mem 1) 0x1000) = 1 \<and> \<not> (2 \<le> (1::int))
   \<and> write_call demo_ops (demo_mem 1) 0x1000 demo_proc
       = Ok (Some 1, demo_proc\<lparr>console := [[0]]\<rparr>)"
  by (simp add: write_call_def get_argument_def check_pointer_def is_user_vaddr_def
        demo_mem_def demo_proc_def MAX_FILES_def write_to_stdout_def
        write_to_stdout_loop.simps putbuf_def signed_divide_int_def signed_modulo_int_def)

text \<open>
  Claim C10, amended: for every descriptor \<open>fd\<close> outside \<open>[2, MAX_FILES)\<close> the calls
  filesize, seek, tell and close terminate the process with status -1.  When the
  descriptor argument itself is readable, read returns -1 for \<open>fd = 1\<close>, \<open>fd < 0\<close>
  and \<open>fd \<ge> MAX_FILES\<close> (descriptor 0 reads the keyboard), and write returns -1
  for \<open>fd \<le> 0\<close> and \<open>fd \<ge> MAX_FILES\<close> (descriptor 1 writes the terminal).
\<close>

theorem invalid_fd_outcomes:
  assumes "fd = sint (word_at m esp)"
  shows "(fd < 2 \<or> MAX_FILES t \<le> fd \<longrightarrow>
            filesize_call ops m esp t = Exit (- 1) \<and> seek_call ops m esp t = Exit (- 1) \<and>
            tell_call ops m esp t = Exit (- 1) \<and> close_call ops m esp t = Exit (- 1))
       \<and> (check_pointer m esp \<and> (fd = 1 \<or> fd < 0 \<or> MAX_FILES t \<le> fd) \<longrightarrow>
            read_call ops m esp t = Ok (Some (- 1), t))
       \<and> (check_pointer m esp \<and> (fd \<le> 0 \<or> MAX_FILES t \<le> fd) \<longrightarrow>
            write_call ops m esp t = Ok (Some (- 1), t))"
  using assms
  by (auto simp add: filesize_call_def seek_call_def tell_call_def close_call_def
        read_call_def write_call_def get_argument_def Let_def)

theorem invalid_fd_outcomes_witness:
  "filesize_call demo_ops (demo_mem 7) 0x1000 demo_proc = Exit (- 1)
   \<and> seek_call demo_ops (demo_mem 7) 0x1000 demo_proc = Exit (- 1)
   \<and> tell_call demo_ops (demo_mem 7) 0x1000 demo_proc = Exit (- 1)
   \<and> close_call demo_ops (demo_mem 7) 0x1000 demo_proc = Exit (- 1)
   \<and> read_call demo_ops (demo_mem 7) 0x1000 demo_proc = Ok (Some (- 1), demo_proc)
   \<and> write_call demo_ops (demo_mem 7) 0x1000 demo_proc = Ok (Some (- 1), demo_proc)"
  using invalid_fd_outcomes [of 7 "demo_mem 7" "0x1000" demo_proc demo_ops]
  by (simp add: demo_mem_def demo_proc_def MAX_FILES_def check_pointer_def is_user_vaddr_def)

section \<open>Properties of the virtual-memory layer\<close>

lemma bitmap_scan_Some:
  "bitmap_scan bs = Some i \<Longrightarrow> i < length bs \<and> \<not> bs ! i \<and> (\<forall>j<i. bs ! j)"
proof (induction bs arbitrary: i)
  case Nil
  then show ?case by simp
next
  case (Cons b bs)
  show ?case
  proof (cases b)
    case False
    with Cons.prems show ?thesis by simp
  next
    case True
    with Cons.prems obtain k where k: "bitmap_scan bs = Some k" "i = Suc k"
      by auto
    from Cons.IH [OF k(1)] True k(2) show ?thesis
      by (auto simp: nth_Cons split: nat.splits)
  qed
qed

lemma bitmap_scan_free: "False \<in> set bs \<Longrightarrow> \<exists>i. bitmap_scan bs = Some i"
  by (induction bs) auto

lemma find_entry_update:
  assumes "\<And>e. upage (f e) = upage e"
  shows "find (\<lambda>e. upage e = u) (entry_update f u es) = map_option f (find (\<lambda>e. upage e = u) es)"
  using assms by (induction es) auto

lemma find_entry_update_other:
  assumes "v \<noteq> u"  "\<And>e. upage (f e) = upage e"
  shows "find (\<lambda>e. upage e = v) (entry_update f u es) = find (\<lambda>e. upage e = v) es"
  using assms by (induction es) auto

lemma find_upage: "find (\<lambda>e. upage e = u) es = Some e \<Longrightarrow> upage e = u"
  by (auto simp: find_Some_iff)

text \<open>The sweep changes accessed bits and the hand, nothing else.\<close>

lemma clock_sweep_frame:
  "clock_sweep s = Ok s1 \<Longrightarrow>
     frame_table s1 = frame_table s \<and> sup_tables s1 = sup_tables s \<and>
     swap_map s1 = swap_map s \<and> swap_disk s1 = swap_disk s \<and> phys_mem s1 = phys_mem s \<and>
     base_address s1 = base_address s \<and>
     (\<forall>t u. pagedir_is_dirty (pagedirs s1 t) u = pagedir_is_dirty (pagedirs s t) u) \<and>
     (\<exists>fr owner. frame_at_hand s1 = Ok (fr, owner) \<and>
        \<not> pagedir_is_accessed (pagedirs s1 owner) (fe_upage fr))"
proof (induction s rule: clock_sweep.induct)
  case (1 s)
  show ?case
  proof (cases "frame_at_hand s")
    case (Ok p)
    obtain fr owner where p: "p = (fr, owner)" by (cases p)
    show ?thesis
    proof (cases "pagedir_is_accessed (pagedirs s owner) (fe_upage fr)")
      case True
      with "1.prems" Ok p have sw: "clock_sweep (clock_advance s owner fr) = Ok s1"
        by (subst (asm) clock_sweep.simps) simp
      have ih: "frame_table s1 = frame_table (clock_advance s owner fr) \<and>
          sup_tables s1 = sup_tables (clock_advance s owner fr) \<and>
          swap_map s1 = swap_map (clock_advance s owner fr) \<and>
          swap_disk s1 = swap_disk (clock_advance s owner fr) \<and>
          phys_mem s1 = phys_mem (clock_advance s owner fr) \<and>
          base_address s1 = base_address (clock_advance s owner fr) \<and>
          (\<forall>t u. pagedir_is_dirty (pagedirs s1 t) u =
                 pagedir_is_dirty (pagedirs (clock_advance s owner fr) t) u) \<and>
          (\<exists>fr owner. frame_at_hand s1 = Ok (fr, owner) \<and>
              \<not> pagedir_is_accessed (pagedirs s1 owner) (fe_upage fr))"
        using "1.IH" [OF Ok p [symmetric] True sw] by simp
      have d: "pagedir_is_dirty (pagedirs (clock_advance s owner fr) t) u =
               pagedir_is_dirty (pagedirs s t) u" for t u
        by (auto simp: clock_advance_def pagedir_is_dirty_def pagedir_set_accessed_def
              split: option.splits)
      from ih d show ?thesis by (simp add: clock_advance_def)
    next
      case False
      with "1.prems" Ok p have "s1 = s"
        by (subst (asm) clock_sweep.simps) simp
      with Ok p False show ?thesis by simp
    qed
  next
    case (Exit x)
    with "1.prems" show ?thesis by (subst (asm) clock_sweep.simps) simp
  next
    case Panic
    with "1.prems" show ?thesis by (subst (asm) clock_sweep.simps) simp
  next
    case Fault
    with "1.prems" show ?thesis by (subst (asm) clock_sweep.simps) simp
  qed
qed

text \<open>With the hand inside the table and an owner on every frame, the sweep returns.\<close>

lemma clock_sweep_total:
  "clock_hand s < length (frame_table s) \<Longrightarrow>
   \<forall>f \<in> set (frame_table s). frame_owner f \<noteq> None \<Longrightarrow>
   \<exists>s1. clock_sweep s = Ok s1"
proof (induction s rule: clock_sweep.induct)
  case (1 s)
  from "1.prems" obtain owner where
    own: "frame_owner (frame_table s ! clock_hand s) = Some owner"
    by (metis nth_mem not_None_eq)
  let ?fr = "frame_table s ! clock_hand s"
  have fah: "frame_at_hand s = Ok (?fr, owner)"
    using "1.prems"(1) own by (simp add: frame_at_hand_def)
  show ?case
  proof (cases "pagedir_is_accessed (pagedirs s owner) (fe_upage ?fr)")
    case True
    have "\<exists>s1. clock_sweep (clock_advance s owner ?fr) = Ok s1"
    proof (rule "1.IH" [OF fah refl True])
      show "clock_hand (clock_advance s owner ?fr) < length (frame_table (clock_advance s owner ?fr))"
        using "1.prems"(1) by (auto simp: clock_advance_def)
      show "\<forall>f\<in>set (frame_table (clock_advance s owner ?fr)). frame_owner f \<noteq> None"
        using "1.prems"(2) by (simp add: clock_advance_def)
    qed
    then show ?thesis
      using fah True by (subst clock_sweep.simps) simp
  next
    case False
    then show ?thesis
      using fah by (subst clock_sweep.simps) simp
  qed
qed

lemma swap_write_sectors_other:
  "\<forall>i \<in> set is. n \<noteq> index * SECTORS_IN_PAGE + i \<Longrightarrow>
   swap_write_sectors mem a index is d n = d n"
  by (induction "is" arbitrary: d) auto

lemma swap_write_sectors_at:
  "distinct is \<Longrightarrow> i \<in> set is \<Longrightarrow>
   swap_write_sectors mem a index is d (index * SECTORS_IN_PAGE + i)
     = mem_bytes mem (a + of_nat (BLOCK_SECTOR_SIZE * i)) BLOCK_SECTOR_SIZE"
proof (induction "is" arbitrary: d)
  case Nil
  then show ?case by simp
next
  case (Cons j js)
  show ?case
  proof (cases "i = j")
    case True
    with Cons.prems have "\<forall>k \<in> set js. index * SECTORS_IN_PAGE + i \<noteq> index * SECTORS_IN_PAGE + k"
      by auto
    then show ?thesis
      using True by (simp add: swap_write_sectors_other)
  next
    case False
    with Cons show ?thesis by simp
  qed
qed

lemma mem_store_zero:
  "j < PGSIZE \<Longrightarrow> mem_store mem kpage (replicate PGSIZE 0) (kpage + of_nat j) = 0"
  by (simp add: mem_store_def unat_of_nat)

lemma frame_index:
  assumes "h < n" "n * PGSIZE \<le> 2 ^ 32"
  shows "unat ((of_nat (h * PGSIZE) + b) - b :: addr) div PGSIZE = h"
proof -
  have "h * PGSIZE < 2 ^ 32" using assms by (simp add: less_le_trans [of "h * 4096" "n * 4096"])
  have "unat (of_nat (h * PGSIZE) :: addr) = (h * PGSIZE) mod 2 ^ 32"
    by (simp only: unat_of_nat) simp
  with \<open>h * PGSIZE < 2 ^ 32\<close> have "unat (of_nat (h * PGSIZE) :: addr) = h * PGSIZE"
    by simp
  moreover have "(of_nat (h * PGSIZE) + b) - b = (of_nat (h * PGSIZE) :: addr)"
    by simp
  ultimately show ?thesis by (simp only: nonzero_mult_div_cancel_right)
qed

lemma page_find_page_update:
  assumes "\<And>e. upage (f e) = upage e"
  shows "page_find (page_update s t u f) t u = map_option f (page_find s t u)"
  using assms by (simp add: page_find_def page_update_def find_entry_update)

text \<open>
  Claim C5: on every eviction the victim page is written to a freshly allocated swap slot
  and its supplemental entry set to the swap location if and only if the dirty bit of
  the victim's page-table entry is set when it is selected; otherwise the entry is set
  to the file-system location and no swap slot is consumed; in both cases the frame is
  cleared and zeroed before reuse.

  The state is one in which the code runs without fault: the hand is inside the frame
  table, every frame has an owner whose supplemental table has an entry for the frame's
  page, and the table covers at most the 32-bit address space.  The victim is the frame
  at which the sweep of the hand stops, and \<open>kpage\<close> is its address.

  If the victim's dirty bit is set and the swap bitmap has a free slot, \<open>evict\<close>
  returns \<open>kpage\<close>; the lowest free slot is taken, its eight sectors hold the 4096
  bytes that \<open>swap_write\<close> reads at the entry's \<open>mem_addr\<close>, which are the bytes
  of the victim frame when \<open>mem_addr\<close> is \<open>kpage\<close> (the address \<open>page_fault\<close>
  stores there when it installs the page), and the entry is at \<open>BLOCK_SWAP\<close> with
  that slot.  If the dirty bit is set and no slot is free, \<open>swap_write\<close> panics and
  there is no eviction.  If the dirty bit is not set, \<open>evict\<close> returns \<open>kpage\<close>
  whether or not a slot is free; bitmap and swap sectors are unchanged and the entry is
  at \<open>BLOCK_FILESYS\<close>.  In both cases of an eviction the page-directory mapping is
  gone, the frame entry is cleared and the frame is zero.
\<close>

theorem evict_spec:
  assumes hand: "clock_hand s < length (frame_table s)"
    and owners: "\<forall>f \<in> set (frame_table s).
                   \<exists>owner. frame_owner f = Some owner \<and> page_find s owner (fe_upage f) \<noteq> None"
    and tsize: "length (frame_table s) * PGSIZE \<le> 2 ^ 32"
  shows "\<exists>s1 fr owner pg kpage.
           clock_sweep s = Ok s1 \<and>
           clock_hand s1 < length (frame_table s) \<and>
           fr = frame_table s ! clock_hand s1 \<and>
           frame_owner fr = Some owner \<and>
           page_find s owner (fe_upage fr) = Some pg \<and>
           kpage = of_nat (clock_hand s1 * PGSIZE) + base_address s \<and>
           (if pagedir_is_dirty (pagedirs s owner) (fe_upage fr)
            then (case bitmap_scan (swap_map s) of
                    None \<Rightarrow> evict s = Panic
                  | Some index \<Rightarrow>
                      (\<exists>s'. evict s = Ok (kpage, s') \<and>
                         swap_map s' = (swap_map s)[index := True] \<and>
                         (\<forall>i < SECTORS_IN_PAGE.
                            swap_disk s' (index * SECTORS_IN_PAGE + i) =
                              mem_bytes (phys_mem s) (mem_addr pg + of_nat (BLOCK_SECTOR_SIZE * i))
                                BLOCK_SECTOR_SIZE) \<and>
                         (mem_addr pg = kpage \<longrightarrow>
                            (\<forall>i < SECTORS_IN_PAGE.
                               swap_disk s' (index * SECTORS_IN_PAGE + i) =
                                 mem_bytes (phys_mem s) (kpage + of_nat (BLOCK_SECTOR_SIZE * i))
                                   BLOCK_SECTOR_SIZE)) \<and>
                         page_find s' owner (fe_upage fr) =
                           Some (pg\<lparr>swap_index := int index, block := BLOCK_SWAP, mem_addr := 0\<rparr>) \<and>
                         clock_hand s' = clock_hand s1 \<and>
                         pagedirs s' owner (fe_upage fr) = None \<and>
                         frame_table s' =
                           (frame_table s)[clock_hand s1 := fr\<lparr>fe_upage := 0, frame_owner := None\<rparr>] \<and>
                         (\<forall>j < PGSIZE. phys_mem s' (kpage + of_nat j) = 0)))
            else (\<exists>s'. evict s = Ok (kpage, s') \<and>
                    swap_map s' = swap_map s \<and> swap_disk s' = swap_disk s \<and>
                    page_find s' owner (fe_upage fr) =
                      Some (pg\<lparr>mem_addr := 0, swap_index := - 1, block := BLOCK_FILESYS\<rparr>) \<and>
                    clock_hand s' = clock_hand s1 \<and>
                    pagedirs s' owner (fe_upage fr) = None \<and>
                    frame_table s' =
                      (frame_table s)[clock_hand s1 := fr\<lparr>fe_upage := 0, frame_owner := None\<rparr>] \<and>
                    (\<forall>j < PGSIZE. phys_mem s' (kpage + of_nat j) = 0)))"
proof -
  from owners have "\<forall>f \<in> set (frame_table s). frame_owner f \<noteq> None" by auto
  with hand obtain s1 where sw: "clock_sweep s = Ok s1"
    using clock_sweep_total by blast
  from clock_sweep_frame [OF sw] obtain fr owner where
    same: "frame_table s1 = frame_table s" "sup_tables s1 = sup_tables s"
      "swap_map s1 = swap_map s" "swap_disk s1 = swap_disk s" "phys_mem s1 = phys_mem s"
      "base_address s1 = base_address s"
    and dirty: "\<And>t u. pagedir_is_dirty (pagedirs s1 t) u = pagedir_is_dirty (pagedirs s t) u"
    and fah: "frame_at_hand s1 = Ok (fr, owner)"
    by blast
  let ?h = "clock_hand s1"
  from fah have h: "?h < length (frame_table s)" and fr: "fr = frame_table s ! ?h"
    and own: "frame_owner fr = Some owner"
    by (auto simp: frame_at_hand_def same split: if_splits option.splits)
  from h fr have "fr \<in> set (frame_table s)" by simp
  with owners own obtain pg where pg0: "page_find s owner (fe_upage fr) = Some pg"
    by fastforce
  then have pg: "page_find s1 owner (fe_upage fr) = Some pg"
    by (simp add: page_find_def same)
  from pg0 have up: "upage pg = fe_upage fr"
    unfolding page_find_def by (rule find_upage)
  let ?kpage = "of_nat (?h * PGSIZE) + base_address s :: addr"
  have idx: "unat (?kpage - base_address s) div PGSIZE = ?h"
    using frame_index [OF h tsize] .
  have body: "if pagedir_is_dirty (pagedirs s owner) (fe_upage fr)
            then (case bitmap_scan (swap_map s) of
                    None \<Rightarrow> evict s = Panic
                  | Some index \<Rightarrow>
                      (\<exists>s'. evict s = Ok (?kpage, s') \<and>
                         swap_map s' = (swap_map s)[index := True] \<and>
                         (\<forall>i < SECTORS_IN_PAGE.
                            swap_disk s' (index * SECTORS_IN_PAGE + i) =
                              mem_bytes (phys_mem s) (mem_addr pg + of_nat (BLOCK_SECTOR_SIZE * i))
                                BLOCK_SECTOR_SIZE) \<and>
                         (mem_addr pg = ?kpage \<longrightarrow>
                            (\<forall>i < SECTORS_IN_PAGE.
                               swap_disk s' (index * SECTORS_IN_PAGE + i) =
                                 mem_bytes (phys_mem s) (?kpage + of_nat (BLOCK_SECTOR_SIZE * i))
                                   BLOCK_SECTOR_SIZE)) \<and>
                         page_find s' owner (fe_upage fr) =
                           Some (pg\<lparr>swap_index := int index, block := BLOCK_SWAP, mem_addr := 0\<rparr>) \<and>
                         clock_hand s' = clock_hand s1 \<and>
                         pagedirs s' owner (fe_upage fr) = None \<and>
                         frame_table s' =
                           (frame_table s)[clock_hand s1 := fr\<lparr>fe_upage := 0, frame_owner := None\<rparr>] \<and>
                         (\<forall>j < PGSIZE. phys_mem s' (?kpage + of_nat j) = 0)))
            else (\<exists>s'. evict s = Ok (?kpage, s') \<and>
                    swap_map s' = swap_map s \<and> swap_disk s' = swap_disk s \<and>
                    page_find s' owner (fe_upage fr) =
                      Some (pg\<lparr>mem_addr := 0, swap_index := - 1, block := BLOCK_FILESYS\<rparr>) \<and>
                    clock_hand s' = clock_hand s1 \<and>
                    pagedirs s' owner (fe_upage fr) = None \<and>
                    frame_table s' =
                      (frame_table s)[clock_hand s1 := fr\<lparr>fe_upage := 0, frame_owner := None\<rparr>] \<and>
                    (\<forall>j < PGSIZE. phys_mem s' (?kpage + of_nat j) = 0))"
  proof (cases "pagedir_is_dirty (pagedirs s owner) (fe_upage fr)")
    case True
    show ?thesis
    proof (cases "bitmap_scan (swap_map s)")
      case None
      then have "swap_write s1 owner pg = Panic"
        by (simp add: swap_write_def same)
      with sw fah pg True have "evict s = Panic"
        by (simp add: evict_def dirty same Let_def)
      with True None show ?thesis by simp
    next
      case (Some index)
      note sc = Some
      define s2 where "s2 = page_update
          (s1\<lparr>swap_map := (swap_map s)[index := True],
              swap_disk := swap_write_sectors (phys_mem s) (mem_addr pg) index
                             [0..<SECTORS_IN_PAGE] (swap_disk s)\<rparr>)
          owner (fe_upage fr) (page_set_sector (int index))"
      have sw2: "swap_write s1 owner pg = Ok s2"
        by (simp add: swap_write_def sc same s2_def up)
      define s3 where "s3 = s2\<lparr>pagedirs := (pagedirs s2)
          (owner := pagedir_clear_page (pagedirs s2 owner) (fe_upage fr))\<rparr>"
      define s4 where "s4 = s3\<lparr>frame_table :=
          (frame_table s3)[?h := (frame_table s3 ! ?h)\<lparr>fe_upage := 0, frame_owner := None\<rparr>]\<rparr>"
      define s5 where "s5 = s4\<lparr>phys_mem := mem_store (phys_mem s4) ?kpage (replicate PGSIZE 0)\<rparr>"
      have ft3: "frame_table s3 = frame_table s" "base_address s3 = base_address s"
        by (simp_all add: s3_def s2_def page_update_def same)
      have fd: "frame_deallocate s3 ?kpage = Ok (True, s4)"
        using h idx by (simp add: frame_deallocate_def get_frame_def ft3 s4_def Let_def)
      have ev: "evict s = Ok (?kpage, s5)"
        using sw fah pg True sw2 fd
        by (simp add: evict_def dirty same Let_def up s3_def s5_def)
      have pf: "page_find s5 owner (fe_upage fr) =
                  Some (pg\<lparr>swap_index := int index, block := BLOCK_SWAP, mem_addr := 0\<rparr>)"
      proof -
        have "page_find s5 owner (fe_upage fr) = page_find s2 owner (fe_upage fr)"
          by (simp add: s5_def s4_def s3_def page_find_def)
        also have "\<dots> = map_option (page_set_sector (int index)) (page_find s1 owner (fe_upage fr))"
          unfolding s2_def
          by (subst page_find_page_update) (simp_all add: page_set_sector_def page_find_def)
        finally show ?thesis using pg by (simp add: page_set_sector_def)
      qed
      have sd: "swap_disk s5 (index * SECTORS_IN_PAGE + i) =
                  mem_bytes (phys_mem s) (mem_addr pg + of_nat (BLOCK_SECTOR_SIZE * i))
                    BLOCK_SECTOR_SIZE" if "i < SECTORS_IN_PAGE" for i
        using that
        by (simp add: s5_def s4_def s3_def s2_def page_update_def swap_write_sectors_at)
      have rest: "clock_hand s5 = ?h" "swap_map s5 = (swap_map s)[index := True]"
        "pagedirs s5 owner (fe_upage fr) = None"
        "frame_table s5 = (frame_table s)[?h := fr\<lparr>fe_upage := 0, frame_owner := None\<rparr>]"
        "\<forall>j < PGSIZE. phys_mem s5 (?kpage + of_nat j) = 0"
        by (simp_all add: s5_def s4_def s3_def s2_def page_update_def pagedir_clear_page_def
              same fr mem_store_zero)
      have "\<exists>s'. evict s = Ok (?kpage, s') \<and>
                         swap_map s' = (swap_map s)[index := True] \<and>
                         (\<forall>i < SECTORS_IN_PAGE.
                            swap_disk s' (index * SECTORS_IN_PAGE + i) =
                              mem_bytes (phys_mem s) (mem_addr pg + of_nat (BLOCK_SECTOR_SIZE * i))
                                BLOCK_SECTOR_SIZE) \<and>
                         (mem_addr pg = ?kpage \<longrightarrow>
                            (\<forall>i < SECTORS_IN_PAGE.
                               swap_disk s' (index * SECTORS_IN_PAGE + i) =
                                 mem_bytes (phys_mem s) (?kpage + of_nat (BLOCK_SECTOR_SIZE * i))
                                   BLOCK_SECTOR_SIZE)) \<and>
                         page_find s' owner (fe_upage fr) =
                           Some (pg\<lparr>swap_index := int index, block := BLOCK_SWAP, mem_addr := 0\<rparr>) \<and>
                         clock_hand s' = clock_hand s1 \<and>
                         pagedirs s' owner (fe_upage fr) = None \<and>
                         frame_table s' =
                           (frame_table s)[clock_hand s1 := fr\<lparr>fe_upage := 0, frame_owner := None\<rparr>] \<and>
                         (\<forall>j < PGSIZE. phys_mem s' (?kpage + of_nat j) = 0)"
        using ev pf sd rest by (intro exI [of _ s5]) auto
      with True sc show ?thesis by simp
    qed
  next
    case False
    define s2 where "s2 = page_update s1 owner (fe_upage fr) (page_replace 0 BLOCK_FILESYS)"
    define s3 where "s3 = s2\<lparr>pagedirs := (pagedirs s2)
        (owner := pagedir_clear_page (pagedirs s2 owner) (fe_upage fr))\<rparr>"
    define s4 where "s4 = s3\<lparr>frame_table :=
        (frame_table s3)[?h := (frame_table s3 ! ?h)\<lparr>fe_upage := 0, frame_owner := None\<rparr>]\<rparr>"
    define s5 where "s5 = s4\<lparr>phys_mem := mem_store (phys_mem s4) ?kpage (replicate PGSIZE 0)\<rparr>"
    have ft3: "frame_table s3 = frame_table s" "base_address s3 = base_address s"
      by (simp_all add: s3_def s2_def page_update_def same)
    have fd: "frame_deallocate s3 ?kpage = Ok (True, s4)"
      using h idx by (simp add: frame_deallocate_def get_frame_def ft3 s4_def Let_def)
    have ev: "evict s = Ok (?kpage, s5)"
      using sw fah pg False fd
      by (simp add: evict_def dirty same Let_def up s2_def s3_def s5_def)
    have pf: "page_find s5 owner (fe_upage fr) =
                Some (pg\<lparr>mem_addr := 0, swap_index := - 1, block := BLOCK_FILESYS\<rparr>)"
    proof -
      have "page_find s5 owner (fe_upage fr) = page_find s2 owner (fe_upage fr)"
        by (simp add: s5_def s4_def s3_def page_find_def)
      also have "\<dots> = map_option (page_replace 0 BLOCK_FILESYS) (page_find s1 owner (fe_upage fr))"
        unfolding s2_def
        by (subst page_find_page_update) (simp_all add: page_replace_def)
      finally show ?thesis using pg by (simp add: page_replace_def)
    qed
    have rest: "clock_hand s5 = ?h" "swap_map s5 = swap_map s" "swap_disk s5 = swap_disk s"
      "pagedirs s5 owner (fe_upage fr) = None"
      "frame_table s5 = (frame_table s)[?h := fr\<lparr>fe_upage := 0, frame_owner := None\<rparr>]"
      "\<forall>j < PGSIZE. phys_mem s5 (?kpage + of_nat j) = 0"
      by (simp_all add: s5_def s4_def s3_def s2_def page_update_def pagedir_clear_page_def
            same fr mem_store_zero)
    have "\<exists>s'. evict s = Ok (?kpage, s') \<and>
                    swap_map s' = swap_map s \<and> swap_disk s' = swap_disk s \<and>
                    page_find s' owner (fe_upage fr) =
                      Some (pg\<lparr>mem_addr := 0, swap_index := - 1, block := BLOCK_FILESYS\<rparr>) \<and>
                    clock_hand s' = clock_hand s1 \<and>
                    pagedirs s' owner (fe_upage fr) = None \<and>
                    frame_table s' =
                      (frame_table s)[clock_hand s1 := fr\<lparr>fe_upage := 0, frame_owner := None\<rparr>] \<and>
                    (\<forall>j < PGSIZE. phys_mem s' (?kpage + of_nat j) = 0)"
      using ev pf rest by (intro exI [of _ s5]) auto
    with False show ?thesis by simp
  qed
  from sw h fr own pg0 body show ?thesis
    by (intro exI [of _ s1] exI [of _ fr] exI [of _ owner] exI [of _ pg] exI [of _ ?kpage])
       (intro conjI refl, assumption+)
qed


theorem evict_spec_witness:
  "(\<exists>s'. evict demo_vm = Ok (0xC0281000, s') \<and> swap_map s' = [True, True] \<and>
          (\<forall>i < SECTORS_IN_PAGE.
             swap_disk s' (SECTORS_IN_PAGE + i) =
               mem_bytes (phys_mem demo_vm) (0xC0281000 + of_nat (BLOCK_SECTOR_SIZE * i))
                 BLOCK_SECTOR_SIZE) \<and>
          map_option block (page_find s' 1 0x8049000) = Some BLOCK_SWAP \<and>
          map_option swap_index (page_find s' 1 0x8049000) = Some 1 \<and>
          pagedirs s' 1 0x8049000 = None \<and>
          frame_owner (frame_table s' ! 1) = None \<and>
          (\<forall>j < PGSIZE. phys_mem s' (0xC0281000 + of_nat j) = 0))
   \<and> (\<exists>s'. evict clean_vm = Ok (0xC0280000, s') \<and> swap_map s' = [True, True] \<and>
          swap_disk s' = swap_disk clean_vm \<and>
          map_option block (page_find s' 1 0x8048000) = Some BLOCK_FILESYS \<and>
          pagedirs s' 1 0x8048000 = None \<and>
          frame_owner (frame_table s' ! 0) = None \<and>
          (\<forall>j < PGSIZE. phys_mem s' (0xC0280000 + of_nat j) = 0))"
proof -
  have a1: "clock_hand demo_vm < length (frame_table demo_vm)"
    by (simp add: demo_vm_def)
  have a2: "\<forall>f \<in> set (frame_table demo_vm).
              \<exists>owner. frame_owner f = Some owner \<and> page_find demo_vm owner (fe_upage f) \<noteq> None"
    by (simp add: demo_vm_def page_find_def)
  have a3: "length (frame_table demo_vm) * PGSIZE \<le> 2 ^ 32"
    by (simp add: demo_vm_def)
  have sweep_a: "\<exists>x. clock_sweep demo_vm = Ok x \<and> clock_hand x = 1"
    by (simp add: clock_sweep.simps frame_at_hand_def demo_vm_def clock_advance_def
          pagedir_is_accessed_def pagedir_set_accessed_def)
  from evict_spec [OF a1 a2 a3] obtain s1 fr owner pg kpage where
    cs: "clock_sweep demo_vm = Ok s1"
    and fr: "fr = frame_table demo_vm ! clock_hand s1"
    and own: "frame_owner fr = Some owner"
    and pg: "page_find demo_vm owner (fe_upage fr) = Some pg"
    and kp: "kpage = of_nat (clock_hand s1 * PGSIZE) + base_address demo_vm"
    and body: "if pagedir_is_dirty (pagedirs demo_vm owner) (fe_upage fr)
            then (case bitmap_scan (swap_map demo_vm) of
                    None \<Rightarrow> evict demo_vm = Panic
                  | Some index \<Rightarrow>
                      (\<exists>s'. evict demo_vm = Ok (kpage, s') \<and>
                         swap_map s' = (swap_map demo_vm)[index := True] \<and>
                         (\<forall>i < SECTORS_IN_PAGE.
                            swap_disk s' (index * SECTORS_IN_PAGE + i) =
                              mem_bytes (phys_mem demo_vm) (mem_addr pg + of_nat (BLOCK_SECTOR_SIZE * i))
                                BLOCK_SECTOR_SIZE) \<and>
                         (mem_addr pg = kpage \<longrightarrow>
                            (\<forall>i < SECTORS_IN_PAGE.
                               swap_disk s' (index * SECTORS_IN_PAGE + i) =
                                 mem_bytes (phys_mem demo_vm) (kpage + of_nat (BLOCK_SECTOR_SIZE * i))
                                   BLOCK_SECTOR_SIZE)) \<and>
                         page_find s' owner (fe_upage fr) =
                           Some (pg\<lparr>swap_index := int index, block := BLOCK_SWAP, mem_addr := 0\<rparr>) \<and>
                         clock_hand s' = clock_hand s1 \<and>
                         pagedirs s' owner (fe_upage fr) = None \<and>
                         frame_table s' =
                           (frame_table demo_vm)[clock_hand s1 := fr\<lparr>fe_upage := 0, frame_owner := None\<rparr>] \<and>
                         (\<forall>j < PGSIZE. phys_mem s' (kpage + of_nat j) = 0)))
            else (\<exists>s'. evict demo_vm = Ok (kpage, s') \<and>
                    swap_map s' = swap_map demo_vm \<and> swap_disk s' = swap_disk demo_vm \<and>
                    page_find s' owner (fe_upage fr) =
                      Some (pg\<lparr>mem_addr := 0, swap_index := - 1, block := BLOCK_FILESYS\<rparr>) \<and>
                    clock_hand s' = clock_hand s1 \<and>
                    pagedirs s' owner (fe_upage fr) = None \<and>
                    frame_table s' =
                      (frame_table demo_vm)[clock_hand s1 := fr\<lparr>fe_upage := 0, frame_owner := None\<rparr>] \<and>
                    (\<forall>j < PGSIZE. phys_mem s' (kpage + of_nat j) = 0))"
    by blast
  from sweep_a cs have ch: "clock_hand s1 = 1" by auto
  from fr ch have fr': "fr = \<lparr>fe_upage = 0x8049000, frame_owner = Some 1, used = True\<rparr>"
    by (simp add: demo_vm_def)
  with own have o: "owner = 1" by simp
  from kp ch have k: "kpage = 0xC0281000" by (simp add: demo_vm_def)
  from pg fr' o have ma: "mem_addr pg = 0xC0281000"
    by (auto simp add: page_find_def demo_vm_def)
  have d: "pagedir_is_dirty (pagedirs demo_vm 1) 0x8049000"
    by (simp add: pagedir_is_dirty_def demo_vm_def)
  have b: "bitmap_scan (swap_map demo_vm) = Some 1" "(swap_map demo_vm)[1 := True] = [True, True]"
    by (simp_all add: demo_vm_def)
  from body d b fr' o k ma ch have A:
    "\<exists>s'. evict demo_vm = Ok (0xC0281000, s') \<and> swap_map s' = [True, True] \<and>
          (\<forall>i < SECTORS_IN_PAGE.
             swap_disk s' (SECTORS_IN_PAGE + i) =
               mem_bytes (phys_mem demo_vm) (0xC0281000 + of_nat (BLOCK_SECTOR_SIZE * i))
                 BLOCK_SECTOR_SIZE) \<and>
          map_option block (page_find s' 1 0x8049000) = Some BLOCK_SWAP \<and>
          map_option swap_index (page_find s' 1 0x8049000) = Some 1 \<and>
          pagedirs s' 1 0x8049000 = None \<and>
          frame_owner (frame_table s' ! 1) = None \<and>
          (\<forall>j < PGSIZE. phys_mem s' (0xC0281000 + of_nat j) = 0)"
    by (auto simp add: demo_vm_def)
  have c1: "clock_hand clean_vm < length (frame_table clean_vm)"
    by (simp add: clean_vm_def demo_vm_def)
  have c2: "\<forall>f \<in> set (frame_table clean_vm).
              \<exists>owner. frame_owner f = Some owner \<and> page_find clean_vm owner (fe_upage f) \<noteq> None"
    by (simp add: clean_vm_def demo_vm_def page_find_def)
  have c3: "length (frame_table clean_vm) * PGSIZE \<le> 2 ^ 32"
    by (simp add: clean_vm_def demo_vm_def)
  have sweep_c: "\<exists>x. clock_sweep clean_vm = Ok x \<and> clock_hand x = 0"
    by (simp add: clock_sweep.simps frame_at_hand_def clean_vm_def demo_vm_def clock_advance_def
          pagedir_is_accessed_def pagedir_set_accessed_def)
  from evict_spec [OF c1 c2 c3] obtain t1 gr gowner qg gpage where
    cs': "clock_sweep clean_vm = Ok t1"
    and gr: "gr = frame_table clean_vm ! clock_hand t1"
    and gown: "frame_owner gr = Some gowner"
    and kp': "gpage = of_nat (clock_hand t1 * PGSIZE) + base_address clean_vm"
    and body': "if pagedir_is_dirty (pagedirs clean_vm gowner) (fe_upage gr)
            then (case bitmap_scan (swap_map clean_vm) of
                    None \<Rightarrow> evict clean_vm = Panic
                  | Some index \<Rightarrow>
                      (\<exists>s'. evict clean_vm = Ok (gpage, s') \<and>
                         swap_map s' = (swap_map clean_vm)[index := True] \<and>
                         (\<forall>i < SECTORS_IN_PAGE.
                            swap_disk s' (index * SECTORS_IN_PAGE + i) =
                              mem_bytes (phys_mem clean_vm) (mem_addr qg + of_nat (BLOCK_SECTOR_SIZE * i))
                                BLOCK_SECTOR_SIZE) \<and>
                         (mem_addr qg = gpage \<longrightarrow>
                            (\<forall>i < SECTORS_IN_PAGE.
                               swap_disk s' (index * SECTORS_IN_PAGE + i) =
                                 mem_bytes (phys_mem clean_vm) (gpage + of_nat (BLOCK_SECTOR_SIZE * i))
                                   BLOCK_SECTOR_SIZE)) \<and>
                         page_find s' gowner (fe_upage gr) =
                           Some (qg\<lparr>swap_index := int index, block := BLOCK_SWAP, mem_addr := 0\<rparr>) \<and>
                         clock_hand s' = clock_hand t1 \<and>
                         pagedirs s' gowner (fe_upage gr) = None \<and>
                         frame_table s' =
                           (frame_table clean_vm)[clock_hand t1 := gr\<lparr>fe_upage := 0, frame_owner := None\<rparr>] \<and>
                         (\<forall>j < PGSIZE. phys_mem s' (gpage + of_nat j) = 0)))
            else (\<exists>s'. evict clean_vm = Ok (gpage, s') \<and>
                    swap_map s' = swap_map clean_vm \<and> swap_disk s' = swap_disk clean_vm \<and>
                    page_find s' gowner (fe_upage gr) =
                      Some (qg\<lparr>mem_addr := 0, swap_index := - 1, block := BLOCK_FILESYS\<rparr>) \<and>
                    clock_hand s' = clock_hand t1 \<and>
                    pagedirs s' gowner (fe_upage gr) = None \<and>
                    frame_table s' =
                      (frame_table clean_vm)[clock_hand t1 := gr\<lparr>fe_upage := 0, frame_owner := None\<rparr>] \<and>
                    (\<forall>j < PGSIZE. phys_mem s' (gpage + of_nat j) = 0))"
    by blast
  from sweep_c cs' have ch': "clock_hand t1 = 0" by auto
  from gr ch' have gr': "gr = \<lparr>fe_upage = 0x8048000, frame_owner = Some 1, used = True\<rparr>"
    by (simp add: clean_vm_def demo_vm_def)
  with gown have o': "gowner = 1" by simp
  from kp' ch' have k': "gpage = 0xC0280000" by (simp add: clean_vm_def demo_vm_def)
  have d': "\<not> pagedir_is_dirty (pagedirs clean_vm 1) 0x8048000"
    by (simp add: pagedir_is_dirty_def clean_vm_def)
  have b': "swap_map clean_vm = [True, True]"
    by (simp add: clean_vm_def)
  from body' d' b' gr' o' k' ch' have B:
    "\<exists>s'. evict clean_vm = Ok (0xC0280000, s') \<and> swap_map s' = [True, True] \<and>
          swap_disk s' = swap_disk clean_vm \<and>
          map_option block (page_find s' 1 0x8048000) = Some BLOCK_FILESYS \<and>
          pagedirs s' 1 0x8048000 = None \<and>
          frame_owner (frame_table s' ! 0) = None \<and>
          (\<forall>j < PGSIZE. phys_mem s' (0xC0280000 + of_nat j) = 0)"
    by (auto simp add: clean_vm_def demo_vm_def)
  from A B show ?thesis by (rule conjI)
qed

text \<open>
  On the two-frame fixture the hand passes frame 0, whose accessed bit it clears, and
  stops at frame 1, whose page is dirty: the page goes to swap slot 1.
\<close>

lemma evict_demo:
  "\<exists>s'. evict demo_vm = Ok (0xC0281000, s') \<and> clock_hand s' = 1 \<and> swap_map s' = [True, True]
     \<and> page_find s' 1 0x8049000 =
         Some \<lparr>upage = 0x8049000, block = BLOCK_SWAP, mem_addr = 0,
               file_addr = 0xC0109000, read_bytes = 100, swap_index = 1, writable = True\<rparr>"
  by (simp add: evict_def clock_sweep.simps frame_at_hand_def demo_vm_def clock_advance_def
        pagedir_is_accessed_def pagedir_set_accessed_def page_find_def pagedir_is_dirty_def
        swap_write_def page_update_def page_set_sector_def pagedir_clear_page_def
        frame_deallocate_def get_frame_def Let_def)

text \<open>With the same dirty victim and no free slot, \<open>swap_write\<close> panics.\<close>

lemma evict_full_swap:
  "evict (demo_vm\<lparr>swap_map := [True, True]\<rparr>) = Panic"
  by (simp add: evict_def clock_sweep.simps frame_at_hand_def demo_vm_def clock_advance_def
        pagedir_is_accessed_def pagedir_set_accessed_def page_find_def pagedir_is_dirty_def
        swap_write_def Let_def)

text \<open>
  Claim C6: a page fault terminates the faulting process with exit status -1 whenever
  the fault was a rights violation on a present page (a write to a read-only page), or
  the faulting page lies in kernel virtual space, or the faulting page has no
  supplemental entry and the access is not stack growth, that is, the fault address is
  below the saved stack pointer minus 32.
\<close>

theorem page_fault_rejects:
  assumes "error_code AND PF_P \<noteq> 0
           \<or> \<not> is_user_vaddr (fault_addr - fault_addr mod 4096)
           \<or> (page_find s cur (fault_addr - fault_addr mod 4096) = None
              \<and> \<not> (esp - PUSH_BYTES \<le> fault_addr))"
  shows "page_fault ext cur fault_addr error_code esp s = Exit (- 1)"
  using assms by (auto simp add: page_fault_def Let_def)

theorem page_fault_rejects_witness:
  "page_fault demo_ext 1 0x8048123 3 0xBFFFF000 demo_vm = Exit (- 1)
   \<and> page_fault demo_ext 1 0xC0000004 0 0xBFFFF000 demo_vm = Exit (- 1)
   \<and> page_fault demo_ext 1 0x0804A010 0 0xBFFFF000 demo_vm = Exit (- 1)"
proof -
  have a: "(3 :: 32 word) AND PF_P \<noteq> 0" by simp
  have b: "\<not> is_user_vaddr (0xC0000004 - 0xC0000004 mod 4096)"
    by (simp add: is_user_vaddr_def)
  have c: "page_find demo_vm 1 (0x0804A010 - 0x0804A010 mod 4096) = None
           \<and> \<not> ((0xBFFFF000 :: addr) - PUSH_BYTES \<le> 0x0804A010)"
    by (simp add: page_find_def demo_vm_def)
  show ?thesis
    using page_fault_rejects [of 3 "0x8048123" demo_vm 1 "0xBFFFF000" demo_ext]
      page_fault_rejects [of 0 "0xC0000004" demo_vm 1 "0xBFFFF000" demo_ext]
      page_fault_rejects [of 0 "0x0804A010" demo_vm 1 "0xBFFFF000" demo_ext]
      a b c
    by blast
qed

section \<open>Properties of the inode layer\<close>

lemma extend_second_level_cases:
  "extend_second_level xs sl t st dev = r \<Longrightarrow> r \<noteq> Panic \<and> (\<forall>s. r \<noteq> Exit s)"
proof (induction xs arbitrary: sl t st dev)
  case Nil
  then show ?case by auto
next
  case (Cons x xs)
  then show ?case
    by (auto simp: Let_def split: if_splits prod.splits)
qed

lemma extend_fields:
  assumes "extend di tot start dev = Ok (ok, di', dev')"
  shows "ilength di' = ilength di \<and> magic di' = magic di \<and>
         parent_directory di' = parent_directory di \<and>
         inode_is_directory di' = inode_is_directory di"
  using assms
  by (auto simp: extend_def Let_def split: if_splits prod.splits result.splits)

lemma inode_write_at_length:
  assumes "inode_write_at ino buffer sz offset dev = Ok (r, ino', dev')"
  shows "ilength (data ino') = ilength (data ino) \<or>
         (ilength (data ino) < offset + sz \<and> ilength (data ino') = offset + sz)"
  using assms
  by (auto simp: inode_write_at_def Let_def dest: extend_fields
           split: if_splits prod.splits result.splits)

lemma inode_step_length:
  assumes "inode_step op (ino, dev) = Ok (ino', dev')"
  shows "ilength (data ino) \<le> ilength (data ino')"
proof (cases op)
  case (Create sec len parent is_dir)
  with assms show ?thesis by (auto split: result.splits)
next
  case (Read buffer sz offset)
  with assms show ?thesis by (auto split: result.splits)
next
  case (Write buffer sz offset)
  with assms obtain n where "inode_write_at ino buffer sz offset dev = Ok (n, ino', dev')"
    by (auto split: result.splits)
  from inode_write_at_length [OF this] show ?thesis by auto
qed

lemma inode_steps_length:
  "inode_steps ops st = Ok st' \<Longrightarrow> ilength (data (fst st)) \<le> ilength (data (fst st'))"
proof (induction ops arbitrary: st)
  case Nil
  then show ?case by simp
next
  case (Cons op ops)
  from Cons.prems obtain st1 where s1: "inode_step op st = Ok st1" and
    s2: "inode_steps ops st1 = Ok st'"
    by (auto split: result.splits)
  from s1 have "ilength (data (fst st)) \<le> ilength (data (fst st1))"
    using inode_step_length [of op "fst st" "snd st" "fst st1" "snd st1"] by simp
  with Cons.IH [OF s2] show ?case by simp
qed

text \<open>A write of three bytes to the empty file of the fixture takes the free sector 2.\<close>

lemma demo_write:
  "\<exists>ino' dev'. inode_write_at demo_inode demo_buf 3 0 demo_dev = Ok (3, ino', dev')
     \<and> ilength (data ino') = 3 \<and> data_blocks (data ino') ! 0 = 2"
  by (simp add: inode_write_at_def demo_inode_def demo_dev_def bytes_to_sectors_def u32_def
       check_length_def free_map_count_def extend_def allocate_direct_def free_map_allocate_def
       Let_def write_loop.simps byte_to_sector_def chunk_size_at_def fs_malloc_def malloc_def
       signed_divide_int_def signed_modulo_int_def)

text \<open>The equations that run the inode layer on concrete inputs.\<close>

lemmas fs_eval_defs =
  inode_write_at_def inode_read_at_def inode_create_def inode_length_def
  bytes_to_sectors_def u32_def check_length_def free_map_count_def extend_def
  allocate_direct_def free_map_allocate_def Let_def write_loop.simps read_loop.simps
  byte_to_sector_def chunk_size_at_def fs_malloc_def malloc_def
  signed_divide_int_def signed_modulo_int_def DIV_ROUND_UP_def

lemma demo_steps:
  "\<exists>ino' dev'. inode_steps [Write demo_buf 3 0, Read zeros 3 0, Create 3 0 1 0]
                   (demo_inode, demo_dev) = Ok (ino', dev') \<and> ilength (data ino') = 3"
  by (simp add: fs_eval_defs demo_inode_def demo_dev_def)

text \<open>
  Claim C3: the length of an inode never decreases across any sequence of
  \<open>inode_create\<close>, \<open>inode_read_at\<close> and \<open>inode_write_at\<close>; a write changes the
  length only when its end \<open>offset + size\<close> exceeds the current length, and then to
  that value.
\<close>

theorem length_never_decreases:
  "(inode_steps ops (ino, dev) = Ok (ino', dev') \<longrightarrow> ilength (data ino) \<le> ilength (data ino'))
   \<and> (inode_write_at ino buffer sz offset dev = Ok (r, ino1, dev1) \<longrightarrow>
        ilength (data ino1) = ilength (data ino)
        \<or> (ilength (data ino) < offset + sz \<and> ilength (data ino1) = offset + sz))"
  using inode_steps_length [of ops "(ino, dev)" "(ino', dev')"]
    inode_write_at_length [of ino buffer sz offset dev r ino1 dev1]
  by simp

theorem length_never_decreases_witness:
  "\<exists>ino' dev' ino1 dev1.
     inode_steps [Write demo_buf 3 0, Read zeros 3 0, Create 3 0 1 0] (demo_inode, demo_dev)
       = Ok (ino', dev')
     \<and> ilength (data demo_inode) \<le> ilength (data ino')
     \<and> inode_write_at demo_inode demo_buf 3 0 demo_dev = Ok (3, ino1, dev1)
     \<and> ilength (data demo_inode) < 0 + 3 \<and> ilength (data ino1) = 0 + 3"
proof -
  obtain ino' dev' where a:
    "inode_steps [Write demo_buf 3 0, Read zeros 3 0, Create 3 0 1 0] (demo_inode, demo_dev)
       = Ok (ino', dev')"
    using demo_steps by blast
  obtain ino1 dev1 where b: "inode_write_at demo_inode demo_buf 3 0 demo_dev = Ok (3, ino1, dev1)"
    and c: "ilength (data ino1) = 3"
    using demo_write by blast
  have d: "ilength (data demo_inode) = 0" by (simp add: demo_inode_def)
  from length_never_decreases
         [of "[Write demo_buf 3 0, Read zeros 3 0, Create 3 0 1 0]" demo_inode demo_dev ino' dev'
             demo_buf 3 0 3 ino1 dev1]
       a b c d
  show ?thesis by auto
qed

subsection \<open>Writes with an allocator that does not fail\<close>

lemma fs_malloc_ok:
  assumes "heap_ok (fs_heap dev)" "fs_malloc dev = (ok, dev')"
  shows "ok \<and> heap_ok (fs_heap dev') \<and> disk dev' = disk dev \<and> free_map dev' = free_map dev"
  using assms by (auto simp: fs_malloc_def malloc_def heap_ok_def)

lemma free_map_allocate_heap:
  "free_map_allocate dev old = (ok, s, dev') \<Longrightarrow> fs_heap dev' = fs_heap dev"
  by (auto simp: free_map_allocate_def split: option.splits)

lemma allocate_entry_heap: "fs_heap (snd (allocate_entry i p)) = fs_heap (snd p)"
  by (cases p) (auto simp: allocate_entry_def Let_def split: prod.splits dest: free_map_allocate_heap)

lemma fold_allocate_entry_heap: "fs_heap (snd (fold allocate_entry xs p)) = fs_heap (snd p)"
  by (induction xs arbitrary: p) (simp_all add: allocate_entry_heap)

lemma allocate_direct_heap: "fs_heap (snd (allocate_direct i p)) = fs_heap (snd p)"
  by (cases p) (auto simp: allocate_direct_def Let_def split: prod.splits dest: free_map_allocate_heap)

lemma fold_allocate_direct_heap: "fs_heap (snd (fold allocate_direct xs p)) = fs_heap (snd p)"
  by (induction xs arbitrary: p) (simp_all add: allocate_direct_heap)

lemma fold_allocate_entry_heap':
  "fold allocate_entry xs (fl, d) = (fl', d') \<Longrightarrow> fs_heap d' = fs_heap d"
  using fold_allocate_entry_heap [of xs "(fl, d)"] by simp

lemma fold_allocate_direct_heap':
  "fold allocate_direct xs (bl, d) = (bl', d') \<Longrightarrow> fs_heap d' = fs_heap d"
  using fold_allocate_direct_heap [of xs "(bl, d)"] by simp

lemma allocate_first_level_ok:
  assumes "heap_ok (fs_heap dev)"
    and "allocate_first_level sec n st dev = (ok, sec', n', st', dev')"
  shows "ok \<and> heap_ok (fs_heap dev') \<and> n' = n - min POINTERS_IN_SECTOR n"
proof (cases "st < POINTERS_IN_SECTOR")
  case False
  with assms show ?thesis
    by (auto simp: allocate_first_level_def Let_def min_def)
next
  case True
  obtain okm dev1 where m: "fs_malloc dev = (okm, dev1)" by (cases "fs_malloc dev")
  from fs_malloc_ok [OF assms(1) m] have okm: okm and h1: "heap_ok (fs_heap dev1)" by auto
  from assms(2) True m okm h1 show ?thesis
    by (auto simp: allocate_first_level_def Let_def min_def
             split: if_splits prod.splits
             dest!: fold_allocate_entry_heap' free_map_allocate_heap)
qed

lemma extend_second_level_ok:
  assumes "heap_ok (fs_heap dev)" "\<forall>x \<in> set xs. x < POINTERS_IN_SECTOR"
  shows "\<exists>sl' dev'. extend_second_level xs sl t st dev = Ok (True, sl', dev')
                   \<and> heap_ok (fs_heap dev')"
  using assms
proof (induction xs arbitrary: sl t st dev)
  case Nil
  then show ?case by simp
next
  case (Cons x xs)
  obtain ok s t1 st1 dev1 where a:
    "allocate_first_level (sl x) t st dev = (ok, s, t1, st1, dev1)"
    by (cases "allocate_first_level (sl x) t st dev") auto
  from allocate_first_level_ok [OF Cons.prems(1) a] have ok: ok and h: "heap_ok (fs_heap dev1)"
    by auto
  from Cons.prems(2) have x: "x < POINTERS_IN_SECTOR" and xs: "\<forall>y \<in> set xs. y < POINTERS_IN_SECTOR"
    by auto
  from Cons.IH [OF h xs] obtain sl' dev' where
    "extend_second_level xs (sl(x := s)) t1 st1 dev1 = Ok (True, sl', dev')"
    "heap_ok (fs_heap dev')"
    by blast
  with a ok x show ?case by auto
qed

lemma sdiv_nonneg: "0 \<le> (a::int) \<Longrightarrow> a sdiv 512 = a div 512"
  by (simp add: signed_divide_int_def sgn_if)

lemma smod_nonneg: "0 \<le> (a::int) \<Longrightarrow> a smod 512 = a mod 512"
  by (simp add: signed_modulo_int_def sgn_if)

lemma bytes_to_sectors_bound:
  assumes "0 \<le> n" "n \<le> 16522 * 512"
  shows "bytes_to_sectors n \<le> 16522"
proof -
  have "n + 512 - 1 = n + 511" by simp
  then have "(n + 512 - 1) sdiv 512 = (n + 511) div 512"
    using assms(1) sdiv_nonneg [of "n + 511"] by (simp only:)
  moreover have "0 \<le> (n + 511) div 512" "(n + 511) div 512 \<le> 16522"
    using assms by auto
  ultimately show ?thesis
    by (simp add: bytes_to_sectors_def u32_def)
qed

lemma DIV_ROUND_UP_bound: "t \<le> 16384 \<Longrightarrow> DIV_ROUND_UP t POINTERS_IN_SECTOR \<le> 128"
  by (simp add: DIV_ROUND_UP_def)

lemma extend_ok:
  assumes "heap_ok (fs_heap dev)" "tot \<le> 16522"
  shows "\<exists>di' dev'. extend di tot start dev = Ok (True, di', dev') \<and> heap_ok (fs_heap dev')"
proof -
  define num_direct where "num_direct = (if tot \<ge> DIRECT_SECTORS then DIRECT_SECTORS else tot)"
  obtain blocks1 dev1 where f:
    "fold allocate_direct [start..<num_direct] (data_blocks di, dev) = (blocks1, dev1)"
    by (cases "fold allocate_direct [start..<num_direct] (data_blocks di, dev)")
  have h1: "heap_ok (fs_heap dev1)"
    using fold_allocate_direct_heap' [OF f] assms(1) by simp
  define starting1 where "starting1 = (if start < DIRECT_SECTORS then 0 else start - DIRECT_SECTORS)"
  define total1 where "total1 = tot - num_direct"
  have t1: "total1 \<le> 16512" using assms(2) unfolding total1_def num_direct_def by arith
  show ?thesis
  proof (cases "total1 > 0")
    case False
    with f h1 show ?thesis
      unfolding extend_def Let_def num_direct_def [symmetric] total1_def [symmetric]
        starting1_def [symmetric]
      by simp
  next
    case True
    obtain ok fl total2 starting2 dev2 where a:
      "allocate_first_level (blocks1 ! INDEX_OF_FL) total1 starting1 dev1
         = (ok, fl, total2, starting2, dev2)"
      by (cases "allocate_first_level (blocks1 ! INDEX_OF_FL) total1 starting1 dev1") auto
    from allocate_first_level_ok [OF h1 a] have ok: ok and h2: "heap_ok (fs_heap dev2)"
      and t2: "total2 = total1 - min POINTERS_IN_SECTOR total1"
      by auto
    show ?thesis
    proof (cases "total2 > 0")
      case False
      with f True a ok h2 show ?thesis
        unfolding extend_def Let_def num_direct_def [symmetric] total1_def [symmetric]
          starting1_def [symmetric]
        by simp
    next
      case t2pos: True
      obtain okm dev3 where m: "fs_malloc dev2 = (okm, dev3)" by (cases "fs_malloc dev2")
      from fs_malloc_ok [OF h2 m] have okm: okm and h3: "heap_ok (fs_heap dev3)" by auto
      have "total2 \<le> 16384" using t1 t2 by (simp add: min_def split: if_splits)
      then have "DIV_ROUND_UP total2 POINTERS_IN_SECTOR \<le> 128" by (rule DIV_ROUND_UP_bound)
      then have small:
        "\<forall>x \<in> set [0..<DIV_ROUND_UP total2 POINTERS_IN_SECTOR]. x < POINTERS_IN_SECTOR"
        by auto
      show ?thesis
      proof (cases "starting2 = 0")
        case s0: True
        obtain got s d where fa:
          "free_map_allocate dev3 (blocks1[INDEX_OF_FL := fl] ! INDEX_OF_SL) = (got, s, d)"
          by (cases "free_map_allocate dev3 (blocks1[INDEX_OF_FL := fl] ! INDEX_OF_SL)") auto
        from free_map_allocate_heap [OF fa] h3 have h4: "heap_ok (fs_heap d)" by simp
        from extend_second_level_ok [OF h4 small] obtain sl' dev5 where
          e: "extend_second_level [0..<DIV_ROUND_UP total2 POINTERS_IN_SECTOR] (\<lambda>k. 0) total2
                starting2 d = Ok (True, sl', dev5)" and h5: "heap_ok (fs_heap dev5)"
          by blast
        from f True a ok t2pos m okm s0 fa e h5 show ?thesis
          unfolding extend_def Let_def num_direct_def [symmetric] total1_def [symmetric]
              starting1_def [symmetric]
          by simp
      next
        case s1: False
        from extend_second_level_ok [OF h3 small] obtain sl' dev5 where
          e: "extend_second_level [0..<DIV_ROUND_UP total2 POINTERS_IN_SECTOR]
                (rd32 (block_read (disk dev3) (blocks1[INDEX_OF_FL := fl] ! INDEX_OF_SL)))
                total2 starting2 dev3 = Ok (True, sl', dev5)" and h5: "heap_ok (fs_heap dev5)"
          by blast
        from f True a ok t2pos m okm s1 e h5 show ?thesis
          unfolding extend_def Let_def num_direct_def [symmetric] total1_def [symmetric]
              starting1_def [symmetric]
          by simp
      qed
    qed
  qed
qed

lemma byte_to_sector_ok:
  assumes "heap_ok (fs_heap dev)" "0 \<le> pos" "pos < 16522 * 512"
  shows "\<exists>s dev'. byte_to_sector ino pos len dev = Ok (s, dev') \<and> heap_ok (fs_heap dev')"
proof -
  have d: "pos sdiv 512 = pos div 512" using assms(2) by (rule sdiv_nonneg)
  have "0 \<le> pos div 512" "pos div 512 < 16522" using assms by auto
  then have u: "u32 (pos div 512) = nat (pos div 512)" "nat (pos div 512) < 16522"
    by (auto simp: u32_def)
  obtain ok1 dev1 where m1: "fs_malloc dev = (ok1, dev1)" by (cases "fs_malloc dev")
  from fs_malloc_ok [OF assms(1) m1] have ok1: ok1 and h1: "heap_ok (fs_heap dev1)" by auto
  obtain ok2 dev2 where m2: "fs_malloc dev1 = (ok2, dev2)" by (cases "fs_malloc dev1")
  from fs_malloc_ok [OF h1 m2] have ok2: ok2 and h2: "heap_ok (fs_heap dev2)" by auto
  have "(nat (pos div 512) - SECTORS_BEFORE_SL) div POINTERS_IN_SECTOR < POINTERS_IN_SECTOR"
    using u(2) by simp
  with assms(1) m1 ok1 h1 m2 ok2 h2 u show ?thesis
    by (auto simp: byte_to_sector_def Let_def d)
qed

lemma chunk_size_at_pos:
  assumes "0 \<le> offset" "0 < sz" "offset + sz \<le> len"
  shows "0 < chunk_size_at sz offset len" "chunk_size_at sz offset len \<le> sz"
    "0 \<le> offset smod 512"
proof -
  have m: "offset smod 512 = offset mod 512" using assms(1) by (rule smod_nonneg)
  have "0 \<le> offset mod 512" "offset mod 512 < 512" by simp_all
  with assms m show "0 < chunk_size_at sz offset len" "0 \<le> offset smod 512"
    by (auto simp: chunk_size_at_def Let_def)
  show "chunk_size_at sz offset len \<le> sz" by (rule chunk_size_at_le)
qed

lemma write_loop_ok:
  assumes "heap_ok (fs_heap dev)" "0 \<le> offset" "0 \<le> sz" "offset + sz \<le> file_size"
    and "offset + sz \<le> 16522 * 512"
  shows "\<exists>dev'. write_loop ino buffer file_size sz offset bw bounce dev = Ok (bw + sz, dev')
               \<and> heap_ok (fs_heap dev')"
  using assms
proof (induction "nat sz" arbitrary: sz offset bw bounce dev rule: less_induct)
  case less
  show ?case
  proof (cases "sz > 0")
    case False
    with less.prems show ?thesis
      by (subst write_loop.simps) simp
  next
    case True
    from less.prems True have "offset < 16522 * 512" by simp
    from byte_to_sector_ok [OF less.prems(1,2) this] obtain s dev1 where
      b: "byte_to_sector ino offset file_size dev = Ok (s, dev1)" and h1: "heap_ok (fs_heap dev1)"
      by blast
    define chunk where "chunk = chunk_size_at sz offset file_size"
    from chunk_size_at_pos [OF less.prems(2) True less.prems(4)]
    have c: "0 < chunk" "chunk \<le> sz" and so: "0 \<le> offset smod 512"
      by (simp_all add: chunk_def)
    have lt: "nat (sz - chunk) < nat sz" using c True by simp
    have pre: "0 \<le> offset + chunk" "0 \<le> sz - chunk" "offset + chunk + (sz - chunk) \<le> file_size"
      "offset + chunk + (sz - chunk) \<le> 16522 * 512"
      using less.prems c by simp_all
    show ?thesis
    proof (cases "offset smod 512 = 0 \<and> chunk = 512")
      case direct: True
      let ?dev = "dev1\<lparr>disk := block_write (disk dev1) s (\<lambda>i. buffer (nat bw + i))\<rparr>"
      have "heap_ok (fs_heap ?dev)" using h1 by simp
      from less.hyps [OF lt this pre] obtain dev' where
        "write_loop ino buffer file_size (sz - chunk) (offset + chunk) (bw + chunk) bounce ?dev
           = Ok (bw + chunk + (sz - chunk), dev')" "heap_ok (fs_heap dev')"
        by blast
      with True b c direct show ?thesis
        by (subst write_loop.simps) (simp add: Let_def chunk_def [symmetric])
    next
      case False
      obtain ok dev2 where m: "(if bounce then (True, dev1) else fs_malloc dev1) = (ok, dev2)"
        by (cases "if bounce then (True, dev1) else fs_malloc dev1")
      have ok: ok and h2: "heap_ok (fs_heap dev2)"
        using m h1 fs_malloc_ok [OF h1, of ok dev2] by (auto split: if_splits)
      define bounce1 where "bounce1 =
         memcpy (if offset smod 512 > 0 \<or> chunk < 512 - offset smod 512
                 then block_read (disk dev2) s else zeros)
           (nat (offset smod 512)) buffer (nat bw) (nat chunk)"
      let ?dev = "dev2\<lparr>disk := block_write (disk dev2) s bounce1\<rparr>"
      have "heap_ok (fs_heap ?dev)" using h2 by simp
      from less.hyps [OF lt this pre] obtain dev' where
        "write_loop ino buffer file_size (sz - chunk) (offset + chunk) (bw + chunk) True ?dev
           = Ok (bw + chunk + (sz - chunk), dev')" "heap_ok (fs_heap dev')"
        by blast
      with True b c False m ok so show ?thesis
        by (subst write_loop.simps)
           (auto simp add: Let_def chunk_def [symmetric] bounce1_def [symmetric])
    qed
  qed
qed

text \<open>
  When the allocation of the bounce buffer fails the loop stops, the count of bytes
  written so far is returned, and the new length is stored all the same.  On the
  fixture with an allocator that always fails, a write of three bytes returns 0 and
  leaves the length 3.
\<close>

lemma write_bounce_failure:
  "map_option fst
     (returned (inode_write_at demo_inode demo_buf 3 0 (demo_dev\<lparr>fs_heap := (\<lambda>n. False)\<rparr>)))
     = Some 0
   \<and> map_option (ilength \<circ> data \<circ> fst \<circ> snd)
       (returned (inode_write_at demo_inode demo_buf 3 0 (demo_dev\<lparr>fs_heap := (\<lambda>n. False)\<rparr>)))
     = Some 3
   \<and> ilength (data demo_inode) = 0"
  by (simp add: fs_eval_defs demo_inode_def demo_dev_def returned_def)

text \<open>
  A size below zero, which \<open>write\<close> passes on as the user gave it, grows the file to
  \<open>offset + size\<close> and writes nothing: on the fixture a write of \<open>-1\<close> bytes at
  offset 5 returns 0 and leaves the length 4.
\<close>

lemma inode_write_at_negative_size:
  "map_option fst (returned (inode_write_at demo_inode demo_buf (- 1) 5 demo_dev)) = Some 0
   \<and> map_option (ilength \<circ> data \<circ> fst \<circ> snd)
       (returned (inode_write_at demo_inode demo_buf (- 1) 5 demo_dev)) = Some 4
   \<and> ilength (data demo_inode) = 0"
  by (simp add: fs_eval_defs demo_inode_def demo_dev_def returned_def)

text \<open>
  The count returned and the length stored: a write of \<open>size \<ge> 0\<close> bytes at an
  \<open>offset \<ge> 0\<close> with \<open>offset + size \<le> (10 + 128 + 16384) * 512\<close>, during
  which no request to the kernel allocator fails, returns; it returns either \<open>size\<close>,
  with the length then the larger of the old length and \<open>offset + size\<close>, or 0 with
  the length unchanged.  This says nothing of the sectors the bytes were written to.
\<close>

lemma inode_write_at_count:
  assumes "heap_ok (fs_heap dev)" "0 \<le> offset" "0 \<le> sz"
    and "offset + sz \<le> (10 + 128 + 16384) * 512"
  shows "\<exists>r ino' dev'.
           inode_write_at ino buffer sz offset dev = Ok (r, ino', dev') \<and>
           (r = sz \<and> ilength (data ino') = max (ilength (data ino)) (offset + sz)
            \<or> r = 0 \<and> ilength (data ino') = ilength (data ino))"
proof (cases "deny_write_cnt ino \<noteq> 0")
  case True
  then show ?thesis by (simp add: inode_write_at_def)
next
  case deny: False
  let ?current_length = "ilength (data ino)"
  let ?new_size = "offset + sz"
  let ?file_size = "if ?current_length < ?new_size then ?new_size else ?current_length"
  let ?final_sectors = "bytes_to_sectors ?new_size"
  let ?current_sectors = "bytes_to_sectors ?current_length"
  have ns: "0 \<le> ?new_size" "?new_size \<le> 16522 * 512"
    using assms by simp_all
  have fs: "?final_sectors \<le> 16522"
    using ns by (rule bytes_to_sectors_bound)
  have loop: "\<exists>dev2. write_loop ino1 buffer ?file_size sz offset 0 False dev1 = Ok (sz, dev2)"
    if "heap_ok (fs_heap dev1)" for ino1 dev1
  proof -
    have "offset + sz \<le> ?file_size" by simp
    moreover have "offset + sz \<le> 16522 * 512" using assms(4) by simp
    ultimately show ?thesis
      using write_loop_ok [OF that assms(2,3), of ?file_size ino1 buffer 0 False] by auto
  qed
  show ?thesis
  proof (cases "?final_sectors > ?current_sectors")
    case False
    from loop [OF assms(1)] obtain dev2 where
      "write_loop (ino\<lparr>data := data ino\<rparr>) buffer ?file_size sz offset 0 False dev = Ok (sz, dev2)"
      by blast
    with deny False show ?thesis
      by (auto simp: inode_write_at_def Let_def max_def)
  next
    case grow: True
    show ?thesis
    proof (cases "check_length dev (?final_sectors - ?current_sectors)")
      case False
      with deny grow show ?thesis by (simp add: inode_write_at_def Let_def)
    next
      case True
      from extend_ok [OF assms(1) fs] obtain data1 dev1 where
        e: "extend (data ino) ?final_sectors ?current_sectors dev = Ok (True, data1, dev1)"
        and h: "heap_ok (fs_heap dev1)"
        by blast
      from extend_fields [OF e] have l: "ilength data1 = ilength (data ino)" by simp
      from loop [OF h] obtain dev2 where
        "write_loop (ino\<lparr>data := data1\<rparr>) buffer ?file_size sz offset 0 False dev1 = Ok (sz, dev2)"
        by blast
      with deny grow True e l show ?thesis
        by (auto simp: inode_write_at_def Let_def max_def)
    qed
  qed
qed

lemma inode_write_at_count_demo:
  "heap_ok (fs_heap demo_dev) \<and> (0::int) \<le> 0 \<and> (0::int) \<le> 3
   \<and> (0::int) + 3 \<le> (10 + 128 + 16384) * 512
   \<and> (\<exists>r ino' dev'.
           inode_write_at demo_inode demo_buf 3 0 demo_dev = Ok (r, ino', dev') \<and>
           (r = 3 \<and> ilength (data ino') = max (ilength (data demo_inode)) (0 + 3)
            \<or> r = 0 \<and> ilength (data ino') = ilength (data demo_inode)))"
proof -
  have h: "heap_ok (fs_heap demo_dev)" by (simp add: heap_ok_def demo_dev_def)
  from inode_write_at_count [OF h, of 0 3 demo_inode demo_buf] h
  show ?thesis by simp
qed

subsection \<open>Writing and reading back\<close>

lemma bitmap_scan_replicate:
  "bitmap_scan (replicate n True @ xs) = map_option (\<lambda>i. n + i) (bitmap_scan xs)"
  by (induction n) (simp_all add: option.map_comp comp_def option.map_ident)

lemma upt_0_2: "[0..<2] = [0, Suc 0]"
  by (simp add: numeral_2_eq_2)

lemma upt_0_1: "[0..<1] = [0]"
  by simp

text \<open>
  On the nearly full device the check before a growth by two sectors passes, although
  the growth from 138 to 140 sectors needs four: the double-indirect block, one
  indirect block and two data sectors.  \<open>extend\<close> spends the two free sectors on the
  index blocks; both allocations of data sectors fail, their results are ignored, and
  both entries of the new indirect block stay 0.
\<close>

lemma check_full: "check_length full_dev 2"
  by (simp add: check_length_def full_dev_def free_map_count_def)

lemma ext_full:
  "\<exists>dev'. extend (data big_inode) 140 138 full_dev =
     Ok (True, (data big_inode)\<lparr>data_blocks := [3, 4, 5, 6, 7, 8, 9, 10, 11, 12, 13, 142]\<rparr>, dev')
     \<and> rd32 (disk dev' 142) 0 = 143 \<and> rd32 (disk dev' 143) 0 = 0 \<and> rd32 (disk dev' 143) 1 = 0
     \<and> free_map dev' = replicate 142 True @ [True, True] \<and> fs_heap dev' = (\<lambda>n. True)"
  by (simp add: extend_def Let_def big_inode_def full_dev_def allocate_first_level_def
        fs_malloc_def malloc_def free_map_allocate_def bitmap_scan_replicate DIV_ROUND_UP_def
        allocate_entry_def block_write_def block_read_def sector_of_def wr32_def rd32_def
        list_update_append zeros_def upt_0_2 upt_0_1)


text \<open>The equations that run the index blocks on concrete inputs.\<close>

lemmas fs_eval_index_defs =
  allocate_first_level_def free_map_allocate_def bitmap_scan_replicate allocate_entry_def
  block_write_def block_read_def sector_of_def wr32_def rd32_def memcpy_def zeros_def
  inode_words_def list_update_append upt_0_2 upt_0_1

text \<open>
  Claim C1: if \<open>inode_write_at (inode, buf, size, offset)\<close> returns \<open>size\<close> and the
  file is not extended afterwards, then \<open>inode_read_at\<close> at the same offset and size
  returns \<open>size\<close> and yields exactly the bytes of \<open>buf\<close>.

  The code does not ensure this for a growing write on a nearly full device.  The
  check before the growth is given the number of new data sectors only and so misses
  the index blocks the growth needs, and \<open>extend\<close> ignores a failed
  \<open>free_map_allocate\<close>.  On the fixture, a write of 513 bytes at the end of the file
  of 138 sectors returns 513 with both new file sectors mapped to device sector 0; the
  second chunk overwrites the first, and the read of the same range returns 513 bytes
  whose first byte is 2, where the buffer written has 1.
\<close>

theorem write_then_read_full_disk:
  "map_option fst (write_then_read big_inode two_buf 513 70656 full_dev) = Some 513
   \<and> map_option (fst \<circ> snd) (write_then_read big_inode two_buf 513 70656 full_dev) = Some 513
   \<and> map_option (\<lambda>r. snd (snd r) 0) (write_then_read big_inode two_buf 513 70656 full_dev)
       = Some 2
   \<and> two_buf 0 = 1"
  by (simp add: write_then_read_def fs_eval_defs fs_eval_index_defs big_inode_def full_dev_def
        two_buf_def)

text \<open>
  Claim C2: for every write with \<open>offset + size \<le> (10 + 128 + 16384) * 512\<close>,
  \<open>inode_write_at\<close> either writes all \<open>size\<close> bytes and returns \<open>size\<close>, or
  returns 0 and leaves the length of the inode unchanged; no outcome returns a partial
  count or changes the length without completing the write.

  The code does not ensure this.  On the nearly full device, with an allocator that
  does not fail, the write of 513 bytes at the end of the file of 138 sectors lies
  within the capacity, returns 513 and stores the length 71169, but the file does not
  hold the bytes.  \<open>check_length\<close>, whose comment says that it ensures enough space
  to allocate the sectors, is given the number of new data sectors only and passes with
  two sectors free where the growth needs four, and \<open>extend\<close> ignores the
  \<open>free_map_allocate\<close> that fails: both new sectors of the file are device sector 0,
  which lies outside the file's allocation, and its first byte after the write is 2
  where the buffer has 1.
\<close>

theorem inode_write_at_full_disk:
  "heap_ok (fs_heap full_dev)
   \<and> (70656 :: int) + 513 \<le> (10 + 128 + 16384) * 512
   \<and> map_option fst (returned (inode_write_at big_inode two_buf 513 70656 full_dev)) = Some 513
   \<and> map_option (\<lambda>r. ilength (data (fst (snd r))))
        (returned (inode_write_at big_inode two_buf 513 70656 full_dev)) = Some 71169
   \<and> map_option (\<lambda>r. map_option fst
                         (returned (byte_to_sector (fst (snd r)) 70656 71169 (snd (snd r)))))
        (returned (inode_write_at big_inode two_buf 513 70656 full_dev)) = Some (Some 0)
   \<and> map_option (\<lambda>r. map_option fst
                         (returned (byte_to_sector (fst (snd r)) 71168 71169 (snd (snd r)))))
        (returned (inode_write_at big_inode two_buf 513 70656 full_dev)) = Some (Some 0)
   \<and> map_option (\<lambda>r. disk (snd (snd r)) 0 0)
        (returned (inode_write_at big_inode two_buf 513 70656 full_dev)) = Some 2
   \<and> two_buf 0 = 1"
  by (simp add: fs_eval_defs fs_eval_index_defs big_inode_def full_dev_def two_buf_def
        returned_def heap_ok_def)

theorem inode_write_at_full_disk_witness:
  "\<exists>ino' dev'. inode_write_at big_inode two_buf 513 70656 full_dev = Ok (513, ino', dev')
      \<and> ilength (data ino') = 71169 \<and> disk dev' 0 0 = 2 \<and> two_buf 0 = 1"
  using inode_write_at_full_disk
  by (cases "inode_write_at big_inode two_buf 513 70656 full_dev") (auto simp: returned_def)

section \<open>Properties of directory removal\<close>

subsection \<open>Reads with an allocator that does not fail\<close>

lemma heap_ok_eq: "heap_ok h \<Longrightarrow> h = (\<lambda>n. True)"
  by (auto simp: heap_ok_def)

lemma fs_malloc_same: "heap_ok (fs_heap d) \<Longrightarrow> fs_malloc d = (True, d)"
proof -
  assume "heap_ok (fs_heap d)"
  then have "fs_heap d = (\<lambda>n. True)" by (rule heap_ok_eq)
  then have "(\<lambda>n. fs_heap d (Suc n)) = fs_heap d" "fs_heap d 0" by auto
  then show ?thesis by (simp add: fs_malloc_def malloc_def)
qed

lemma byte_to_sector_same:
  assumes "heap_ok (fs_heap d)" "byte_to_sector ino pos len d = Ok (s, d')"
  shows "d' = d"
  using assms
  by (auto simp: byte_to_sector_def Let_def fs_malloc_same split: if_splits)

lemma byte_to_sector_indep:
  assumes "heap_ok (fs_heap d1)" "heap_ok (fs_heap d2)" "disk d1 = disk d2"
    and "byte_to_sector ino pos len d1 = Ok (s, d1')"
  shows "byte_to_sector ino pos len d2 = Ok (s, d2)"
  using assms
  by (auto simp: byte_to_sector_def Let_def fs_malloc_same split: if_splits)

lemma read_loop_indep:
  assumes "heap_ok (fs_heap d1)" "heap_ok (fs_heap d2)" "disk d1 = disk d2"
    and "read_loop ino sz offset bytes_read bounce buffer d1 = Ok (n, b, d1')"
  shows "read_loop ino sz offset bytes_read bounce buffer d2 = Ok (n, b, d2)"
  using assms(4)
proof (induction "nat sz" arbitrary: sz offset bytes_read bounce buffer rule: less_induct)
  case less
  show ?case
  proof (cases "sz > 0")
    case False
    with less.prems show ?thesis
      by (subst read_loop.simps, subst (asm) read_loop.simps) simp
  next
    case True
    from less.prems True obtain s dx where
      b1: "byte_to_sector ino offset (inode_length ino) d1 = Ok (s, dx)"
      by (subst (asm) read_loop.simps) (auto split: result.splits)
    from byte_to_sector_same [OF assms(1) b1] b1 have
      b1': "byte_to_sector ino offset (inode_length ino) d1 = Ok (s, d1)" by simp
    from byte_to_sector_indep [OF assms(1,2,3) b1] have
      b2: "byte_to_sector ino offset (inode_length ino) d2 = Ok (s, d2)" .
    define chunk where "chunk = chunk_size_at sz offset (inode_length ino)"
    have m1: "(if bounce then (True, d1) else fs_malloc d1) = (True, d1)"
      using assms(1) by (simp add: fs_malloc_same)
    have m2: "(if bounce then (True, d2) else fs_malloc d2) = (True, d2)"
      using assms(2) by (simp add: fs_malloc_same)
    show ?thesis
    proof (cases "chunk \<le> 0")
      case True
      with less.prems \<open>sz > 0\<close> b1' b2 show ?thesis
        by (subst read_loop.simps, subst (asm) read_loop.simps)
           (simp add: Let_def chunk_def [symmetric])
    next
      case pos: False
      then have lt: "nat (sz - chunk) < nat sz" using True by simp
      note ih = less.hyps [OF lt]
      show ?thesis
      proof (cases "offset smod 512 = 0 \<and> chunk = 512")
        case direct: True
        from less.prems True b1' pos direct have
          "read_loop ino (sz - chunk) (offset + chunk) (bytes_read + chunk) bounce
             (memcpy buffer (nat bytes_read) (block_read (disk d1) s) 0 512) d1 = Ok (n, b, d1')"
          by (subst (asm) read_loop.simps) (simp add: Let_def chunk_def [symmetric])
        from ih [OF this] True b2 pos direct assms(3) show ?thesis
          by (subst read_loop.simps) (simp add: Let_def chunk_def [symmetric])
      next
        case nd: False
        show ?thesis
        proof (cases "offset smod 512 < 0")
          case True
          with less.prems \<open>sz > 0\<close> b1' pos nd show ?thesis
            by (subst (asm) read_loop.simps)
               (auto simp add: Let_def chunk_def [symmetric] m1)
        next
          case False
          with less.prems True b1' pos nd have
            "read_loop ino (sz - chunk) (offset + chunk) (bytes_read + chunk) True
               (memcpy buffer (nat bytes_read) (block_read (disk d1) s)
                  (nat (offset smod 512)) (nat chunk)) d1 = Ok (n, b, d1')"
            by (subst (asm) read_loop.simps)
               (auto simp add: Let_def chunk_def [symmetric] m1)
          from ih [OF this] True b2 pos nd False assms(3) show ?thesis
            by (subst read_loop.simps)
               (auto simp add: Let_def chunk_def [symmetric] m2)
        qed
      qed
    qed
  qed
qed

lemma inode_read_at_indep:
  assumes "heap_ok (fs_heap d1)" "heap_ok (fs_heap d2)" "disk d1 = disk d2"
    and "inode_read_at ino buffer sz offset d1 = Ok (n, b, d1')"
  shows "inode_read_at ino buffer sz offset d2 = Ok (n, b, d2)"
  using read_loop_indep [OF assms(1,2,3)] assms(4) by (simp add: inode_read_at_def)

lemma inode_read_at_same:
  assumes "heap_ok (fs_heap d)" "inode_read_at ino buffer sz offset d = Ok (n, b, d')"
  shows "d' = d"
  using inode_read_at_indep [OF assms(1) assms(1) refl assms(2)] assms(2) by simp

text \<open>A read that lies inside the file and returns, returns all the bytes asked for.\<close>

lemma read_loop_full:
  assumes "heap_ok (fs_heap d)" "0 \<le> offset" "0 \<le> sz" "offset + sz \<le> inode_length ino"
    and "read_loop ino sz offset bytes_read bounce buffer d = Ok (n, b, d')"
  shows "n = bytes_read + sz"
  using assms(2-5)
proof (induction "nat sz" arbitrary: sz offset bytes_read bounce buffer rule: less_induct)
  case less
  show ?case
  proof (cases "sz > 0")
    case False
    with less.prems show ?thesis by (subst (asm) read_loop.simps) simp
  next
    case True
    from less.prems(4) True obtain s dx where
      b: "byte_to_sector ino offset (inode_length ino) d = Ok (s, dx)"
      by (subst (asm) read_loop.simps) (auto split: result.splits)
    from byte_to_sector_same [OF assms(1) b] b have
      b': "byte_to_sector ino offset (inode_length ino) d = Ok (s, d)" by simp
    define chunk where "chunk = chunk_size_at sz offset (inode_length ino)"
    from chunk_size_at_pos [OF less.prems(1) True less.prems(3)]
    have c: "0 < chunk" "chunk \<le> sz" and so: "0 \<le> offset smod 512"
      by (simp_all add: chunk_def)
    have lt: "nat (sz - chunk) < nat sz" using c True by simp
    have pre: "0 \<le> offset + chunk" "0 \<le> sz - chunk"
      "offset + chunk + (sz - chunk) \<le> inode_length ino"
      using less.prems c by simp_all
    have m: "(if bounce then (True, d) else fs_malloc d) = (True, d)"
      using assms(1) by (simp add: fs_malloc_same)
    from less.prems(4) True b' c so
    have "\<exists>bn bf. read_loop ino (sz - chunk) (offset + chunk) (bytes_read + chunk) bn bf d
             = Ok (n, b, d')"
      by (subst (asm) read_loop.simps)
         (auto simp add: Let_def chunk_def [symmetric] m split: if_splits)
    then obtain bn bf where
      "read_loop ino (sz - chunk) (offset + chunk) (bytes_read + chunk) bn bf d = Ok (n, b, d')"
      by blast
    from less.hyps [OF lt pre this] show ?thesis by simp
  qed
qed

lemma inode_read_at_full:
  assumes "heap_ok (fs_heap d)" "0 \<le> offset" "0 \<le> sz" "offset + sz \<le> ilength (data ino)"
    and "inode_read_at ino buffer sz offset d = Ok (n, b, d')"
  shows "n = sz"
  using read_loop_full [OF assms(1,2,3), of ino 0 False buffer n b d'] assms(4,5)
  by (simp add: inode_read_at_def inode_length_def)

text \<open>
  If the loop of \<open>dir_readdir\<close> started at a position \<open>pos \<ge> 0\<close> finds nothing,
  every entry at \<open>pos\<close>, \<open>pos + 20\<close>, ... that lies inside the file has been read
  and is not in use.
\<close>

lemma readdir_loop_none:
  assumes "heap_ok (fs_heap d)" "0 \<le> pos"
    and "readdir_loop ino pos d = Ok (False, e, pos', d')"
  shows "\<forall>j::nat. pos + 20 * int j + 20 \<le> ilength (data ino) \<longrightarrow>
           (\<exists>b. inode_read_at ino zeros 20 (pos + 20 * int j) d = Ok (20, b, d)
                \<and> \<not> entry_in_use b)"
  using assms(2,3)
proof (induction "nat (ilength (data ino) + 1 - pos)" arbitrary: pos rule: less_induct)
  case less
  from less.prems(2) obtain n b dx where
    r: "inode_read_at ino zeros 20 pos d = Ok (n, b, dx)"
    by (subst (asm) readdir_loop.simps) (auto split: result.splits)
  from inode_read_at_same [OF assms(1) r] r have
    r': "inode_read_at ino zeros 20 pos d = Ok (n, b, d)" by simp
  show ?case
  proof (cases "n = 20")
    case False
    have "\<not> pos + 20 \<le> ilength (data ino)"
      using inode_read_at_full [OF assms(1) less.prems(1) _ _ r', of ] False by auto
    then show ?thesis by auto
  next
    case True
    from less.prems(2) r' True have nu: "\<not> entry_in_use b"
      and rec: "readdir_loop ino (pos + 20) d = Ok (False, e, pos', d')"
      by (subst (asm) readdir_loop.simps, auto split: if_splits)+
    from inode_read_at_bound [OF r'] True have "pos + 20 \<le> ilength (data ino)" by simp
    then have lt: "nat (ilength (data ino) + 1 - (pos + 20)) < nat (ilength (data ino) + 1 - pos)"
      by simp
    have ih: "\<forall>j::nat. pos + 20 + 20 * int j + 20 \<le> ilength (data ino) \<longrightarrow>
           (\<exists>b. inode_read_at ino zeros 20 (pos + 20 + 20 * int j) d = Ok (20, b, d)
                \<and> \<not> entry_in_use b)"
      using less.hyps [OF lt _ rec] less.prems(1) by simp
    show ?thesis
    proof (intro allI impI)
      fix j :: nat
      assume a: "pos + 20 * int j + 20 \<le> ilength (data ino)"
      show "\<exists>b. inode_read_at ino zeros 20 (pos + 20 * int j) d = Ok (20, b, d) \<and> \<not> entry_in_use b"
      proof (cases j)
        case 0
        with r' True nu show ?thesis by auto
      next
        case (Suc k)
        have eq: "pos + 20 * int j = pos + 20 + 20 * int k" using Suc by simp
        from a have "pos + 20 + 20 * int k + 20 \<le> ilength (data ino)" unfolding eq .
        from ih [rule_format, OF this] show ?thesis unfolding eq .
      qed
    qed
  qed
qed

subsection \<open>The list of open inodes\<close>

lemma inode_ptr_sector: "inode_ptr fs p = Some i \<Longrightarrow> sector i = p"
  by (auto simp: inode_ptr_def find_Some_iff)

lemma find_inode_store_other:
  "p \<noteq> sector i \<Longrightarrow> find (\<lambda>j. sector j = p) (inode_store i xs) = find (\<lambda>j. sector j = p) xs"
  by (induction xs) auto

lemma find_inode_unlink_other:
  "p \<noteq> q \<Longrightarrow> find (\<lambda>j. sector j = p) (inode_unlink q xs) = find (\<lambda>j. sector j = p) xs"
  by (induction xs) auto

lemma inode_open_props:
  assumes "heap_ok (fs_heap (device fs))" "inode_open s fs = (r, fs')"
  shows "r = Some s \<and> device fs' = device fs \<and> (\<forall>p. p \<noteq> s \<longrightarrow> inode_ptr fs' p = inode_ptr fs p)"
proof (cases "inode_ptr fs s")
  case None
  with assms show ?thesis
    by (auto simp: inode_open_def fs_malloc_same inode_ptr_def)
next
  case (Some ino)
  then have "sector ino = s" by (rule inode_ptr_sector)
  with assms Some show ?thesis
    by (auto simp: inode_open_def inode_ptr_def find_inode_store_other)
qed

lemma free_map_release_props:
  "disk (free_map_release d s) = disk d \<and> fs_heap (free_map_release d s) = fs_heap d"
  by (simp add: free_map_release_def)

lemma release_entries_props:
  "disk (release_entries blk n d) = disk d \<and> fs_heap (release_entries blk n d) = fs_heap d"
proof -
  have "disk (fold (\<lambda>index d'. free_map_release d' (blk index)) xs d) = disk d \<and>
        fs_heap (fold (\<lambda>index d'. free_map_release d' (blk index)) xs d) = fs_heap d" for xs
    by (induction xs arbitrary: d) (simp_all add: free_map_release_props)
  then show ?thesis by (simp add: release_entries_def)
qed

lemma release_second_level_props:
  "release_second_level xs sl sectors d = Ok d' \<Longrightarrow> disk d' = disk d \<and> fs_heap d' = fs_heap d"
proof (induction xs arbitrary: sectors d)
  case Nil
  then show ?case by simp
next
  case (Cons x xs)
  then show ?case
    by (fastforce simp: Let_def release_entries_props free_map_release_props split: if_splits)
qed

lemma release_data_props:
  assumes "heap_ok (fs_heap d)" "release_data ino d = Ok (ok, d')"
  shows "disk d' = disk d \<and> fs_heap d' = fs_heap d"
  using assms unfolding release_data_def Let_def
  by (auto simp: fs_malloc_same release_entries_props free_map_release_props
           split: if_splits result.splits dest!: release_second_level_props)

lemma inode_close_props:
  assumes "heap_ok (fs_heap (device fs))" "inode_close (Some s) fs = Ok fs'"
  shows "disk (device fs') = disk (device fs) \<and> heap_ok (fs_heap (device fs')) \<and>
         (\<forall>p. p \<noteq> s \<longrightarrow> inode_ptr fs' p = inode_ptr fs p)"
proof -
  from assms(2) obtain ino where i: "inode_ptr fs s = Some ino"
    by (auto simp: inode_close_def split: option.splits)
  then have sec: "sector ino = s" by (rule inode_ptr_sector)
  show ?thesis
  proof (cases "open_cnt ino - 1 = 0")
    case False
    with assms i sec show ?thesis
      by (auto simp: inode_close_def Let_def inode_ptr_def find_inode_store_other)
  next
    case True
    let ?fs1 = "fs\<lparr>open_inodes := inode_unlink s (open_inodes fs)\<rparr>"
    have p1: "\<forall>p. p \<noteq> s \<longrightarrow> inode_ptr ?fs1 p = inode_ptr fs p"
      by (simp add: inode_ptr_def find_inode_unlink_other)
    show ?thesis
    proof (cases "removed ino")
      case False
      with assms i True p1 show ?thesis
        by (auto simp: inode_close_def Let_def)
    next
      case rem: True
      from assms(2) i True rem obtain ok d1 where
        rd: "release_data (ino\<lparr>open_cnt := open_cnt ino - 1\<rparr>) (device fs) = Ok (ok, d1)"
        and fs': "fs' = (if \<not> ok then ?fs1\<lparr>device := d1\<rparr>
                   else ?fs1\<lparr>device := free_map_release d1 s\<rparr>)"
        using sec by (auto simp: inode_close_def Let_def split: result.splits if_splits)
      from release_data_props [OF assms(1) rd] assms(1) fs' p1 show ?thesis
        by (auto simp: free_map_release_props inode_ptr_def)
    qed
  qed
qed

lemma dir_open_props:
  assumes "heap_ok (fs_heap (device fs))"
  shows "dir_open (Some p) fs = Ok (Some \<lparr>dir_inode = p, dir_pos = 0\<rparr>, fs)"
  using assms by (simp add: dir_open_def fs_malloc_same)

subsection \<open>The emptiness test\<close>

lemma readdir_loop_same:
  assumes "heap_ok (fs_heap d)"
  shows "readdir_loop ino pos d = Ok (found, e, pos', d') \<Longrightarrow> d' = d"
proof (induction "nat (ilength (data ino) + 1 - pos)" arbitrary: pos rule: less_induct)
  case less
  from less.prems obtain n b dx where
    r: "inode_read_at ino zeros 20 pos d = Ok (n, b, dx)"
    by (subst (asm) readdir_loop.simps) (auto split: result.splits)
  from inode_read_at_same [OF assms r] r have
    r': "inode_read_at ino zeros 20 pos d = Ok (n, b, d)" by simp
  show ?case
  proof (cases "n = 20 \<and> \<not> entry_in_use b")
    case False
    with less.prems r' show ?thesis
      by (subst (asm) readdir_loop.simps) (auto split: if_splits)
  next
    case True
    with less.prems r' have rec: "readdir_loop ino (pos + 20) d = Ok (found, e, pos', d')"
      by (subst (asm) readdir_loop.simps) auto
    from inode_read_at_bound [OF r'] True have "pos + 20 \<le> ilength (data ino)" by simp
    then have "nat (ilength (data ino) + 1 - (pos + 20)) < nat (ilength (data ino) + 1 - pos)"
      by simp
    from less.hyps [OF this rec] show ?thesis .
  qed
qed

text \<open>
  \<open>dir_can_remove\<close> writes nothing, and when it answers yes the inode is not the
  root's, its open count is at most 1, and every entry inside the directory has been
  read and is not in use.
\<close>

lemma dir_can_remove_props:
  assumes h: "heap_ok (fs_heap (device fs2))"
    and p: "inode_ptr fs2 t = Some target"
    and c: "dir_can_remove t fs2 = Ok (can, fs3)"
  shows "disk (device fs3) = disk (device fs2) \<and> heap_ok (fs_heap (device fs3)) \<and>
         (can \<longrightarrow> t \<noteq> ROOT_DIR_SECTOR \<and> open_cnt target \<le> 1 \<and>
            (\<forall>j::nat. 20 * int j + 20 \<le> ilength (data target) \<longrightarrow>
               (\<exists>b. inode_read_at target zeros 20 (20 * int j) (device fs2)
                       = Ok (20, b, device fs2) \<and> \<not> entry_in_use b)))"
proof -
  let ?h0 = "\<lparr>dir_inode = t, dir_pos = 0\<rparr>"
  have dopen: "dir_open (Some t) fs2 = Ok (Some ?h0, fs2)"
    using h by (rule dir_open_props)
  obtain r fsA where io: "inode_open ROOT_DIR_SECTOR fs2 = (r, fsA)"
    by (cases "inode_open ROOT_DIR_SECTOR fs2")
  from inode_open_props [OF h io] have r: "r = Some ROOT_DIR_SECTOR"
    and dA: "device fsA = device fs2"
    and oA: "\<And>q. q \<noteq> ROOT_DIR_SECTOR \<Longrightarrow> inode_ptr fsA q = inode_ptr fs2 q"
    by auto
  have hA: "heap_ok (fs_heap (device fsA))" using h dA by simp
  have droot: "dir_open_root fs2 = Ok (Some \<lparr>dir_inode = ROOT_DIR_SECTOR, dir_pos = 0\<rparr>, fsA)"
    using io r dir_open_props [OF hA] by (simp add: dir_open_root_def)
  from c obtain root_inode targetA fsB where
    ri: "inode_ptr fsA ROOT_DIR_SECTOR = Some root_inode"
    and ta: "inode_ptr fsA t = Some targetA"
    and cl: "inode_close (Some ROOT_DIR_SECTOR) fsA = Ok fsB"
    and c2: "(case dir_readdir ?h0 fsB of
                Exit st \<Rightarrow> Exit st | Panic \<Rightarrow> Panic | Fault \<Rightarrow> Fault
              | Ok (found, name, h', fs4) \<Rightarrow>
                  if found \<or> sector targetA = sector root_inode then Ok (False, fs4)
                  else
                    (case inode_ptr fs4 t of
                       None \<Rightarrow> Fault
                     | Some target' \<Rightarrow> Ok (\<not> open_cnt target' > 1, fs4))) = Ok (can, fs3)"
    by (auto simp: dir_can_remove_def dopen droot dir_close_def Let_def
             split: option.splits result.splits)
  from inode_close_props [OF hA cl] have dB: "disk (device fsB) = disk (device fs2)"
    and hB: "heap_ok (fs_heap (device fsB))"
    and oB: "\<And>q. q \<noteq> ROOT_DIR_SECTOR \<Longrightarrow> inode_ptr fsB q = inode_ptr fsA q"
    using dA by auto
  from c2 obtain tB found e pos d1 where
    tb: "inode_ptr fsB t = Some tB"
    and rl: "readdir_loop tB 0 (device fsB) = Ok (found, e, pos, d1)"
    and c3: "(if found \<or> sector targetA = sector root_inode then Ok (False, fsB\<lparr>device := d1\<rparr>)
              else (case inode_ptr (fsB\<lparr>device := d1\<rparr>) t of
                      None \<Rightarrow> Fault
                    | Some target' \<Rightarrow> Ok (\<not> open_cnt target' > 1, fsB\<lparr>device := d1\<rparr>)))
             = Ok (can, fs3)"
    by (auto simp: dir_readdir_def split: option.splits result.splits)
  from readdir_loop_same [OF hB rl] have d1: "d1 = device fsB" .
  have fsB: "fsB\<lparr>device := d1\<rparr> = fsB" using d1 by simp
  from c3 have f3: "fs3 = fsB"
    unfolding fsB by (auto split: if_splits option.splits)
  have st: "disk (device fs3) = disk (device fs2)" "heap_ok (fs_heap (device fs3))"
    using f3 dB hB by simp_all
  have secs: "sector targetA = t" "sector root_inode = ROOT_DIR_SECTOR"
    using ta ri by (auto dest: inode_ptr_sector)
  have rest: "t \<noteq> ROOT_DIR_SECTOR \<and> open_cnt target \<le> 1 \<and>
            (\<forall>j::nat. 20 * int j + 20 \<le> ilength (data target) \<longrightarrow>
               (\<exists>b. inode_read_at target zeros 20 (20 * int j) (device fs2)
                       = Ok (20, b, device fs2) \<and> \<not> entry_in_use b))" if can
  proof -
    from c3 that secs have nr: "t \<noteq> ROOT_DIR_SECTOR" and nf: "\<not> found"
      by (auto split: if_splits)
    from oB [OF nr] oA [OF nr] p tb have tB: "tB = target" by simp
    from c3 that nr nf secs tb have "open_cnt target \<le> 1"
      unfolding fsB tB by (auto split: if_splits)
    moreover have "\<exists>b. inode_read_at target zeros 20 (20 * int j) (device fs2)
                       = Ok (20, b, device fs2) \<and> \<not> entry_in_use b"
      if "20 * int j + 20 \<le> ilength (data target)" for j :: nat
    proof -
      from rl nf d1 tB have "readdir_loop target 0 (device fsB) = Ok (False, e, pos, device fsB)"
        by simp
      from readdir_loop_none [OF hB _ this, rule_format, of j] that obtain b where
        "inode_read_at target zeros 20 (20 * int j) (device fsB) = Ok (20, b, device fsB)"
        "\<not> entry_in_use b"
        by auto
      with inode_read_at_indep [OF hB h dB] show ?thesis by blast
    qed
    ultimately show ?thesis using nr by blast
  qed
  from st rest show ?thesis by blast
qed

subsection \<open>Finding the entry\<close>

lemma lookup_loop_same:
  assumes "heap_ok (fs_heap d)"
  shows "lookup_loop ino name ofs d = Ok (found, d') \<Longrightarrow> d' = d"
proof (induction "nat (ilength (data ino) + 1 - int ofs)" arbitrary: ofs rule: less_induct)
  case less
  from less.prems obtain n b dx where
    r: "inode_read_at ino zeros 20 (int ofs) d = Ok (n, b, dx)"
    by (subst (asm) lookup_loop.simps) (auto split: result.splits)
  from inode_read_at_same [OF assms r] r have
    r': "inode_read_at ino zeros 20 (int ofs) d = Ok (n, b, d)" by simp
  show ?case
  proof (cases "n = 20 \<and> \<not> (entry_in_use b \<and> name = entry_name b)")
    case False
    with less.prems r' show ?thesis
      by (subst (asm) lookup_loop.simps) (auto split: if_splits)
  next
    case True
    with less.prems r' have rec: "lookup_loop ino name (ofs + 20) d = Ok (found, d')"
      by (subst (asm) lookup_loop.simps) auto
    from inode_read_at_bound [OF r'] True have "int ofs + 20 \<le> ilength (data ino)" by simp
    then have "nat (ilength (data ino) + 1 - int (ofs + 20)) < nat (ilength (data ino) + 1 - int ofs)"
      by simp
    from less.hyps [OF this rec] show ?thesis .
  qed
qed

lemma lookup_sector_loop_same:
  assumes "heap_ok (fs_heap d)"
  shows "lookup_sector_loop ino sec ofs d = Ok (found, d') \<Longrightarrow> d' = d"
proof (induction "nat (ilength (data ino) + 1 - int ofs)" arbitrary: ofs rule: less_induct)
  case less
  from less.prems obtain n b dx where
    r: "inode_read_at ino zeros 20 (int ofs) d = Ok (n, b, dx)"
    by (subst (asm) lookup_sector_loop.simps) (auto split: result.splits)
  from inode_read_at_same [OF assms r] r have
    r': "inode_read_at ino zeros 20 (int ofs) d = Ok (n, b, d)" by simp
  show ?case
  proof (cases "n = 20 \<and> \<not> (entry_in_use b \<and> entry_inode_sector b = sec)")
    case False
    with less.prems r' show ?thesis
      by (subst (asm) lookup_sector_loop.simps) (auto split: if_splits)
  next
    case True
    with less.prems r' have rec: "lookup_sector_loop ino sec (ofs + 20) d = Ok (found, d')"
      by (subst (asm) lookup_sector_loop.simps) auto
    from inode_read_at_bound [OF r'] True have "int ofs + 20 \<le> ilength (data ino)" by simp
    then have "nat (ilength (data ino) + 1 - int (ofs + 20)) < nat (ilength (data ino) + 1 - int ofs)"
      by simp
    from less.hyps [OF this rec] show ?thesis .
  qed
qed

lemma dir_open_parent_props:
  assumes "heap_ok (fs_heap (device fs))" "dir_open_parent d fs = Ok (c, fs1)"
  shows "device fs1 = device fs"
proof -
  from assms(2) obtain ino where i: "inode_ptr fs (dir_inode d) = Some ino"
    by (auto simp: dir_open_parent_def split: option.splits)
  show ?thesis
  proof (cases "parent_directory (data ino) = 0")
    case True
    with assms(2) i show ?thesis by (simp add: dir_open_parent_def)
  next
    case False
    obtain r fsA where io: "inode_open (parent_directory (data ino)) fs = (r, fsA)"
      by (cases "inode_open (parent_directory (data ino)) fs")
    from inode_open_props [OF assms(1) io] have r: "r = Some (parent_directory (data ino))"
      and dA: "device fsA = device fs" by auto
    have hA: "heap_ok (fs_heap (device fsA))" using assms(1) dA by simp
    from assms(2) i False io r dir_open_props [OF hA] dA show ?thesis
      by (simp add: dir_open_parent_def Let_def)
  qed
qed

lemma dir_remove_find_props:
  assumes "heap_ok (fs_heap (device fs))" "dir_remove_find d name fs = Ok (c, found, fs1)"
  shows "device fs1 = device fs"
proof (cases "name = CURRENT_DIRECTORY")
  case False
  with assms(2) obtain ci d1 where "lookup ci name (device fs) = Ok (found, d1)"
    "fs1 = fs\<lparr>device := d1\<rparr>"
    by (auto simp: dir_remove_find_def split: option.splits result.splits)
  with lookup_loop_same [OF assms(1), of ci name 0 found d1] show ?thesis
    by (simp add: lookup_def)
next
  case True
  from assms(2) True obtain cur fsP where op: "dir_open_parent d fs = Ok (cur, fsP)"
    by (auto simp: dir_remove_find_def split: option.splits result.splits)
  from dir_open_parent_props [OF assms(1) op] have dP: "device fsP = device fs" .
  then have hP: "heap_ok (fs_heap (device fsP))" using assms(1) by simp
  from assms(2) True op have
    "\<exists>ci s d1. lookup_sector_loop ci s 0 (device fsP) = Ok (found, d1) \<and> device fs1 = d1"
    by (auto simp: dir_remove_find_def lookup_sector_def split: option.splits result.splits)
       blast
  then obtain ci s d1 where "lookup_sector_loop ci s 0 (device fsP) = Ok (found, d1)"
    and "device fs1 = d1"
    by blast
  with lookup_sector_loop_same [OF hP] dP show ?thesis by simp
qed

lemma dir_close_props:
  assumes "heap_ok (fs_heap (device fs))" "dir_close c fs = Ok fs'"
  shows "disk (device fs') = disk (device fs) \<and> heap_ok (fs_heap (device fs'))"
proof (cases c)
  case None
  with assms show ?thesis by (simp add: dir_close_def)
next
  case (Some hd)
  with assms(2) have "inode_close (Some (dir_inode hd)) fs = Ok fs'"
    by (simp add: dir_close_def)
  from inode_close_props [OF assms(1) this] show ?thesis by simp
qed

subsection \<open>Removal of a directory\<close>

text \<open>The equations that run the directory layer on concrete inputs.\<close>

lemmas dir_eval_defs =
  dir_remove_def dir_remove_find_def dir_remove_entry_def dir_can_remove_def
  dir_open_def dir_open_root_def dir_open_parent_def dir_close_def dir_readdir_def
  readdir_loop.simps lookup_def lookup_loop.simps lookup_sector_def lookup_sector_loop.simps
  inode_open_def inode_close_def inode_remove_def inode_ptr_def inode_is_dir_def
  entry_inode_sector_def entry_name_def entry_in_use_def read_inode_disk_def s32_def
  ROOT_DIR_SECTOR_def CURRENT_DIRECTORY_def release_data_def release_entries_def
  free_map_release_def

lemmas dir_fixture_defs =
  dir_fs_def root_handle_def root_open_def subdir_data_def entry_image_def
  empty_dir_fs_def nonempty_dir_fs_def failing_dir_fs_def


text \<open>
  When no request to the kernel allocator fails, a call of \<open>dir_remove\<close> that finds
  an entry whose inode is a directory and returns, returns true only if that directory
  is not the root, has an open count of at most 1 (the one of \<open>dir_remove\<close>
  itself), and every entry slot inside it has been read and is not in use; and if some
  entry of the directory is in use, the call returns false and writes no sector of the
  device, so the entry in the parent is unchanged.
\<close>

lemma dir_remove_directory:
  assumes h: "heap_ok (fs_heap (device fs))"
    and f: "dir_remove_find d name fs = Ok (current_dir, Some (e, ofs), fs1)"
    and o: "inode_open (entry_inode_sector e) fs1 = (Some t, fs2)"
    and p: "inode_ptr fs2 t = Some target"
    and isdir: "inode_is_dir target"
    and r: "dir_remove d name fs = Ok (success, fs')"
  shows "(success \<longrightarrow>
            t \<noteq> ROOT_DIR_SECTOR \<and> open_cnt target \<le> 1 \<and>
            (\<forall>j::nat. 20 * int j + 20 \<le> ilength (data target) \<longrightarrow>
               (\<exists>b. inode_read_at target zeros 20 (20 * int j) (device fs2)
                       = Ok (20, b, device fs2) \<and> \<not> entry_in_use b)))
       \<and> ((\<exists>(j::nat) b. inode_read_at target zeros 20 (20 * int j) (device fs2)
                            = Ok (20, b, device fs2) \<and> entry_in_use b)
            \<longrightarrow> \<not> success \<and> disk (device fs') = disk (device fs))"
proof -
  from dir_remove_find_props [OF h f] have d1: "device fs1 = device fs" .
  then have h1: "heap_ok (fs_heap (device fs1))" using h by simp
  from inode_open_props [OF h1 o] have d2: "device fs2 = device fs1" by simp
  then have h2: "heap_ok (fs_heap (device fs2))" using h1 by simp
  from r f obtain ino fs6 fs7 where
    re: "dir_remove_entry current_dir e ofs fs1 = Ok (success, ino, fs6)"
    and cl: "(if name = CURRENT_DIRECTORY then dir_close current_dir fs6 else Ok fs6) = Ok fs7"
    and ic: "inode_close ino fs7 = Ok fs'"
    by (auto simp: dir_remove_def split: result.splits)
  from re o p isdir obtain can fs3 where
    c: "dir_can_remove t fs2 = Ok (can, fs3)"
    and sc: "success \<longrightarrow> can"
    and nc: "\<not> can \<longrightarrow> ino = Some t \<and> fs6 = fs3"
    by (auto simp: dir_remove_entry_def Let_def split: result.splits option.splits if_splits)
  note props = dir_can_remove_props [OF h2 p c]
  have part1: "t \<noteq> ROOT_DIR_SECTOR \<and> open_cnt target \<le> 1 \<and>
            (\<forall>j::nat. 20 * int j + 20 \<le> ilength (data target) \<longrightarrow>
               (\<exists>b. inode_read_at target zeros 20 (20 * int j) (device fs2)
                       = Ok (20, b, device fs2) \<and> \<not> entry_in_use b))" if success
    using props sc that by blast
  have part2: "\<not> success \<and> disk (device fs') = disk (device fs)"
    if live: "\<exists>(j::nat) b. inode_read_at target zeros 20 (20 * int j) (device fs2)
                            = Ok (20, b, device fs2) \<and> entry_in_use b"
  proof -
    from live obtain j :: nat and b where
      rb: "inode_read_at target zeros 20 (20 * int j) (device fs2) = Ok (20, b, device fs2)"
      and ub: "entry_in_use b" by blast
    from inode_read_at_bound [OF rb] have inside: "20 * int j + 20 \<le> ilength (data target)"
      by simp
    have ncan: "\<not> can"
    proof
      assume can
      with props inside obtain b' where
        "inode_read_at target zeros 20 (20 * int j) (device fs2) = Ok (20, b', device fs2)"
        "\<not> entry_in_use b'" by blast
      with rb ub show False by simp
    qed
    with sc have ns: "\<not> success" by blast
    from ncan nc have i: "ino = Some t" and f6: "fs6 = fs3" by simp_all
    from props have d3: "disk (device fs3) = disk (device fs2)"
      and h3: "heap_ok (fs_heap (device fs3))" by simp_all
    have "disk (device fs7) = disk (device fs3) \<and> heap_ok (fs_heap (device fs7))"
    proof (cases "name = CURRENT_DIRECTORY")
      case True
      with cl f6 have "dir_close current_dir fs3 = Ok fs7" by simp
      from dir_close_props [OF h3 this] show ?thesis .
    next
      case False
      with cl f6 h3 show ?thesis by simp
    qed
    then have d7: "disk (device fs7) = disk (device fs3)"
      and h7: "heap_ok (fs_heap (device fs7))" by simp_all
    from ic i have "inode_close (Some t) fs7 = Ok fs'" by simp
    from inode_close_props [OF h7 this] have "disk (device fs') = disk (device fs7)" by simp
    with d7 d3 d2 d1 ns show ?thesis by simp
  qed
  from part1 part2 show ?thesis by blast
qed

text \<open>
  On the fixtures with an allocator that does not fail, the empty directory \<open>e\<close> is
  removed and the directory \<open>e\<close> that holds the live entry \<open>f\<close> is not.
\<close>

lemma dir_remove_directory_runs:
  "(\<exists>fs' target b.
      dir_remove root_handle [101] empty_dir_fs = Ok (True, fs')
      \<and> inode_is_dir target \<and> 3 \<noteq> ROOT_DIR_SECTOR \<and> open_cnt target \<le> 1
      \<and> 20 \<le> ilength (data target)
      \<and> inode_read_at target zeros 20 0 (device empty_dir_fs)
            = Ok (20, b, device empty_dir_fs)
      \<and> \<not> entry_in_use b)
   \<and> (\<exists>fs' target b.
      dir_remove root_handle [101] nonempty_dir_fs = Ok (False, fs')
      \<and> inode_is_dir target
      \<and> inode_read_at target zeros 20 0 (device nonempty_dir_fs)
            = Ok (20, b, device nonempty_dir_fs)
      \<and> entry_in_use b
      \<and> disk (device fs') = disk (device nonempty_dir_fs))"
proof -
  have h1: "heap_ok (fs_heap (device empty_dir_fs))"
    by (simp add: heap_ok_def dir_fixture_defs)
  obtain e where f1: "dir_remove_find root_handle [101] empty_dir_fs
                        = Ok (Some root_handle, Some (e, 0), empty_dir_fs)"
    and e1: "entry_inode_sector e = 3"
    by (simp add: dir_eval_defs dir_fixture_defs fs_eval_defs fs_eval_index_defs)
  obtain fs2 target where o1: "inode_open 3 empty_dir_fs = (Some 3, fs2)"
    and p1: "inode_ptr fs2 3 = Some target" and i1: "inode_is_dir target"
    and l1: "ilength (data target) = 20" and d1: "device fs2 = device empty_dir_fs"
    by (simp add: dir_eval_defs dir_fixture_defs fs_eval_defs fs_eval_index_defs)
  obtain fs' where r1: "dir_remove root_handle [101] empty_dir_fs = Ok (True, fs')"
    by (simp add: dir_eval_defs dir_fixture_defs fs_eval_defs fs_eval_index_defs)
  from o1 e1 have o1': "inode_open (entry_inode_sector e) empty_dir_fs = (Some 3, fs2)"
    by simp
  note th1 = dir_remove_directory [OF h1 f1 o1' p1 i1 r1]
  from th1 have c1: "3 \<noteq> ROOT_DIR_SECTOR" "open_cnt target \<le> 1"
    and all1: "\<forall>j::nat. 20 * int j + 20 \<le> ilength (data target) \<longrightarrow>
               (\<exists>b. inode_read_at target zeros 20 (20 * int j) (device fs2)
                       = Ok (20, b, device fs2) \<and> \<not> entry_in_use b)"
    by blast+
  from all1 [rule_format, of 0] l1 d1 obtain b where
    rd1: "inode_read_at target zeros 20 0 (device empty_dir_fs) = Ok (20, b, device empty_dir_fs)"
    and u1: "\<not> entry_in_use b"
    by auto
  have a: "\<exists>fs' target b.
      dir_remove root_handle [101] empty_dir_fs = Ok (True, fs')
      \<and> inode_is_dir target \<and> 3 \<noteq> ROOT_DIR_SECTOR \<and> open_cnt target \<le> 1
      \<and> 20 \<le> ilength (data target)
      \<and> inode_read_at target zeros 20 0 (device empty_dir_fs)
            = Ok (20, b, device empty_dir_fs)
      \<and> \<not> entry_in_use b"
    using r1 i1 c1 l1 rd1 u1 by (intro exI [of _ fs'] exI [of _ target] exI [of _ b]) simp
  have h2: "heap_ok (fs_heap (device nonempty_dir_fs))"
    by (simp add: heap_ok_def dir_fixture_defs)
  obtain e' where f2: "dir_remove_find root_handle [101] nonempty_dir_fs
                        = Ok (Some root_handle, Some (e', 0), nonempty_dir_fs)"
    and e2: "entry_inode_sector e' = 3"
    by (simp add: dir_eval_defs dir_fixture_defs fs_eval_defs fs_eval_index_defs)
  obtain fs2' target' b' where o2: "inode_open 3 nonempty_dir_fs = (Some 3, fs2')"
    and p2: "inode_ptr fs2' 3 = Some target'" and i2: "inode_is_dir target'"
    and d2: "device fs2' = device nonempty_dir_fs"
    and rd2: "inode_read_at target' zeros 20 0 (device nonempty_dir_fs)
                = Ok (20, b', device nonempty_dir_fs)"
    and u2: "entry_in_use b'"
    by (simp add: dir_eval_defs dir_fixture_defs fs_eval_defs fs_eval_index_defs)
  obtain fs'' sc where r2: "dir_remove root_handle [101] nonempty_dir_fs = Ok (sc, fs'')"
    by (simp add: dir_eval_defs dir_fixture_defs fs_eval_defs fs_eval_index_defs) blast
  from o2 e2 have o2': "inode_open (entry_inode_sector e') nonempty_dir_fs = (Some 3, fs2')"
    by simp
  note th2 = dir_remove_directory [OF h2 f2 o2' p2 i2 r2]
  have live: "\<exists>(j::nat) b. inode_read_at target' zeros 20 (20 * int j) (device fs2')
                            = Ok (20, b, device fs2') \<and> entry_in_use b"
    using rd2 u2 d2 by (intro exI [of _ 0] exI [of _ b']) simp
  from th2 live have res: "\<not> sc" "disk (device fs'') = disk (device nonempty_dir_fs)"
    by blast+
  have b: "\<exists>fs' target b.
      dir_remove root_handle [101] nonempty_dir_fs = Ok (False, fs')
      \<and> inode_is_dir target
      \<and> inode_read_at target zeros 20 0 (device nonempty_dir_fs)
            = Ok (20, b, device nonempty_dir_fs)
      \<and> entry_in_use b
      \<and> disk (device fs') = disk (device nonempty_dir_fs)"
    using r2 res i2 rd2 u2 by (intro exI [of _ fs''] exI [of _ target'] exI [of _ b']) simp
  from a b show ?thesis by (rule conjI)
qed

text \<open>
  Claim C4: for every directory handle and name, \<open>dir_remove\<close> succeeds on a target
  that is a directory only if that directory is not the root, contains no entry in use
  and has an open count of at most 1; removing a directory that still contains a live
  entry returns false and leaves its entry in the parent unchanged.

  The code does not ensure this.  \<open>dir_can_remove\<close>, whose comment says that a
  directory can be removed if it \<open>is currently empty\<close>, takes the false of
  \<open>dir_readdir\<close> for an empty directory, and \<open>dir_readdir\<close> takes a short count
  of \<open>inode_read_at\<close> for the end of the directory; but \<open>inode_read_at\<close> also
  returns a short count when the allocation of its bounce buffer fails.  On the fixture
  whose allocator fails its fifth request, which is that allocation, the directory
  \<open>e\<close> holds the live entry \<open>f\<close> and is removed all the same: \<open>dir_remove\<close>
  returns true, the entry of \<open>e\<close> in the root is no longer in use, and the sector of
  its inode is released.
\<close>

theorem dir_remove_nonempty_directory:
  "(\<exists>e fs1 fs2 target b dv.
      dir_remove_find root_handle [101] failing_dir_fs = Ok (Some root_handle, Some (e, 0), fs1)
      \<and> inode_open (entry_inode_sector e) fs1 = (Some 3, fs2)
      \<and> inode_ptr fs2 3 = Some target \<and> inode_is_dir target
      \<and> inode_read_at target zeros 20 0 (device nonempty_dir_fs) = Ok (20, b, dv)
      \<and> entry_in_use b)
   \<and> map_option fst (returned (dir_remove root_handle [101] failing_dir_fs)) = Some True
   \<and> map_option (\<lambda>r. entry_in_use (disk (device (snd r)) 2))
         (returned (dir_remove root_handle [101] failing_dir_fs)) = Some False
   \<and> map_option (\<lambda>r. free_map (device (snd r)) ! 3)
         (returned (dir_remove root_handle [101] failing_dir_fs)) = Some False
   \<and> entry_in_use (disk (device failing_dir_fs) 2)"
  by (simp add: dir_eval_defs dir_fixture_defs fs_eval_defs fs_eval_index_defs returned_def)

end
